(* ===== verification/Prelude.thy ===== *)
theory Prelude
  imports Complex_Main
begin

text \<open>
  Shared vocabulary of the development: the named collections the component theories
  feed, generic lemmas on lists of optional entries (the matrix rows of \<open>App.js\<close> hold
  a cell or \<open>null\<close>), on counting the strictly lower triangle of a square, and on
  convex combinations of integers under \<open>floor\<close> (the colour gradient of
  \<open>helpers.js\<close>).
\<close>

named_theorems js_simps "evaluation rules of the JavaScript number model"
named_theorems matrix_simps "rules that compute the shape and contents of comparison matrices"

type_synonym version = string

subsection \<open>Rows with absent entries\<close>

text \<open>The entries that are present, in order: what \<open>if (column)\<close> lets through.\<close>

primrec present :: "'a option list \<Rightarrow> 'a list" where
  "present [] = []"
| "present (x # xs) = (case x of None \<Rightarrow> present xs | Some c \<Rightarrow> c # present xs)"

text \<open>One step of a \<open>forEach\<close> that skips absent entries.\<close>

definition fold_present :: "('a \<Rightarrow> 'b \<Rightarrow> 'b) \<Rightarrow> 'a option \<Rightarrow> 'b \<Rightarrow> 'b" where
  "fold_present f x acc = (case x of None \<Rightarrow> acc | Some c \<Rightarrow> f c acc)"

lemma present_append [simp]: "present (xs @ ys) = present xs @ present ys"
  by (induction xs) (auto split: option.splits)

lemma set_present [simp]: "set (present xs) = {c. Some c \<in> set xs}"
  by (induction xs) (auto split: option.splits)

lemma present_map_option [simp]: "present (map (map_option f) xs) = map f (present xs)"
  by (induction xs) (auto split: option.splits)

lemma present_map_if [simp]:
  "present (map (\<lambda>x. if P x then Some (f x) else None) xs) = map f (filter P xs)"
  by (induction xs) auto

lemma length_present: "length (present xs) = length (filter (\<lambda>x. x \<noteq> None) xs)"
  by (induction xs) (auto split: option.splits)

text \<open>
  The nested \<open>forEach\<close> over rows and columns that skips absent cells is a fold over
  the present cells in row-major order.
\<close>

lemma fold_fold_present:
  "fold (\<lambda>row. fold (fold_present f) row) m acc = fold f (concat (map present m)) acc"
proof -
  have row: "fold (fold_present f) row acc = fold f (present row) acc" for row acc
    by (induction row arbitrary: acc) (auto simp: fold_present_def split: option.splits)
  show ?thesis
    by (induction m arbitrary: acc) (simp_all add: row)
qed

lemma butlast_Cons_tl: "tl xs \<noteq> [] \<Longrightarrow> butlast xs = hd xs # butlast (tl xs)"
  by (cases xs) simp_all

lemma butlast_tl_Nil: "tl xs = [] \<Longrightarrow> butlast xs = []"
  by (cases xs) simp_all

subsection \<open>The strictly lower triangle\<close>

lemma length_filter_less_upt: "length (filter (\<lambda>j. j < i) [0..<n]) = min i n"
proof (induction n)
  case 0
  then show ?case by simp
next
  case (Suc n)
  then show ?case by (cases "n < i") auto
qed

lemma sum_list_min_upt: "sum_list (map (\<lambda>i. min i n) [0..<n]) = n * (n - 1) div 2"
proof -
  have "map (\<lambda>i. min i n) [0..<n] = [0..<n]"
    by (rule map_idI) simp
  then have "sum_list (map (\<lambda>i. min i n) [0..<n]) = \<Sum>{0..<n}"
    by (simp add: sum_list_upt)
  also have "\<dots> = n * (n - 1) div 2"
    by (simp add: Sum_Ico_nat)
  finally show ?thesis .
qed

lemma length_filter_fst_enumerate:
  "length (filter (\<lambda>(n, x). n < m) (enumerate 0 xs)) = min m (length xs)"
proof -
  have "length (filter (\<lambda>(n, x). n < m) (enumerate 0 xs))
          = length (filter (\<lambda>n. n < m) (map fst (enumerate 0 xs)))"
    by (simp only: length_filter_map comp_def case_prod_unfold)
  also have "map fst (enumerate 0 xs) = [0..<length xs]"
    by (simp add: enumerate_eq_zip)
  finally show ?thesis by (simp add: length_filter_less_upt)
qed

lemma sum_list_enumerate_min:
  "sum_list (map (\<lambda>(m, x). min m (length xs)) (enumerate 0 xs)) = length xs * (length xs - 1) div 2"
proof -
  have "map (\<lambda>(m, x). min m (length xs)) (enumerate 0 xs)
          = map (\<lambda>m. min m (length xs)) (map fst (enumerate 0 xs))"
    by (simp only: map_map comp_def case_prod_unfold)
  also have "map fst (enumerate 0 xs) = [0..<length xs]"
    by (simp add: enumerate_eq_zip)
  finally show ?thesis by (simp add: sum_list_min_upt)
qed

subsection \<open>Convex combinations under floor\<close>

text \<open>
  A point on the segment between two integers, rounded down, stays between them: the
  reason every channel of an interpolated colour lies between the channels of its two
  anchors.
\<close>

lemma convex_between:
  fixes a b t :: real
  assumes "0 \<le> t" "t \<le> 1"
  shows "min a b \<le> a * (1 - t) + b * t \<and> a * (1 - t) + b * t \<le> max a b"
proof -
  have eq: "a * (1 - t) + b * t = a + (b - a) * t" by (simp add: algebra_simps)
  show ?thesis
  proof (cases "a \<le> b")
    case True
    have "0 \<le> (b - a) * t" using True assms by simp
    moreover have "(b - a) * t \<le> b - a"
      using mult_left_mono[of t 1 "b - a"] True assms by simp
    moreover have "min a b = a" "max a b = b" using True by simp_all
    ultimately show ?thesis unfolding eq by (simp only:) linarith
  next
    case False
    have "(b - a) * t \<le> 0" using False assms by (simp add: mult_nonpos_nonneg)
    moreover have "b - a \<le> (b - a) * t"
      using mult_left_mono_neg[of t 1 "b - a"] False assms by simp
    moreover have "min a b = b" "max a b = a" using False by simp_all
    ultimately show ?thesis unfolding eq by (simp only:) linarith
  qed
qed

lemma floor_convex_between:
  fixes t :: real and a b :: int
  assumes "0 \<le> t" "t \<le> 1"
  shows "min a b \<le> \<lfloor>of_int a * (1 - t) + of_int b * t\<rfloor>"
    and "\<lfloor>of_int a * (1 - t) + of_int b * t\<rfloor> \<le> max a b"
proof -
  from convex_between[OF assms, of "of_int a" "of_int b"]
  have lo: "of_int (min a b) \<le> of_int a * (1 - t) + of_int b * t"
    and hi: "of_int a * (1 - t) + of_int b * t \<le> of_int (max a b)"
    by (simp_all add: min_def max_def split: if_splits)
  from lo show "min a b \<le> \<lfloor>of_int a * (1 - t) + of_int b * t\<rfloor>"
    by (simp add: le_floor_iff)
  from hi show "\<lfloor>of_int a * (1 - t) + of_int b * t\<rfloor> \<le> max a b"
    by (simp add: floor_le_iff)
qed

end
