(* ===== verification/JsNumber.thy ===== *)
theory JsNumber
  imports Prelude
begin

text \<open>
  JavaScript numbers as the code of \<open>src/\<close> uses them. A number is a finite value, one
  of the two infinities, or \<open>NaN\<close>; the arithmetic of the finite values is exact real
  arithmetic (rounding to 53-bit doubles and the sign of zero are abstracted away: every
  zero is \<open>+0\<close>). What the source relies on is kept exactly: division by zero gives an
  infinity or \<open>NaN\<close>, \<open>NaN\<close> compares false, \<open>0\<close> and \<open>NaN\<close> are falsy
  (so \<open>x || 0\<close> replaces both), \<open>Math.floor\<close>, \<open>Math.round\<close> (ties towards
  \<open>+\<infinity>\<close>) and the decimal printing of integral values.
  \<open>undefined\<close> (a missing property or map entry) behaves as \<open>NaN\<close> in every
  arithmetic, comparison and truthiness context the source puts it in; \<open>js_val\<close>
  reads an optional field that way.
\<close>

datatype jsnum = Fin real | PInf | NInf | NaN

fun js_neg :: "jsnum \<Rightarrow> jsnum" where
  "js_neg (Fin a) = Fin (- a)"
| "js_neg PInf = NInf"
| "js_neg NInf = PInf"
| "js_neg NaN = NaN"

fun js_add :: "jsnum \<Rightarrow> jsnum \<Rightarrow> jsnum" where
  "js_add (Fin a) (Fin b) = Fin (a + b)"
| "js_add NaN y = NaN"
| "js_add x NaN = NaN"
| "js_add PInf NInf = NaN"
| "js_add NInf PInf = NaN"
| "js_add PInf y = PInf"
| "js_add NInf y = NInf"
| "js_add (Fin a) y = y"

definition js_sub :: "jsnum \<Rightarrow> jsnum \<Rightarrow> jsnum" where
  "js_sub x y = js_add x (js_neg y)"

fun js_mul :: "jsnum \<Rightarrow> jsnum \<Rightarrow> jsnum" where
  "js_mul (Fin a) (Fin b) = Fin (a * b)"
| "js_mul NaN y = NaN"
| "js_mul x NaN = NaN"
| "js_mul (Fin a) y = (if a = 0 then NaN else if 0 < a then y else js_neg y)"
| "js_mul x (Fin b) = (if b = 0 then NaN else if 0 < b then x else js_neg x)"
| "js_mul PInf y = y"
| "js_mul NInf y = js_neg y"

fun js_div :: "jsnum \<Rightarrow> jsnum \<Rightarrow> jsnum" where
  "js_div (Fin a) (Fin b) =
     (if b = 0 then (if a = 0 then NaN else if 0 < a then PInf else NInf) else Fin (a / b))"
| "js_div NaN y = NaN"
| "js_div x NaN = NaN"
| "js_div (Fin a) y = Fin 0"
| "js_div x (Fin b) = (if 0 \<le> b then x else js_neg x)"
| "js_div x y = NaN"

text \<open>\<open>x < y\<close>; \<open>x > y\<close> is \<open>js_lt y x\<close>.\<close>

fun js_lt :: "jsnum \<Rightarrow> jsnum \<Rightarrow> bool" where
  "js_lt (Fin a) (Fin b) = (a < b)"
| "js_lt NInf PInf = True"
| "js_lt NInf (Fin b) = True"
| "js_lt (Fin a) PInf = True"
| "js_lt x y = False"

text \<open>\<open>!x\<close> is \<open>\<not> js_truthy x\<close>; \<open>x || y\<close> is \<open>js_or x y\<close>.\<close>

fun js_truthy :: "jsnum \<Rightarrow> bool" where
  "js_truthy (Fin a) = (a \<noteq> 0)"
| "js_truthy NaN = False"
| "js_truthy x = True"

definition js_or :: "jsnum \<Rightarrow> jsnum \<Rightarrow> jsnum" where
  "js_or x y = (if js_truthy x then x else y)"

fun js_floor :: "jsnum \<Rightarrow> jsnum" where
  "js_floor (Fin a) = Fin (of_int \<lfloor>a\<rfloor>)"
| "js_floor x = x"

text \<open>\<open>Math.round\<close>: the nearest integer, halves rounded towards \<open>+\<infinity>\<close>.\<close>

fun js_round :: "jsnum \<Rightarrow> jsnum" where
  "js_round (Fin a) = Fin (of_int \<lfloor>a + 1 / 2\<rfloor>)"
| "js_round x = x"

primrec js_val :: "jsnum option \<Rightarrow> jsnum" where
  "js_val None = NaN"
| "js_val (Some x) = x"

subsection \<open>Printing integral numbers\<close>

fun nat_digits :: "nat \<Rightarrow> string" where
  "nat_digits n =
     (if n < 10 then [''0123456789'' ! n] else nat_digits (n div 10) @ [''0123456789'' ! (n mod 10)])"

declare nat_digits.simps [simp del]

definition int_string :: "int \<Rightarrow> string" where
  "int_string k = (if k < 0 then ''-'' @ nat_digits (nat (- k)) else nat_digits (nat k))"

text \<open>
  \<open>String(x)\<close> for the values \<open>Math.floor\<close> returns: an integral finite value
  prints as its decimal digits. The finite case prints the integer part, which is the
  value itself for every argument the source passes (\<open>js_floor_integral\<close>).
\<close>

fun js_string_of_floored :: "jsnum \<Rightarrow> string" where
  "js_string_of_floored (Fin a) = int_string \<lfloor>a\<rfloor>"
| "js_string_of_floored PInf = ''Infinity''"
| "js_string_of_floored NInf = ''-Infinity''"
| "js_string_of_floored NaN = ''NaN''"

subsection \<open>Evaluation rules\<close>

lemma js_sub_Fin [simp, js_simps]: "js_sub (Fin a) (Fin b) = Fin (a - b)"
  by (simp add: js_sub_def)

lemma js_div_Fin_nz [simp, js_simps]: "b \<noteq> 0 \<Longrightarrow> js_div (Fin a) (Fin b) = Fin (a / b)"
  by simp

lemma js_or_Fin [simp, js_simps]: "js_or (Fin a) y = (if a = 0 then y else Fin a)"
  by (simp add: js_or_def)

lemma js_or_NaN [simp, js_simps]: "js_or NaN y = y"
  by (simp add: js_or_def)

lemma js_or_inf [simp, js_simps]: "js_or PInf y = PInf" "js_or NInf y = NInf"
  by (simp_all add: js_or_def)

lemma js_sub_NaN [simp, js_simps]: "js_sub NaN y = NaN" "js_sub x NaN = NaN"
  by (simp_all add: js_sub_def) (cases x; simp)

lemma js_floor_integral: "js_floor x = Fin a \<Longrightarrow> a = of_int \<lfloor>a\<rfloor>"
  by (cases x) auto

lemma js_string_of_floored_floor [simp, js_simps]:
  "js_string_of_floored (Fin (of_int k)) = int_string k"
  by simp

lemma nat_digits_small [simp, js_simps]: "n < 10 \<Longrightarrow> nat_digits n = [''0123456789'' ! n]"
  by (simp add: nat_digits.simps)

lemma nat_digits_large [simp, js_simps]:
  "10 \<le> n \<Longrightarrow> nat_digits n = nat_digits (n div 10) @ [''0123456789'' ! (n mod 10)]"
  by (simp add: nat_digits.simps[of n])

lemma js_add_NaN_right [simp, js_simps]: "js_add x NaN = NaN"
  by (cases x) simp_all

lemma js_add_Fin_assoc [simp, js_simps]: "js_add (js_add x (Fin a)) (Fin b) = js_add x (Fin (a + b))"
  by (cases x) simp_all

lemma js_div_NaN_right [simp, js_simps]: "js_div x NaN = NaN"
  by (cases x) simp_all

end
