(* ===== verification/Helpers.thy ===== *)
theory Helpers
  imports JsNumber
begin

text \<open>
  \<open>src/src/helpers.js\<close>: the colour gradient \<open>percentageToColor\<close>, decimal rounding
  \<open>round\<close>, min-max scaling \<open>minmax\<close> and mean-centred scaling \<open>normalize\<close>.
  The colour object \<open>{r, g, b}\<close> is the record \<open>rgb\<close> (fields \<open>color_r\<close>,
  \<open>color_g\<close>, \<open>color_b\<close>: bare \<open>r\<close>, \<open>g\<close>, \<open>b\<close> would capture every
  variable of that name), an anchor \<open>{pct, color}\<close> is \<open>pct_color\<close>. The search
  loop of \<open>percentageToColor\<close> is \<open>pc_index\<close>, the interpolation between the two
  anchors it selects \<open>interpolate\<close>, the final string \<open>rgb_string\<close>.
\<close>

record rgb =
  color_r :: jsnum
  color_g :: jsnum
  color_b :: jsnum

record pct_color =
  stop_pct :: jsnum
  stop_color :: rgb

definition percentColors :: "pct_color list" where
  "percentColors =
    [\<lparr>stop_pct = Fin 0.0, stop_color = \<lparr>color_r = Fin 255, color_g = Fin 255, color_b = Fin 255\<rparr>\<rparr>,
     \<lparr>stop_pct = Fin 0.25, stop_color = \<lparr>color_r = Fin 0, color_g = Fin 255, color_b = Fin 255\<rparr>\<rparr>,
     \<lparr>stop_pct = Fin 0.5, stop_color = \<lparr>color_r = Fin 0, color_g = Fin 255, color_b = Fin 0\<rparr>\<rparr>,
     \<lparr>stop_pct = Fin 0.75, stop_color = \<lparr>color_r = Fin 255, color_g = Fin 255, color_b = Fin 0\<rparr>\<rparr>,
     \<lparr>stop_pct = Fin 1.0, stop_color = \<lparr>color_r = Fin 255, color_g = Fin 0, color_b = Fin 0\<rparr>\<rparr>]"

text \<open>
  \<open>for (var i = 1; i < percentColors.length - 1; i++) if (pct < percentColors[i].pct) break;\<close>
  The loop variable survives the loop: the result is the index at which it stopped.
\<close>

function pc_index :: "jsnum \<Rightarrow> pct_color list \<Rightarrow> nat \<Rightarrow> nat" where
  "pc_index pct cs i =
     (if i < length cs - 1
      then (if js_lt pct (stop_pct (cs ! i)) then i else pc_index pct cs (Suc i))
      else i)"
  by pat_completeness auto
termination
  by (relation "measure (\<lambda>(pct, cs, i). length cs - i)") auto

text \<open>\<open>Math.floor(lower.color.x * pctLower + upper.color.x * pctUpper)\<close>, for one channel.\<close>

definition mix_channel :: "jsnum \<Rightarrow> jsnum \<Rightarrow> jsnum \<Rightarrow> jsnum \<Rightarrow> jsnum" where
  "mix_channel lo up pctLower pctUpper = js_floor (js_add (js_mul lo pctLower) (js_mul up pctUpper))"

definition interpolate :: "pct_color \<Rightarrow> pct_color \<Rightarrow> jsnum \<Rightarrow> rgb" where
  "interpolate lower upper pct =
     (let range = js_sub (stop_pct upper) (stop_pct lower);
          rangePct = js_div (js_sub pct (stop_pct lower)) range;
          pctLower = js_sub (Fin 1) rangePct;
          pctUpper = rangePct
      in \<lparr>color_r = mix_channel (color_r (stop_color lower)) (color_r (stop_color upper)) pctLower pctUpper,
          color_g = mix_channel (color_g (stop_color lower)) (color_g (stop_color upper)) pctLower pctUpper,
          color_b = mix_channel (color_b (stop_color lower)) (color_b (stop_color upper)) pctLower pctUpper\<rparr>)"

definition percentageToRgb :: "jsnum \<Rightarrow> rgb" where
  "percentageToRgb pct =
     (let i = pc_index pct percentColors 1
      in interpolate (percentColors ! (i - 1)) (percentColors ! i) pct)"

definition rgb_string :: "rgb \<Rightarrow> string" where
  "rgb_string c =
     ''rgb('' @ js_string_of_floored (color_r c) @ '','' @ js_string_of_floored (color_g c)
       @ '','' @ js_string_of_floored (color_b c) @ '')''"

definition percentageToColor :: "jsnum \<Rightarrow> string" where
  "percentageToColor pct = rgb_string (percentageToRgb pct)"

text \<open>\<open>round(value, places)\<close>: \<open>Math.round(value * 10^places) / 10^places\<close>.\<close>

definition helpers_round :: "jsnum \<Rightarrow> nat \<Rightarrow> jsnum" where
  "helpers_round v places =
     (let multiplier = Fin (10 ^ places) in js_div (js_round (js_mul v multiplier)) multiplier)"

text \<open>\<open>minmax(value, min, max, round)\<close>; the callers in \<open>App.js\<close> use the default \<open>3\<close>.\<close>

definition minmax :: "jsnum \<Rightarrow> jsnum \<Rightarrow> jsnum \<Rightarrow> nat \<Rightarrow> jsnum" where
  "minmax v mn mx places = helpers_round (js_or (js_div (js_sub v mn) (js_sub mx mn)) (Fin 0)) places"

definition helpers_normalize :: "jsnum \<Rightarrow> jsnum \<Rightarrow> jsnum \<Rightarrow> jsnum \<Rightarrow> nat \<Rightarrow> jsnum" where
  "helpers_normalize v mn mx mean places =
     helpers_round (js_or (js_div (js_sub v mean) (js_sub mx mn)) (Fin 0)) places"

subsection \<open>Statement vocabulary\<close>

text \<open>Decimal rounding of a real, as \<open>helpers_round\<close> computes it on finite values.\<close>

definition round_real :: "nat \<Rightarrow> real \<Rightarrow> real" where
  "round_real p x = of_int \<lfloor>x * 10 ^ p + 1 / 2\<rfloor> / 10 ^ p"

text \<open>A finite integral number, and one that lies between two others.\<close>

fun js_integral :: "jsnum \<Rightarrow> bool" where
  "js_integral (Fin x) = (x = of_int \<lfloor>x\<rfloor>)"
| "js_integral x = False"

fun js_int_between :: "jsnum \<Rightarrow> jsnum \<Rightarrow> jsnum \<Rightarrow> bool" where
  "js_int_between (Fin x) (Fin lo) (Fin hi) = (x = of_int \<lfloor>x\<rfloor> \<and> min lo hi \<le> x \<and> x \<le> max lo hi)"
| "js_int_between x lo hi = False"

declare pc_index.simps [simp del]

subsection \<open>Rounding\<close>

lemma helpers_round_Fin [simp]: "helpers_round (Fin x) p = Fin (round_real p x)"
  by (simp add: helpers_round_def round_real_def)

lemma helpers_round_nonfin [simp]:
  "helpers_round NaN p = NaN" "helpers_round PInf p = PInf" "helpers_round NInf p = NInf"
  by (simp_all add: helpers_round_def)

lemma round_real_mono:
  assumes "x \<le> y"
  shows "round_real p x \<le> round_real p y"
proof -
  have "x * 10 ^ p + 1 / 2 \<le> y * 10 ^ p + 1 / 2"
    using assms by simp
  then have "\<lfloor>x * 10 ^ p + 1 / 2\<rfloor> \<le> \<lfloor>y * 10 ^ p + 1 / 2\<rfloor>"
    by (rule floor_mono)
  then show ?thesis
    unfolding round_real_def by (simp add: divide_right_mono)
qed

lemma round_real_of_int [simp]: "round_real p (of_int k) = of_int k"
proof -
  have "\<lfloor>of_int k * 10 ^ p + 1 / 2 :: real\<rfloor> = k * 10 ^ p"
  proof -
    have "(of_int k * 10 ^ p :: real) = of_int (k * 10 ^ p)" by simp
    then show ?thesis by (simp add: floor_eq_iff)
  qed
  then show ?thesis by (simp add: round_real_def)
qed

lemma round_real_error: "\<bar>round_real p x - x\<bar> \<le> 1 / (2 * 10 ^ p)"
proof -
  let ?z = "x * 10 ^ p + 1 / 2"
  have "of_int \<lfloor>?z\<rfloor> \<le> ?z" and "?z < of_int \<lfloor>?z\<rfloor> + 1"
    using floor_correct[of ?z] by simp_all
  then have "\<bar>of_int \<lfloor>?z\<rfloor> - x * 10 ^ p\<bar> \<le> 1 / 2"
    by linarith
  then have "\<bar>of_int \<lfloor>?z\<rfloor> - x * 10 ^ p\<bar> / 10 ^ p \<le> (1 / 2) / 10 ^ p"
    by (rule divide_right_mono) simp
  moreover have "round_real p x - x = (of_int \<lfloor>?z\<rfloor> - x * 10 ^ p) / 10 ^ p"
    by (simp add: round_real_def diff_divide_distrib)
  ultimately show ?thesis by (simp add: abs_divide)
qed

lemma round_real_between:
  assumes "of_int lo \<le> x" "x \<le> of_int hi"
  shows "of_int lo \<le> round_real p x \<and> round_real p x \<le> of_int hi"
  using round_real_mono[OF assms(1), of p] round_real_mono[OF assms(2), of p] by simp

subsection \<open>Min-max scaling\<close>

lemma minmax_Fin:
  assumes "mn \<noteq> mx"
  shows "minmax (Fin v) (Fin mn) (Fin mx) p = Fin (round_real p ((v - mn) / (mx - mn)))"
  using assms by (simp add: minmax_def)

lemma minmax_nan [simp]: "minmax NaN mn mx p = Fin 0" "minmax v NaN mx p = Fin 0"
  by (simp_all add: minmax_def round_real_def)

subsection \<open>The colour gradient\<close>

lemmas color_eval = percentageToColor_def percentageToRgb_def percentColors_def pc_index.simps
  interpolate_def mix_channel_def rgb_string_def int_string_def Let_def

lemma percentageToColor_zero: "percentageToColor (Fin 0) = ''rgb(255,255,255)''"
  by (simp add: color_eval)

lemma minmax_zero_range [simp]: "minmax (Fin 0) (Fin 0) (Fin 0) p = Fin 0"
  by (simp add: minmax_def round_real_def)

lemma pc_index_step:
  "i < length cs - 1 \<Longrightarrow>
     pc_index pct cs i = (if js_lt pct (stop_pct (cs ! i)) then i else pc_index pct cs (Suc i))"
  by (simp add: pc_index.simps[of pct cs i])

lemma pc_index_stop: "\<not> i < length cs - 1 \<Longrightarrow> pc_index pct cs i = i"
  by (simp add: pc_index.simps[of pct cs i])

lemma pc_index_percentColors:
  "pc_index (Fin p) percentColors 1 =
     (if p < 0.25 then 1 else if p < 0.5 then 2 else if p < 0.75 then 3 else 4)"
  by (simp add: pc_index_step pc_index_stop percentColors_def split: if_split)

lemma interpolate_between:
  assumes "stop_pct lower = Fin a" "stop_pct upper = Fin b" "a < b" "a \<le> p" "p \<le> b"
    and sel: "sel \<in> {color_r, color_g, color_b}"
    and "js_integral (sel (stop_color lower))" "js_integral (sel (stop_color upper))"
  shows "js_int_between (sel (interpolate lower upper (Fin p)))
           (sel (stop_color lower)) (sel (stop_color upper))"
proof -
  obtain x y where x: "sel (stop_color lower) = Fin (of_int x)"
    and y: "sel (stop_color upper) = Fin (of_int y)"
    using assms(7,8) by (cases "sel (stop_color lower)"; cases "sel (stop_color upper)") auto
  define t where "t = (p - a) / (b - a)"
  have t: "0 \<le> t" "t \<le> 1"
    using assms(3-5) by (simp_all add: t_def)
  have "sel (interpolate lower upper (Fin p)) =
          mix_channel (sel (stop_color lower)) (sel (stop_color upper)) (Fin (1 - t)) (Fin t)"
    using sel assms(3) by (auto simp: interpolate_def assms(1,2) t_def Let_def)
  also have "\<dots> = Fin (of_int \<lfloor>of_int x * (1 - t) + of_int y * t\<rfloor>)"
    by (simp add: x y mix_channel_def)
  finally show ?thesis
    using floor_convex_between[OF t, of x y] by (simp add: x y min_def max_def split: if_splits)
qed

lemma minmax_in_unit:
  assumes "mn \<le> v" "v \<le> mx"
  shows "\<exists>r. minmax (Fin v) (Fin mn) (Fin mx) places = Fin r \<and> 0 \<le> r \<and> r \<le> 1"
proof (cases "mn = mx")
  case True
  with assms have "v = mn" by simp
  with True show ?thesis by (simp add: minmax_def round_real_def)
next
  case False
  have "mn < mx" using assms False by simp
  then have "0 \<le> (v - mn) / (mx - mn)" "(v - mn) / (mx - mn) \<le> 1"
    using assms by simp_all
  then have "of_int 0 \<le> round_real places ((v - mn) / (mx - mn))
             \<and> round_real places ((v - mn) / (mx - mn)) \<le> of_int 1"
    by (intro round_real_between) simp_all
  with False show ?thesis
    by (simp add: minmax_Fin)
qed

lemma pc_segment:
  assumes "0 \<le> p" "p \<le> 1" "i = pc_index (Fin p) percentColors 1"
  shows "1 \<le> i \<and> i \<le> 4 \<and> stop_pct (percentColors ! (i - 1)) = Fin ((real i - 1) / 4)
           \<and> stop_pct (percentColors ! i) = Fin (real i / 4)
           \<and> (real i - 1) / 4 \<le> p \<and> p \<le> real i / 4"
proof -
  have i: "i = (if p < 0.25 then 1 else if p < 0.5 then 2 else if p < 0.75 then 3 else 4)"
    unfolding assms(3) by (rule pc_index_percentColors)
  show ?thesis
    using assms(1,2) unfolding i by (auto simp: percentColors_def)
qed

lemma length_percentColors [simp]: "length percentColors = 5"
  by (simp add: percentColors_def)

lemma percentColors_anchors:
  "\<forall>c \<in> set percentColors. \<forall>sel \<in> {color_r, color_g, color_b}.
     js_integral (sel (stop_color c)) \<and> sel (stop_color c) \<in> {Fin 0, Fin 255}"
  by (simp add: percentColors_def)

lemma js_int_between_widen:
  "js_int_between x lo hi \<Longrightarrow> lo \<in> {Fin 0, Fin 255} \<Longrightarrow> hi \<in> {Fin 0, Fin 255} \<Longrightarrow>
     js_int_between x (Fin 0) (Fin 255)"
  by (cases x) (auto simp: min_def max_def split: if_splits)

lemma percentageToRgb_brackets:
  assumes "0 \<le> p" "p \<le> 1" "sel \<in> {color_r, color_g, color_b}"
  shows "js_int_between (sel (percentageToRgb (Fin p)))
           (sel (stop_color (percentColors ! (pc_index (Fin p) percentColors 1 - 1))))
           (sel (stop_color (percentColors ! pc_index (Fin p) percentColors 1)))"
proof -
  define i where "i = pc_index (Fin p) percentColors 1"
  have seg: "1 \<le> i \<and> i \<le> 4 \<and> stop_pct (percentColors ! (i - 1)) = Fin ((real i - 1) / 4)
           \<and> stop_pct (percentColors ! i) = Fin (real i / 4)
           \<and> (real i - 1) / 4 \<le> p \<and> p \<le> real i / 4"
    using pc_segment[OF assms(1,2)] i_def by blast
  then have lo: "percentColors ! (i - 1) \<in> set percentColors" and up: "percentColors ! i \<in> set percentColors"
    by (auto intro!: nth_mem)
  have "js_int_between (sel (interpolate (percentColors ! (i - 1)) (percentColors ! i) (Fin p)))
          (sel (stop_color (percentColors ! (i - 1)))) (sel (stop_color (percentColors ! i)))"
    using seg assms(3) percentColors_anchors lo up
    by (intro interpolate_between[where a = "(real i - 1) / 4" and b = "real i / 4"]) auto
  then show ?thesis
    by (simp add: percentageToRgb_def i_def Let_def)
qed

text \<open>
  C2. For every input in \<open>[0, 1]\<close> the search loop of \<open>percentageToColor\<close> stops at an
  index \<open>i\<close> with \<open>1 \<le> i \<le> 4\<close> (it never runs off the five anchors, also at
  \<open>1.0\<close>), and the anchors \<open>i - 1\<close> and \<open>i\<close> bracket the input.
\<close>

theorem pc_index_brackets:
  assumes "0 \<le> p" "p \<le> 1"
  shows "1 \<le> pc_index (Fin p) percentColors 1 \<and> pc_index (Fin p) percentColors 1 < length percentColors
         \<and> js_lt (Fin p) (stop_pct (percentColors ! (pc_index (Fin p) percentColors 1 - 1))) = False
         \<and> (js_lt (Fin p) (stop_pct (percentColors ! pc_index (Fin p) percentColors 1)) \<or> p = 1
            \<or> stop_pct (percentColors ! pc_index (Fin p) percentColors 1) = Fin p)"
  unfolding pc_index_percentColors using assms by (auto simp: percentColors_def)

theorem pc_index_brackets_witness:
  "1 \<le> pc_index (Fin 1) percentColors 1 \<and> pc_index (Fin 1) percentColors 1 < length percentColors
   \<and> js_lt (Fin 1) (stop_pct (percentColors ! (pc_index (Fin 1) percentColors 1 - 1))) = False
   \<and> (js_lt (Fin 1) (stop_pct (percentColors ! pc_index (Fin 1) percentColors 1)) \<or> (1::real) = 1
      \<or> stop_pct (percentColors ! pc_index (Fin 1) percentColors 1) = Fin 1)"
  by (rule pc_index_brackets) simp_all

text \<open>
  In exact arithmetic, for every input in \<open>[0, 1]\<close> each channel of the colour is an integer that lies
  between the same channel of the two anchors that bracket the input. In JavaScript's
  doubles the mix can fall just below an integer before \<open>Math.floor\<close>:
  \<open>percentageToColor(0.01)\<close> is \<open>rgb(244,254,254)\<close> although both anchors have
  255 in green and blue.
\<close>

theorem percentageToRgb_between:
  assumes "0 \<le> p" "p \<le> 1" "sel \<in> {color_r, color_g, color_b}"
  shows "js_int_between (sel (percentageToRgb (Fin p)))
           (sel (stop_color (percentColors ! (pc_index (Fin p) percentColors 1 - 1))))
           (sel (stop_color (percentColors ! pc_index (Fin p) percentColors 1)))"
  using assms by (rule percentageToRgb_brackets)

theorem percentageToRgb_between_witness:
  "js_int_between (color_g (percentageToRgb (Fin 0.6)))
     (color_g (stop_color (percentColors ! (pc_index (Fin 0.6) percentColors 1 - 1))))
     (color_g (stop_color (percentColors ! pc_index (Fin 0.6) percentColors 1)))"
  by (rule percentageToRgb_between) simp_all

text \<open>
  For every input in \<open>[0, 1]\<close> each channel of the colour is an integer in
  \<open>[0, 255]\<close>, so \<open>percentageToColor\<close> prints a valid \<open>rgb(...)\<close> value.
\<close>

theorem percentageToRgb_bounds:
  assumes "0 \<le> p" "p \<le> 1" "sel \<in> {color_r, color_g, color_b}"
  shows "js_int_between (sel (percentageToRgb (Fin p))) (Fin 0) (Fin 255)"
proof -
  define i where "i = pc_index (Fin p) percentColors 1"
  have "1 \<le> i \<and> i \<le> 4"
    using pc_segment[OF assms(1,2)] i_def by blast
  then have "percentColors ! (i - 1) \<in> set percentColors" "percentColors ! i \<in> set percentColors"
    by (auto intro!: nth_mem)
  then have "sel (stop_color (percentColors ! (i - 1))) \<in> {Fin 0, Fin 255}"
    and "sel (stop_color (percentColors ! i)) \<in> {Fin 0, Fin 255}"
    using percentColors_anchors assms(3) by blast+
  with js_int_between_widen percentageToRgb_brackets[OF assms] show ?thesis
    unfolding i_def by blast
qed

theorem percentageToRgb_bounds_witness:
  "js_int_between (color_r (percentageToRgb (Fin 0.9))) (Fin 0) (Fin 255)"
  by (rule percentageToRgb_bounds) simp_all

text \<open>
  The five anchors print as the spec lists them: white at 0, cyan at 0.25, green at
  0.5, yellow at 0.75, red at 1.0; an input below 0 is not clamped and leaves the
  \<open>[0, 255]\<close> range.
\<close>

theorem percentageToColor_anchors:
  "percentageToColor (Fin 0) = ''rgb(255,255,255)''
   \<and> percentageToColor (Fin 0.25) = ''rgb(0,255,255)''
   \<and> percentageToColor (Fin 0.5) = ''rgb(0,255,0)''
   \<and> percentageToColor (Fin 0.75) = ''rgb(255,255,0)''
   \<and> percentageToColor (Fin 1) = ''rgb(255,0,0)''
   \<and> percentageToColor (Fin (-1)) = ''rgb(1275,255,255)''"
  by (simp add: color_eval)

text \<open>
  C4. \<open>minmax\<close> maps a value inside a range \<open>[min, max]\<close> into \<open>[0, 1]\<close>, also
  when the range is a single point and after rounding to any number of decimal places.
\<close>

theorem minmax_unit_interval:
  assumes "mn \<le> v" "v \<le> mx"
  shows "\<exists>r. minmax (Fin v) (Fin mn) (Fin mx) places = Fin r \<and> 0 \<le> r \<and> r \<le> 1"
  using assms by (rule minmax_in_unit)

theorem minmax_unit_interval_witness:
  "\<exists>r. minmax (Fin 7) (Fin 2) (Fin 12) 3 = Fin r \<and> 0 \<le> r \<and> r \<le> 1"
  by (rule minmax_unit_interval) simp_all

text \<open>
  C5. With a degenerate range (\<open>min = max\<close>) \<open>minmax\<close> returns 0 only when the value
  equals the bound: \<open>|| 0\<close> catches the \<open>NaN\<close> of \<open>0 / 0\<close> but not the infinity of
  \<open>x / 0\<close>, so a value above the bound gives \<open>Infinity\<close> and one below
  \<open>-Infinity\<close>.
\<close>

theorem minmax_degenerate:
  "minmax (Fin v) (Fin m) (Fin m) places = (if v = m then Fin 0 else if m < v then PInf else NInf)"
  by (simp add: minmax_def round_real_def)

text \<open>
  \<open>round(value, places)\<close> of a finite value is finite and lies within half a unit of
  the last kept decimal place of the value.
\<close>

theorem helpers_round_error:
  "helpers_round (Fin x) places = Fin (round_real places x)
   \<and> \<bar>round_real places x - x\<bar> \<le> 1 / (2 * 10 ^ places)"
  by (simp add: round_real_error)

end
