(* ===== verification/Matrix.thy ===== *)
theory Matrix
  imports Helpers
begin

text \<open>
  The comparison matrix of \<open>src/src/App.js\<close> and the passes over it that need no external
  tool: \<open>createRichMatrix\<close> builds the lower-triangular skeleton, \<open>findMinMaxMatrix\<close>
  and \<open>findMeanMatrix\<close> scan the present cells, \<open>augmentHeatmapMatrix\<close> adds the
  ratio, colour and cell size the heatmap displays. A cell object is the record
  \<open>cell\<close>; a property the code has not set yet (or that is \<open>undefined\<close>, such as the
  line count of a version missing from \<open>version_loc_map\<close>) is \<open>None\<close>. A matrix is a
  list of rows of cells or \<open>null\<close>. The callbacks of the \<open>forEach\<close> loops mutate the
  cells in place; every cell object occurs once in the matrix, so mapping over the rows is
  the same.
\<close>

record cell =
  left :: version
  right :: version
  loc_left :: "jsnum option"
  loc_right :: "jsnum option"
  matches :: "jsnum option"
  ratio :: "jsnum option"
  color :: "string option"
  width :: "jsnum option"
  height :: "jsnum option"

type_synonym matrix = "cell option list list"

text \<open>The object literal \<open>{left, right, loc_left, loc_right}\<close> of \<open>createRichMatrix\<close>.\<close>

definition new_cell :: "version \<Rightarrow> version \<Rightarrow> jsnum option \<Rightarrow> jsnum option \<Rightarrow> cell" where
  "new_cell l r ll lr =
     \<lparr>left = l, right = r, loc_left = ll, loc_right = lr,
      matches = None, ratio = None, color = None, width = None, height = None\<rparr>"

definition createRichMatrix :: "version list \<Rightarrow> (version \<rightharpoonup> jsnum) \<Rightarrow> matrix" where
  "createRichMatrix versions version_loc_map =
     map (\<lambda>(m, l).
            map (\<lambda>(n, r). if n < m then Some (new_cell l r (version_loc_map l) (version_loc_map r))
                          else None)
              (enumerate 0 versions))
       (enumerate 0 versions)"

text \<open>
  One iteration of the scan of \<open>findMinMaxMatrix\<close>:
  \<open>min = (!min || el < min) ? el : min; max = (!max || el > max) ? el : max;\<close>
\<close>

definition minmax_step :: "jsnum \<times> jsnum \<Rightarrow> jsnum \<Rightarrow> jsnum \<times> jsnum" where
  "minmax_step acc el =
     (case acc of (mn, mx) \<Rightarrow>
        (if \<not> js_truthy mn \<or> js_lt el mn then el else mn,
         if \<not> js_truthy mx \<or> js_lt mx el then el else mx))"

text \<open>The result \<open>{min, max}\<close> is the pair \<open>(min, max)\<close>.\<close>

definition findMinMaxMatrix :: "matrix \<Rightarrow> (cell \<Rightarrow> jsnum) \<Rightarrow> jsnum \<times> jsnum" where
  "findMinMaxMatrix matrix fn =
     fold (\<lambda>row. fold (fold_present (\<lambda>column acc. minmax_step acc (fn column))) row) matrix
       (Fin 0, Fin 0)"

definition findMeanMatrix :: "matrix \<Rightarrow> (cell \<Rightarrow> jsnum) \<Rightarrow> jsnum" where
  "findMeanMatrix matrix fn =
     (case fold (\<lambda>row. fold (fold_present (\<lambda>column (sum_acc, cnt). (js_add sum_acc (fn column), Suc cnt))) row)
             matrix (Fin 0, 0) of
        (sum_acc, cnt) \<Rightarrow> js_div sum_acc (Fin (of_nat cnt)))"

text \<open>\<open>column.ratio = (column.matches / (column.loc_left + column.loc_right) || 0)\<close>.\<close>

definition cell_ratio :: "cell \<Rightarrow> cell" where
  "cell_ratio column =
     column\<lparr>ratio := Some (js_or (js_div (js_val (matches column))
                                       (js_add (js_val (loc_left column)) (js_val (loc_right column))))
                                (Fin 0))\<rparr>"

text \<open>The second pass of \<open>augmentHeatmapMatrix\<close> on one cell, given the three ranges.\<close>

definition cell_display :: "jsnum \<times> jsnum \<Rightarrow> jsnum \<times> jsnum \<Rightarrow> jsnum \<times> jsnum \<Rightarrow> cell \<Rightarrow> cell" where
  "cell_display minMaxRatio minMaxLocL minMaxLocR column =
     (let r = minmax (js_val (ratio column)) (fst minMaxRatio) (snd minMaxRatio) 3;
          w = minmax (js_val (loc_right column)) (fst minMaxLocR) (snd minMaxLocR) 3;
          h = minmax (js_val (loc_left column)) (fst minMaxLocL) (snd minMaxLocL) 3
      in column\<lparr>ratio := Some r, color := Some (percentageToColor r),
                width := Some (helpers_round (js_add (js_mul w (Fin 20)) (Fin 10)) 3),
                height := Some (helpers_round (js_add (js_mul h (Fin 20)) (Fin 10)) 3)\<rparr>)"

definition augmentHeatmapMatrix :: "matrix \<Rightarrow> matrix" where
  "augmentHeatmapMatrix matrix0 =
     (let matrix = map (map (map_option cell_ratio)) matrix0;
          minMaxRatio = findMinMaxMatrix matrix (\<lambda>column. js_val (ratio column));
          minMaxLocL = findMinMaxMatrix matrix (\<lambda>column. js_val (loc_left column));
          minMaxLocR = findMinMaxMatrix matrix (\<lambda>column. js_val (loc_right column));
          mean = findMeanMatrix matrix (\<lambda>column. js_val (ratio column))
      in map (map (map_option (cell_display minMaxRatio minMaxLocL minMaxLocR))) matrix)"

subsection \<open>Statement vocabulary\<close>

text \<open>The present cells in row-major order: the cells every scan visits.\<close>

definition cells :: "matrix \<Rightarrow> cell list" where
  "cells m = concat (map present m)"

text \<open>The real value of a finite number (0 for the others).\<close>

fun fin_val :: "jsnum \<Rightarrow> real" where
  "fin_val (Fin x) = x"
| "fin_val x = 0"

text \<open>A cell is in display shape: finite ratio in \<open>[0, 1]\<close>, its colour, sizes in \<open>[10, 30]\<close>.\<close>

definition displayable :: "cell \<Rightarrow> bool" where
  "displayable c \<longleftrightarrow>
     (\<exists>r w h. ratio c = Some (Fin r) \<and> 0 \<le> r \<and> r \<le> 1 \<and> color c = Some (percentageToColor (Fin r))
            \<and> width c = Some (Fin w) \<and> 10 \<le> w \<and> w \<le> 30
            \<and> height c = Some (Fin h) \<and> 10 \<le> h \<and> h \<le> 30)"

text \<open>The skeleton of a matrix: its shape, where cells are, and what identifies each cell.\<close>

definition skeleton :: "matrix \<Rightarrow> (version \<times> version \<times> jsnum option \<times> jsnum option) option list list" where
  "skeleton m = map (map (map_option (\<lambda>c. (left c, right c, loc_left c, loc_right c)))) m"

subsection \<open>Scans as folds over the present cells\<close>

lemma findMinMaxMatrix_cells [matrix_simps]:
  "findMinMaxMatrix m fn = fold (\<lambda>c acc. minmax_step acc (fn c)) (cells m) (Fin 0, Fin 0)"
  by (simp add: findMinMaxMatrix_def fold_fold_present cells_def)

lemma findMeanMatrix_cells [matrix_simps]:
  "findMeanMatrix m fn =
     (case fold (\<lambda>c (sum_acc, cnt). (js_add sum_acc (fn c), Suc cnt)) (cells m) (Fin 0, 0) of
        (sum_acc, cnt) \<Rightarrow> js_div sum_acc (Fin (of_nat cnt)))"
  by (simp add: findMeanMatrix_def fold_fold_present cells_def)

lemma cells_map [simp, matrix_simps]: "cells (map (map (map_option f)) m) = map f (cells m)"
  unfolding cells_def by (induction m) simp_all

subsection \<open>The skeleton\<close>

lemma length_createRichMatrix [simp, matrix_simps]:
  "length (createRichMatrix vs loc) = length vs"
  by (simp add: createRichMatrix_def)

lemma cells_createRichMatrix [matrix_simps]:
  "cells (createRichMatrix vs loc) =
     concat (map (\<lambda>(m, l). map (\<lambda>(n, r). new_cell l r (loc l) (loc r))
                               (filter (\<lambda>(n, r). n < m) (enumerate 0 vs)))
               (enumerate 0 vs))"
proof -
  have row: "present (map (\<lambda>(n, r). if n < m then Some (new_cell l r (loc l) (loc r)) else None) xs)
          = map (\<lambda>(n, r). new_cell l r (loc l) (loc r)) (filter (\<lambda>(n, r). n < m) xs)"
    for m l and xs :: "(nat \<times> version) list"
    by (induction xs) auto
  show ?thesis
    unfolding cells_def createRichMatrix_def map_map
    by (intro arg_cong[where f = concat] map_cong) (auto simp: row)
qed

lemma length_cells_createRichMatrix:
  "length (cells (createRichMatrix vs loc)) = length vs * (length vs - 1) div 2"
proof -
  have "length (cells (createRichMatrix vs loc))
          = sum_list (map (\<lambda>(m, l). min m (length vs)) (enumerate 0 vs))"
    by (simp add: cells_createRichMatrix length_concat comp_def case_prod_unfold
        length_filter_fst_enumerate[unfolded case_prod_unfold])
  then show ?thesis by (simp add: sum_list_enumerate_min)
qed

lemma set_cells_createRichMatrix:
  "c \<in> set (cells (createRichMatrix vs loc)) \<Longrightarrow>
     \<exists>l r. l \<in> set vs \<and> r \<in> set vs \<and> c = new_cell l r (loc l) (loc r)"
  by (auto simp: cells_createRichMatrix in_set_enumerate_eq) (blast intro: nth_mem less_trans)

subsection \<open>The min/max scan\<close>

text \<open>
  On positive values the scan is a true minimum and maximum once \<open>min\<close> has left its
  initial \<open>0\<close>; a \<open>0\<close> in the data resets \<open>min\<close> to \<open>0\<close>, which \<open>!min\<close> then
  treats as "not set yet".
\<close>

lemma minmax_step_Fin [simp]:
  "minmax_step (Fin a, Fin b) (Fin x) =
     (Fin (if a = 0 \<or> x < a then x else a), Fin (if b = 0 \<or> b < x then x else b))"
  by (simp add: minmax_step_def)

lemma mm_fold_pos:
  assumes "\<forall>x \<in> set rs. 0 < x" "0 < a" "0 \<le> b"
  shows "fold (\<lambda>x acc. minmax_step acc x) (map Fin rs) (Fin a, Fin b) = (Fin (fold min rs a), Fin (fold max rs b))"
  using assms
proof (induction rs arbitrary: a b)
  case Nil
  then show ?case by simp
next
  case (Cons x rs)
  have "minmax_step (Fin a, Fin b) (Fin x) = (Fin (min x a), Fin (max x b))"
    using Cons.prems by (auto simp: min_def max_def)
  moreover have "fold (\<lambda>x acc. minmax_step acc x) (map Fin rs) (Fin (min x a), Fin (max x b))
                   = (Fin (fold min rs (min x a)), Fin (fold max rs (max x b)))"
    using Cons.prems by (intro Cons.IH) (auto simp: min_def max_def)
  ultimately show ?case by simp
qed

lemma mm_fold_pos_from_zero:
  assumes "\<forall>x \<in> set rs. 0 < x" "0 \<le> b" "rs \<noteq> []"
  shows "fold (\<lambda>x acc. minmax_step acc x) (map Fin rs) (Fin 0, Fin b)
           = (Fin (Min (set rs)), Fin (fold max rs b))"
proof -
  obtain y ys where rs: "rs = y # ys" using assms(3) by (cases rs) auto
  have "minmax_step (Fin 0, Fin b) (Fin y) = (Fin y, Fin (max y b))"
    using assms(1,2) rs by (auto simp: max_def)
  moreover have "fold (\<lambda>x acc. minmax_step acc x) (map Fin ys) (Fin y, Fin (max y b))
                   = (Fin (fold min ys y), Fin (fold max ys (max y b)))"
    using assms(1,2) rs by (intro mm_fold_pos) auto
  moreover have "fold min ys y = Min (set rs)"
    using rs Min.set_eq_fold[of y ys] by simp
  ultimately show ?thesis
    using rs by (simp add: max.commute)
qed

lemma mm_fold_nonneg:
  assumes "\<forall>x \<in> set rs. 0 \<le> x" "0 \<le> a" "0 \<le> b"
  shows "\<exists>a' b'. fold (\<lambda>x acc. minmax_step acc x) (map Fin rs) (Fin a, Fin b) = (Fin a', Fin b')
                 \<and> 0 \<le> a' \<and> 0 \<le> b'"
  using assms
proof (induction rs arbitrary: a b)
  case Nil
  then show ?case by simp
next
  case (Cons x rs)
  then show ?case by (simp del: fold_map)
qed

lemma fold_minmax_cells:
  assumes "map fn cs = map Fin rs"
  shows "fold (\<lambda>c acc. minmax_step acc (fn c)) cs acc = fold (\<lambda>x acc. minmax_step acc x) (map Fin rs) acc"
proof -
  have "fold (\<lambda>c acc. minmax_step acc (fn c)) cs acc = fold (\<lambda>x acc. minmax_step acc x) (map fn cs) acc"
    by (simp add: fold_map comp_def)
  then show ?thesis using assms by simp
qed

text \<open>Where every scanned value is positive, the scan finds the true range.\<close>

lemma findMinMaxMatrix_positive_range:
  assumes "\<forall>c \<in> set (cells m). \<exists>x. fn c = Fin x \<and> 0 < x"
  shows "\<exists>mn mx. findMinMaxMatrix m fn = (Fin mn, Fin mx)
                 \<and> (\<forall>c \<in> set (cells m). mn \<le> fin_val (fn c) \<and> fin_val (fn c) \<le> mx)"
proof -
  define rs where "rs = map (\<lambda>c. fin_val (fn c)) (cells m)"
  have map_eq: "map fn (cells m) = map Fin rs"
    using assms by (auto simp: rs_def)
  have pos: "\<forall>x \<in> set rs. 0 < x"
    using assms by (auto simp: rs_def)
  show ?thesis
  proof (cases "rs = []")
    case True
    then show ?thesis by (simp add: findMinMaxMatrix_cells rs_def)
  next
    case False
    have "findMinMaxMatrix m fn = (Fin (Min (set rs)), Fin (fold max rs 0))"
      unfolding findMinMaxMatrix_cells fold_minmax_cells[OF map_eq]
      using mm_fold_pos_from_zero[OF pos _ False] by simp
    moreover have "fold max rs 0 = Max (set (0 # rs))"
      using Max.set_eq_fold[of 0 rs] by simp
    moreover have "\<forall>c \<in> set (cells m). Min (set rs) \<le> fin_val (fn c) \<and> fin_val (fn c) \<le> Max (set (0 # rs))"
      by (auto simp: rs_def)
    ultimately show ?thesis by (intro exI[of _ "Min (set rs)"] exI[of _ "Max (set (0 # rs))"]) simp
  qed
qed

lemma mm_fold_zero_reset:
  assumes "\<forall>x \<in> set pre. 0 \<le> x"
  shows "\<exists>b. fold (\<lambda>x acc. minmax_step acc x) (map Fin (pre @ [0])) (Fin 0, Fin 0) = (Fin 0, Fin b)
             \<and> 0 \<le> b"
proof -
  obtain a' b' where ab: "fold (\<lambda>x acc. minmax_step acc x) (map Fin pre) (Fin 0, Fin 0) = (Fin a', Fin b')"
    and "0 \<le> a'" "0 \<le> b'"
    using mm_fold_nonneg[OF assms] by fastforce
  then show ?thesis by (auto simp: ab)
qed

lemma fold_mean_cells:
  assumes "map fn cs = map Fin rs"
  shows "fold (\<lambda>c (sum_acc, cnt). (js_add sum_acc (fn c), Suc cnt)) cs (Fin s0, k0)
           = (Fin (s0 + sum_list rs), k0 + length rs)"
  using assms
proof (induction cs arbitrary: rs s0 k0)
  case Nil
  then show ?case by simp
next
  case (Cons c cs)
  then obtain x xs where rs: "rs = x # xs" "fn c = Fin x" "map fn cs = map Fin xs"
    by (cases rs) auto
  then show ?case using Cons.IH[OF rs(3), of "s0 + x" "Suc k0"] by (simp add: ac_simps)
qed

subsection \<open>Properties of the skeleton\<close>

text \<open>
  C6. \<open>createRichMatrix\<close> builds an \<open>N \<times> N\<close> matrix whose entry \<open>(i, j)\<close> is a cell
  exactly when \<open>j < i\<close> (strictly below the diagonal), with \<open>left\<close> the \<open>i\<close>-th
  version, \<open>right\<close> the \<open>j\<close>-th and their line counts looked up in the map; every other
  entry, the diagonal included, is \<open>null\<close>.
\<close>

theorem createRichMatrix_lower_triangular:
  assumes "i < length vs" "j < length vs"
  shows "length (createRichMatrix vs loc ! i) = length vs
         \<and> createRichMatrix vs loc ! i ! j =
             (if j < i then Some (new_cell (vs ! i) (vs ! j) (loc (vs ! i)) (loc (vs ! j))) else None)"
  using assms by (simp add: createRichMatrix_def nth_enumerate_eq)

theorem createRichMatrix_lower_triangular_witness:
  "length (createRichMatrix [''1.0'', ''1.2''] Map.empty ! 1) = length [''1.0'', ''1.2'']
   \<and> createRichMatrix [''1.0'', ''1.2''] Map.empty ! 1 ! 0 =
       (if (0::nat) < 1 then Some (new_cell ([''1.0'', ''1.2''] ! 1) ([''1.0'', ''1.2''] ! 0)
            (Map.empty ([''1.0'', ''1.2''] ! 1)) (Map.empty ([''1.0'', ''1.2''] ! 0))) else None)"
  by (rule createRichMatrix_lower_triangular) simp_all

text \<open>
  For \<open>N\<close> versions the skeleton holds \<open>N(N-1)/2\<close> cells among its
  \<open>N\<^sup>2\<close> entries: each unordered pair of distinct versions is compared exactly once.
\<close>

theorem createRichMatrix_counts:
  "length (cells (createRichMatrix vs loc)) = length vs * (length vs - 1) div 2
   \<and> length (concat (createRichMatrix vs loc)) = length vs * length vs"
proof
  show "length (cells (createRichMatrix vs loc)) = length vs * (length vs - 1) div 2"
    by (rule length_cells_createRichMatrix)
  have "map length (createRichMatrix vs loc) = map (\<lambda>_. length vs) (enumerate 0 vs)"
    by (simp add: createRichMatrix_def comp_def case_prod_unfold)
  then show "length (concat (createRichMatrix vs loc)) = length vs * length vs"
    by (simp add: length_concat sum_list_triv)
qed

subsection \<open>Properties of the scans\<close>

text \<open>
  C8. On positive values \<open>findMinMaxMatrix\<close> returns the true minimum and maximum of the
  scanned property over the present cells, and \<open>{min: 0, max: 0}\<close> when there is no
  cell.
\<close>

theorem findMinMaxMatrix_exact:
  assumes "map fn (cells m) = map Fin rs" "\<forall>x \<in> set rs. 0 < x"
  shows "findMinMaxMatrix m fn =
           (if rs = [] then (Fin 0, Fin 0) else (Fin (Min (set rs)), Fin (Max (set rs))))"
proof (cases "rs = []")
  case True
  with assms(1) show ?thesis by (simp add: findMinMaxMatrix_cells)
next
  case False
  have "fold max rs 0 = Max (set (0 # rs))"
    using Max.set_eq_fold[of 0 rs] by simp
  also have "\<dots> = Max (set rs)"
    using False assms(2) by (simp add: max_def order.strict_implies_order Max_ge_iff)
  finally have "fold max rs 0 = Max (set rs)" .
  with False show ?thesis
    unfolding findMinMaxMatrix_cells fold_minmax_cells[OF assms(1)]
    using mm_fold_pos_from_zero[OF assms(2) _ False] by simp
qed

theorem findMinMaxMatrix_exact_witness:
  "findMinMaxMatrix [[None], [Some (new_cell ''b'' ''a'' (Some (Fin 3)) (Some (Fin 5)))]]
     (\<lambda>c. js_val (loc_left c)) = (Fin 3, Fin 3)"
proof -
  have "findMinMaxMatrix [[None], [Some (new_cell ''b'' ''a'' (Some (Fin 3)) (Some (Fin 5)))]]
          (\<lambda>c. js_val (loc_left c)) = (if [3::real] = [] then (Fin 0, Fin 0)
              else (Fin (Min (set [3::real])), Fin (Max (set [3::real]))))"
    by (rule findMinMaxMatrix_exact) (simp_all add: cells_def new_cell_def)
  then show ?thesis by simp
qed

text \<open>
  C9. The scan forgets a genuine 0: \<open>!min\<close> cannot tell "not set yet" from the value 0,
  so after the last 0 of the scanned values \<open>min\<close> restarts, and the result is the
  minimum of the values after the last 0, not the true minimum 0.
\<close>

theorem findMinMaxMatrix_forgets_zero:
  assumes "map fn (cells m) = map Fin (pre @ 0 # post)"
    and "\<forall>x \<in> set pre. 0 \<le> x" "\<forall>x \<in> set post. 0 < x" "post \<noteq> []"
  shows "fst (findMinMaxMatrix m fn) = Fin (Min (set post))"
proof -
  obtain b where b: "fold (\<lambda>x acc. minmax_step acc x) (map Fin (pre @ [0])) (Fin 0, Fin 0) = (Fin 0, Fin b)"
    and "0 \<le> b"
    using mm_fold_zero_reset[OF assms(2)] by blast
  have "fold (\<lambda>x acc. minmax_step acc x) (map Fin (pre @ 0 # post)) (Fin 0, Fin 0)
          = fold (\<lambda>x acc. minmax_step acc x) (map Fin post) (Fin 0, Fin b)"
    using b by simp
  also have "\<dots> = (Fin (Min (set post)), Fin (fold max post b))"
    by (rule mm_fold_pos_from_zero[OF assms(3) \<open>0 \<le> b\<close> assms(4)])
  finally show ?thesis
    unfolding findMinMaxMatrix_cells fold_minmax_cells[OF assms(1)] by simp
qed

theorem findMinMaxMatrix_forgets_zero_witness:
  "fst (findMinMaxMatrix
          [[None, None, None],
           [Some ((new_cell ''b'' ''a'' None None)\<lparr>ratio := Some (Fin 0)\<rparr>), None, None],
           [Some ((new_cell ''c'' ''a'' None None)\<lparr>ratio := Some (Fin 0.5)\<rparr>),
            Some ((new_cell ''c'' ''b'' None None)\<lparr>ratio := Some (Fin 0.25)\<rparr>), None]]
          (\<lambda>c. js_val (ratio c)))
   = Fin (Min (set [0.5, 0.25]))"
  by (rule findMinMaxMatrix_forgets_zero[where pre = "[]"]) (simp_all add: cells_def new_cell_def)

text \<open>
  \<open>findMeanMatrix\<close> returns the arithmetic mean of finite values over the present
  cells, and \<open>NaN\<close> (\<open>0 / 0\<close>) when there is no cell.
\<close>

theorem findMeanMatrix_mean:
  assumes "map fn (cells m) = map Fin rs"
  shows "findMeanMatrix m fn = (if rs = [] then NaN else Fin (sum_list rs / of_nat (length rs)))"
  using fold_mean_cells[OF assms, of 0 0] by (simp add: findMeanMatrix_cells)

theorem findMeanMatrix_mean_witness:
  "findMeanMatrix [[None], [Some ((new_cell ''b'' ''a'' None None)\<lparr>ratio := Some (Fin 0.5)\<rparr>)]]
     (\<lambda>c. js_val (ratio c)) = (if [0.5::real] = [] then NaN else Fin (sum_list [0.5] / of_nat (length [0.5::real])))"
  by (rule findMeanMatrix_mean) (simp add: cells_def new_cell_def)

subsection \<open>The display pass\<close>

lemma scale_px_bounds:
  assumes "0 \<le> w" "w \<le> 1"
  shows "\<exists>y. helpers_round (js_add (js_mul (Fin w) (Fin 20)) (Fin 10)) 3 = Fin y \<and> 10 \<le> y \<and> y \<le> 30"
proof -
  have "of_int 10 \<le> w * 20 + 10" "w * 20 + 10 \<le> of_int 30"
    using assms by simp_all
  then have "of_int 10 \<le> round_real 3 (w * 20 + 10) \<and> round_real 3 (w * 20 + 10) \<le> of_int 30"
    by (rule round_real_between)
  then show ?thesis by simp
qed

lemma cell_display_displayable:
  assumes "ratio c = Some (Fin v)" "mnR \<le> v" "v \<le> mxR"
    and "loc_left c = Some (Fin l)" "mnL \<le> l" "l \<le> mxL"
    and "loc_right c = Some (Fin q)" "mnQ \<le> q" "q \<le> mxQ"
  shows "displayable (cell_display (Fin mnR, Fin mxR) (Fin mnL, Fin mxL) (Fin mnQ, Fin mxQ) c)"
proof -
  obtain r where r: "minmax (Fin v) (Fin mnR) (Fin mxR) 3 = Fin r" "0 \<le> r" "r \<le> 1"
    using minmax_in_unit[OF assms(2,3)] by blast
  obtain w where w: "minmax (Fin q) (Fin mnQ) (Fin mxQ) 3 = Fin w" "0 \<le> w" "w \<le> 1"
    using minmax_in_unit[OF assms(8,9)] by blast
  obtain h where h: "minmax (Fin l) (Fin mnL) (Fin mxL) 3 = Fin h" "0 \<le> h" "h \<le> 1"
    using minmax_in_unit[OF assms(5,6)] by blast
  obtain w' where w': "helpers_round (js_add (js_mul (Fin w) (Fin 20)) (Fin 10)) 3 = Fin w'" "10 \<le> w'" "w' \<le> 30"
    using scale_px_bounds[OF w(2,3)] by blast
  obtain h' where h': "helpers_round (js_add (js_mul (Fin h) (Fin 20)) (Fin 10)) 3 = Fin h'" "10 \<le> h'" "h' \<le> 30"
    using scale_px_bounds[OF h(2,3)] by blast
  show ?thesis
    unfolding displayable_def cell_display_def Let_def
    using r w h w' h' assms(1,4,7) by simp
qed

lemma cell_ratio_positive:
  assumes "loc_left c = Some (Fin ll)" "loc_right c = Some (Fin lr)" "matches c = Some (Fin k)"
    "0 < ll" "0 < lr" "0 < k"
  shows "ratio (cell_ratio c) = Some (Fin (k / (ll + lr))) \<and> 0 < k / (ll + lr)
         \<and> loc_left (cell_ratio c) = loc_left c \<and> loc_right (cell_ratio c) = loc_right c"
  using assms by (simp add: cell_ratio_def)

lemma cell_ratio_no_loc:
  "loc_left c = None \<Longrightarrow> loc_right c = None \<Longrightarrow>
     ratio (cell_ratio c) = Some (Fin 0) \<and> loc_left (cell_ratio c) = None \<and> loc_right (cell_ratio c) = None"
  by (simp add: cell_ratio_def)

lemma fold_minmax_zeros:
  "\<forall>x \<in> set xs. f x = Fin 0 \<Longrightarrow> fold (\<lambda>c acc. minmax_step acc (f c)) xs (Fin 0, Fin 0) = (Fin 0, Fin 0)"
  by (induction xs) (simp_all add: minmax_step_def)

lemma cells_augmentHeatmapMatrix [matrix_simps]:
  "cells (augmentHeatmapMatrix m) =
     map (cell_display (findMinMaxMatrix (map (map (map_option cell_ratio)) m) (\<lambda>c. js_val (ratio c)))
                       (findMinMaxMatrix (map (map (map_option cell_ratio)) m) (\<lambda>c. js_val (loc_left c)))
                       (findMinMaxMatrix (map (map (map_option cell_ratio)) m) (\<lambda>c. js_val (loc_right c))))
       (map cell_ratio (cells m))"
  unfolding augmentHeatmapMatrix_def Let_def cells_map ..

lemma heatmap_cells_displayable:
  assumes "\<forall>c \<in> set (cells m). \<exists>ll lr k. loc_left c = Some (Fin ll) \<and> loc_right c = Some (Fin lr)
             \<and> matches c = Some (Fin k) \<and> 0 < ll \<and> 0 < lr \<and> 0 < k"
  shows "\<forall>c \<in> set (cells (augmentHeatmapMatrix m)). displayable c"
proof -
  let ?m = "map (map (map_option cell_ratio)) m"
  have pos: "\<forall>c \<in> set (cells ?m). \<exists>v l q. ratio c = Some (Fin v) \<and> loc_left c = Some (Fin l)
               \<and> loc_right c = Some (Fin q) \<and> 0 < v \<and> 0 < l \<and> 0 < q"
    using assms cell_ratio_positive by fastforce
  obtain mnR mxR where R: "findMinMaxMatrix ?m (\<lambda>c. js_val (ratio c)) = (Fin mnR, Fin mxR)"
    "\<forall>c \<in> set (cells ?m). mnR \<le> fin_val (js_val (ratio c)) \<and> fin_val (js_val (ratio c)) \<le> mxR"
    using findMinMaxMatrix_positive_range[of ?m "\<lambda>c. js_val (ratio c)"] pos by fastforce
  obtain mnL mxL where L: "findMinMaxMatrix ?m (\<lambda>c. js_val (loc_left c)) = (Fin mnL, Fin mxL)"
    "\<forall>c \<in> set (cells ?m). mnL \<le> fin_val (js_val (loc_left c)) \<and> fin_val (js_val (loc_left c)) \<le> mxL"
    using findMinMaxMatrix_positive_range[of ?m "\<lambda>c. js_val (loc_left c)"] pos by fastforce
  obtain mnQ mxQ where Q: "findMinMaxMatrix ?m (\<lambda>c. js_val (loc_right c)) = (Fin mnQ, Fin mxQ)"
    "\<forall>c \<in> set (cells ?m). mnQ \<le> fin_val (js_val (loc_right c)) \<and> fin_val (js_val (loc_right c)) \<le> mxQ"
    using findMinMaxMatrix_positive_range[of ?m "\<lambda>c. js_val (loc_right c)"] pos by fastforce
  have "displayable (cell_display (Fin mnR, Fin mxR) (Fin mnL, Fin mxL) (Fin mnQ, Fin mxQ) c)"
    if c: "c \<in> set (cells ?m)" for c
  proof -
    obtain v l q where "ratio c = Some (Fin v)" "loc_left c = Some (Fin l)" "loc_right c = Some (Fin q)"
      using pos c by blast
    with R(2) L(2) Q(2) c show ?thesis
      by (intro cell_display_displayable) auto
  qed
  then show ?thesis
    unfolding cells_augmentHeatmapMatrix R(1) L(1) Q(1) by auto
qed

text \<open>
  C1. When every compared pair has positive line counts for both versions and a positive
  number of matching lines, every cell of the heatmap gets a normalised ratio in
  \<open>[0, 1]\<close>, the colour of that ratio, and a width and height in \<open>[10, 30]\<close> pixels.
\<close>

theorem augmentHeatmapMatrix_displayable:
  assumes "\<forall>c \<in> set (cells m). \<exists>ll lr k. loc_left c = Some (Fin ll) \<and> loc_right c = Some (Fin lr)
             \<and> matches c = Some (Fin k) \<and> 0 < ll \<and> 0 < lr \<and> 0 < k"
  shows "\<forall>c \<in> set (cells (augmentHeatmapMatrix m)). displayable c"
  using assms by (rule heatmap_cells_displayable)

theorem augmentHeatmapMatrix_displayable_witness:
  "list_all displayable (cells (augmentHeatmapMatrix
     [[None, None], [Some ((new_cell ''2.0'' ''1.0'' (Some (Fin 120)) (Some (Fin 80)))\<lparr>matches := Some (Fin 50)\<rparr>), None]]))"
proof -
  have "\<forall>c \<in> set (cells (augmentHeatmapMatrix
     [[None, None], [Some ((new_cell ''2.0'' ''1.0'' (Some (Fin 120)) (Some (Fin 80)))\<lparr>matches := Some (Fin 50)\<rparr>), None]])).
     displayable c"
    by (rule augmentHeatmapMatrix_displayable) (simp add: cells_def new_cell_def)
  then show ?thesis by (simp only: list_all_iff)
qed

text \<open>
  The display pass changes only the derived properties: the shape of the matrix, and
  each cell's versions, line counts and match count are those it was given.
\<close>

theorem augmentHeatmapMatrix_frame:
  "map (map (map_option (\<lambda>c. (left c, right c, loc_left c, loc_right c, matches c))))
       (augmentHeatmapMatrix m)
   = map (map (map_option (\<lambda>c. (left c, right c, loc_left c, loc_right c, matches c)))) m"
  by (simp add: augmentHeatmapMatrix_def Let_def cell_display_def cell_ratio_def comp_def
      option.map_comp)

text \<open>
  C20. Without line counts (no version of the matrix is a key of \<open>version_loc_map\<close>,
  as with an \<open>--input-dir\<close> of more than one path component) the heatmap is blank:
  every ratio is \<open>NaN || 0 = 0\<close>, the range is \<open>{0, 0}\<close>, and every cell is
  white with the minimal size 10, whatever the comparisons found.
\<close>

theorem augmentHeatmapMatrix_no_line_counts:
  assumes "\<forall>c \<in> set (cells m). loc_left c = None \<and> loc_right c = None"
  shows "\<forall>c \<in> set (cells (augmentHeatmapMatrix m)). ratio c = Some (Fin 0)
           \<and> color c = Some ''rgb(255,255,255)'' \<and> width c = Some (Fin 10) \<and> height c = Some (Fin 10)"
proof -
  let ?m = "map (map (map_option cell_ratio)) m"
  have r: "\<forall>c \<in> set (cells ?m). ratio c = Some (Fin 0) \<and> loc_left c = None \<and> loc_right c = None"
    using assms cell_ratio_no_loc by auto
  then have "findMinMaxMatrix ?m (\<lambda>c. js_val (ratio c)) = (Fin 0, Fin 0)"
    unfolding findMinMaxMatrix_cells by (intro fold_minmax_zeros) simp
  then show ?thesis
    unfolding cells_augmentHeatmapMatrix using r
    by (auto simp: cell_display_def percentageToColor_zero round_real_def)
qed

theorem augmentHeatmapMatrix_no_line_counts_witness:
  "list_all (\<lambda>c. ratio c = Some (Fin 0) \<and> color c = Some ''rgb(255,255,255)''
                  \<and> width c = Some (Fin 10) \<and> height c = Some (Fin 10))
     (cells (augmentHeatmapMatrix [[None, None], [Some ((new_cell ''2.0'' ''1.0'' None None)\<lparr>matches := Some (Fin 50)\<rparr>), None]]))"
proof -
  have "\<forall>c \<in> set (cells (augmentHeatmapMatrix [[None, None], [Some ((new_cell ''2.0'' ''1.0'' None None)\<lparr>matches := Some (Fin 50)\<rparr>), None]])).
          ratio c = Some (Fin 0) \<and> color c = Some ''rgb(255,255,255)'' \<and> width c = Some (Fin 10) \<and> height c = Some (Fin 10)"
    by (rule augmentHeatmapMatrix_no_line_counts) (simp add: cells_def new_cell_def)
  then show ?thesis by (simp add: list_all_iff)
qed

end
