(* ===== verification/Batch.thy ===== *)
theory Batch
  imports Matrix
begin

text \<open>
  The batch comparator \<open>augmentComparisonMatrix\<close> of \<open>src/src/App.js\<close> (lines 327 to
  358). The control thread walks the matrix row by row and, for every present cell, starts
  the comparison of its two versions' directories and pushes its promise; when the
  \<open>promises\<close> array holds ten, it awaits all of them and empties the array; after the
  walk it awaits the last batch. A comparison's callback, which runs only while the control
  thread awaits (JavaScript runs callbacks only when the stack is empty), stores the count
  in the cell and increments \<open>processed\<close>. The external tool is the parameter
  \<open>cmp\<close> applied to the directories \<open>dirs\<close> of the two versions (\<open>version_dir_map\<close>);
  its result is fixed when the process is started.

  The state is the record \<open>bstate\<close>: the matrix, the cells not yet visited, the
  \<open>promises\<close> array, the comparisons in flight with the count each will deliver, the
  control phase and \<open>processed\<close>. \<open>batch_step\<close> has one rule per transition: the
  control thread issues a comparison, passes a barrier, leaves the loop or returns; any
  pending comparison completes, in any order.
\<close>

datatype phase = Issuing | Barrier | Final | Finished

record bstate =
  bs_matrix :: matrix
  bs_todo :: "(nat \<times> nat) list"
  bs_promises :: "(nat \<times> nat) list"
  bs_inflight :: "((nat \<times> nat) \<times> jsnum) list"
  bs_phase :: phase
  bs_processed :: nat

text \<open>\<open>if (promises.length >= 10)\<close>: the batch size.\<close>

definition batch_size :: nat where
  "batch_size = 10"

text \<open>
  The row-major walk of \<open>for (rowIndex ...) for (columnIndex ...)\<close> and its
  \<open>if (column)\<close> test: the positions the control thread issues, in order.
\<close>

definition cell_positions :: "matrix \<Rightarrow> (nat \<times> nat) list" where
  "cell_positions matrix =
     concat (map (\<lambda>rowIndex. map (\<lambda>columnIndex. (rowIndex, columnIndex))
                    (filter (\<lambda>columnIndex. matrix ! rowIndex ! columnIndex \<noteq> None)
                       [0..<length (matrix ! rowIndex)]))
               [0..<length matrix])"

text \<open>The count the comparison of a cell's two versions delivers.\<close>

definition cell_count :: "('p \<Rightarrow> 'p \<Rightarrow> jsnum) \<Rightarrow> (version \<Rightarrow> 'p) \<Rightarrow> cell \<Rightarrow> jsnum" where
  "cell_count cmp dirs column = cmp (dirs (left column)) (dirs (right column))"

text \<open>The callback: \<open>column.matches = count; matrix[rowIndex][columnIndex] = column;\<close>.\<close>

definition set_matches :: "nat \<times> nat \<Rightarrow> jsnum \<Rightarrow> matrix \<Rightarrow> matrix" where
  "set_matches p count matrix =
     (case p of (i, j) \<Rightarrow>
        matrix[i := (matrix ! i)[j := map_option (\<lambda>column. column\<lparr>matches := Some count\<rparr>) (matrix ! i ! j)]])"

definition init_bstate :: "matrix \<Rightarrow> bstate" where
  "init_bstate m =
     \<lparr>bs_matrix = m, bs_todo = cell_positions m, bs_promises = [], bs_inflight = [],
      bs_phase = Issuing, bs_processed = 0\<rparr>"

inductive batch_step :: "('p \<Rightarrow> 'p \<Rightarrow> jsnum) \<Rightarrow> (version \<Rightarrow> 'p) \<Rightarrow> bstate \<Rightarrow> bstate \<Rightarrow> bool"
  for cmp :: "'p \<Rightarrow> 'p \<Rightarrow> jsnum" and dirs :: "version \<Rightarrow> 'p" where
  issue: "bs_phase s = Issuing \<Longrightarrow> bs_todo s = (i, j) # ps \<Longrightarrow> bs_matrix s ! i ! j = Some column \<Longrightarrow>
    batch_step cmp dirs s
      (s\<lparr>bs_todo := ps, bs_promises := bs_promises s @ [(i, j)],
         bs_inflight := bs_inflight s @ [((i, j), cell_count cmp dirs column)],
         bs_phase := (if batch_size \<le> length (bs_promises s @ [(i, j)]) then Barrier else Issuing)\<rparr>)"
| barrier_done: "bs_phase s = Barrier \<Longrightarrow> bs_inflight s = [] \<Longrightarrow>
    batch_step cmp dirs s (s\<lparr>bs_promises := [], bs_phase := Issuing\<rparr>)"
| loop_end: "bs_phase s = Issuing \<Longrightarrow> bs_todo s = [] \<Longrightarrow>
    batch_step cmp dirs s (s\<lparr>bs_phase := Final\<rparr>)"
| final_done: "bs_phase s = Final \<Longrightarrow> bs_inflight s = [] \<Longrightarrow>
    batch_step cmp dirs s (s\<lparr>bs_phase := Finished\<rparr>)"
| complete: "bs_phase s \<in> {Barrier, Final} \<Longrightarrow> (p, count) \<in> set (bs_inflight s) \<Longrightarrow>
    batch_step cmp dirs s
      (s\<lparr>bs_matrix := set_matches p count (bs_matrix s),
         bs_inflight := remove1 (p, count) (bs_inflight s),
         bs_processed := Suc (bs_processed s)\<rparr>)"

inductive batch_reach :: "('p \<Rightarrow> 'p \<Rightarrow> jsnum) \<Rightarrow> (version \<Rightarrow> 'p) \<Rightarrow> matrix \<Rightarrow> bstate \<Rightarrow> bool"
  for cmp :: "'p \<Rightarrow> 'p \<Rightarrow> jsnum" and dirs :: "version \<Rightarrow> 'p" and m :: matrix where
  start: "batch_reach cmp dirs m (init_bstate m)"
| step: "batch_reach cmp dirs m s \<Longrightarrow> batch_step cmp dirs s t \<Longrightarrow> batch_reach cmp dirs m t"

text \<open>
  The abstract specification: the returned matrix is the input with \<open>matches\<close> of every
  present cell set to the count of its comparison, as a sequential loop would compute it.
\<close>

definition augmentComparisonMatrix_spec :: "('p \<Rightarrow> 'p \<Rightarrow> jsnum) \<Rightarrow> (version \<Rightarrow> 'p) \<Rightarrow> matrix \<Rightarrow> matrix" where
  "augmentComparisonMatrix_spec cmp dirs m =
     map (map (map_option (\<lambda>column. column\<lparr>matches := Some (cell_count cmp dirs column)\<rparr>))) m"

subsection \<open>Statement vocabulary\<close>

text \<open>The matrix with the counts stored at the positions of \<open>P\<close>.\<close>

definition augment_at :: "(cell \<Rightarrow> jsnum) \<Rightarrow> (nat \<times> nat) set \<Rightarrow> matrix \<Rightarrow> matrix" where
  "augment_at f P m =
     map (\<lambda>i. map (\<lambda>j. if (i, j) \<in> P then map_option (\<lambda>c. c\<lparr>matches := Some (f c)\<rparr>) (m ! i ! j)
                        else m ! i ! j)
                  [0..<length (m ! i)])
       [0..<length m]"

fun phase_rank :: "phase \<Rightarrow> nat" where
  "phase_rank Issuing = 2"
| "phase_rank Barrier = 2"
| "phase_rank Final = 1"
| "phase_rank Finished = 0"

definition batch_measure :: "bstate \<Rightarrow> nat" where
  "batch_measure s =
     4 * length (bs_todo s) + length (bs_inflight s) + 2 * length (bs_promises s) + phase_rank (bs_phase s)"

text \<open>The positions of the comparisons in flight.\<close>

abbreviation pending :: "bstate \<Rightarrow> (nat \<times> nat) list" where
  "pending s \<equiv> map fst (bs_inflight s)"

text \<open>
  The invariant of the batch comparator, relative to the input matrix \<open>m\<close>: the issued
  positions followed by those not yet visited are the row-major walk; what is in flight
  belongs to the current batch, is pending once, and will deliver the count of its cell;
  the matrix holds the counts of the issued comparisons that completed, and \<open>processed\<close>
  counts them; the batch never holds more than ten and, while the control thread issues,
  nothing of it has completed.
\<close>

definition batch_inv :: "('p \<Rightarrow> 'p \<Rightarrow> jsnum) \<Rightarrow> (version \<Rightarrow> 'p) \<Rightarrow> matrix \<Rightarrow> bstate \<Rightarrow> bool" where
  "batch_inv cmp dirs m s \<longleftrightarrow>
     (\<exists>issued. issued @ bs_todo s = cell_positions m
        \<and> set (pending s) \<subseteq> set (bs_promises s) \<and> set (bs_promises s) \<subseteq> set issued
        \<and> distinct (pending s)
        \<and> (\<forall>(p, k) \<in> set (bs_inflight s). \<exists>c. m ! fst p ! snd p = Some c \<and> k = cell_count cmp dirs c)
        \<and> bs_matrix s = augment_at (cell_count cmp dirs) (set issued - set (pending s)) m
        \<and> bs_processed s + length (bs_inflight s) = length issued
        \<and> length (bs_promises s) \<le> batch_size
        \<and> (bs_phase s = Issuing \<longrightarrow> length (bs_promises s) < batch_size \<and> pending s = bs_promises s)
        \<and> (bs_phase s = Barrier \<longrightarrow> bs_promises s \<noteq> [])
        \<and> (bs_phase s \<in> {Final, Finished} \<longrightarrow> bs_todo s = [])
        \<and> (bs_phase s = Finished \<longrightarrow> bs_inflight s = []))"

subsection \<open>Positions of the present cells\<close>

lemma in_cell_positions:
  "(i, j) \<in> set (cell_positions m) \<longleftrightarrow> i < length m \<and> j < length (m ! i) \<and> m ! i ! j \<noteq> None"
  by (auto simp: cell_positions_def image_iff)

lemma distinct_concat_rows:
  assumes "distinct ixs" "\<And>i. distinct (R i)" "\<And>i p. p \<in> set (R i) \<Longrightarrow> fst p = i"
  shows "distinct (concat (map R ixs))"
  using assms(1)
proof (induction ixs)
  case Nil
  then show ?case by simp
next
  case (Cons i ixs)
  have "p \<notin> set (concat (map R ixs))" if "p \<in> set (R i)" for p
    using assms(3)[OF that] assms(3) Cons.prems by fastforce
  then show ?case using Cons assms(2) by auto
qed

lemma distinct_cell_positions: "distinct (cell_positions m)"
  unfolding cell_positions_def
  by (rule distinct_concat_rows) (auto simp: distinct_map inj_on_def)

lemma length_filter_nth_present:
  "length (filter (\<lambda>j. xs ! j \<noteq> None) [0..<length xs]) = length (present xs)"
proof -
  have "length (filter (\<lambda>j. xs ! j \<noteq> None) [0..<length xs])
          = length (filter (\<lambda>x. x \<noteq> None) (map (nth xs) [0..<length xs]))"
    by (simp add: length_filter_map comp_def)
  then show ?thesis by (simp add: map_nth length_present)
qed

lemma length_cell_positions: "length (cell_positions m) = length (cells m)"
proof -
  have "length (cell_positions m) = sum_list (map (\<lambda>i. length (present (m ! i))) [0..<length m])"
    by (simp only: cell_positions_def length_concat map_map comp_def length_map length_filter_nth_present)
  also have "map (\<lambda>i. length (present (m ! i))) [0..<length m] = map (\<lambda>row. length (present row)) m"
    by (rule nth_equalityI) simp_all
  finally show ?thesis
    by (simp add: cells_def length_concat comp_def)
qed

subsection \<open>Counts stored at a set of positions\<close>

lemma augment_at_nth:
  assumes "i < length m" "j < length (m ! i)"
  shows "augment_at f P m ! i ! j =
             (if (i, j) \<in> P then map_option (\<lambda>c. c\<lparr>matches := Some (f c)\<rparr>) (m ! i ! j) else m ! i ! j)"
  using assms by (simp add: augment_at_def)

lemma augment_at_eqI:
  assumes "length m' = length m" "\<And>i. i < length m \<Longrightarrow> length (m' ! i) = length (m ! i)"
    and "\<And>i j. i < length m \<Longrightarrow> j < length (m ! i) \<Longrightarrow>
           m' ! i ! j = (if (i, j) \<in> P then map_option (\<lambda>c. c\<lparr>matches := Some (f c)\<rparr>) (m ! i ! j) else m ! i ! j)"
  shows "m' = augment_at f P m"
  unfolding augment_at_def using assms by (intro nth_equalityI) simp_all

lemma augment_at_empty [simp]: "augment_at f {} m = m"
  by (rule augment_at_eqI[symmetric]) (simp_all add: augment_at_def)

lemma augment_at_all:
  "augment_at (cell_count cmp dirs) (set (cell_positions m)) m = augmentComparisonMatrix_spec cmp dirs m"
  by (rule augment_at_eqI[symmetric])
    (auto simp: augmentComparisonMatrix_spec_def in_cell_positions)

lemma cell_count_matches [simp]: "cell_count cmp dirs (c\<lparr>matches := x\<rparr>) = cell_count cmp dirs c"
  by (simp add: cell_count_def)

lemma set_matches_augment_at:
  assumes "(i, j) \<in> set (cell_positions m)" "(i, j) \<notin> P" "m ! i ! j = Some c"
  shows "set_matches (i, j) (cell_count cmp dirs c) (augment_at (cell_count cmp dirs) P m)
           = augment_at (cell_count cmp dirs) (insert (i, j) P) m"
proof -
  have ij: "i < length m" "j < length (m ! i)"
    using assms(1) by (simp_all add: in_cell_positions)
  show ?thesis
    apply (rule augment_at_eqI)
    subgoal by (simp add: set_matches_def augment_at_def)
    subgoal for i' using ij by (simp add: set_matches_def augment_at_def nth_list_update)
    subgoal for i' j' using ij assms(2,3)
      by (cases "i' = i"; cases "j' = j") (simp_all add: set_matches_def augment_at_def nth_list_update)
    done
qed

lemma augment_at_cell:
  assumes "(i, j) \<in> set (cell_positions m)" "(i, j) \<notin> P"
  shows "augment_at f P m ! i ! j = m ! i ! j"
  using assms by (simp add: in_cell_positions augment_at_nth)


lemma map_fst_remove1:
  "distinct (map fst xs) \<Longrightarrow> x \<in> set xs \<Longrightarrow> map fst (remove1 x xs) = remove1 (fst x) (map fst xs)"
  by (induction xs) auto

subsection \<open>The invariant\<close>

lemma batch_inv_init: "batch_inv cmp dirs m (init_bstate m)"
  unfolding batch_inv_def init_bstate_def by (simp add: batch_size_def)

lemma batch_inv_issue:
  assumes ph: "bs_phase s = Issuing"
    and todo: "bs_todo s = (i, j) # ps" and cell: "bs_matrix s ! i ! j = Some column"
    and inv: "batch_inv cmp dirs m s"
  shows "batch_inv cmp dirs m
           (s\<lparr>bs_todo := ps, bs_promises := bs_promises s @ [(i, j)],
              bs_inflight := bs_inflight s @ [((i, j), cell_count cmp dirs column)],
              bs_phase := (if batch_size \<le> length (bs_promises s @ [(i, j)]) then Barrier else Issuing)\<rparr>)"
proof -
  obtain issued where walk: "issued @ bs_todo s = cell_positions m"
    and I: "set (pending s) \<subseteq> set (bs_promises s)" "set (bs_promises s) \<subseteq> set issued"
      "distinct (pending s)"
      "\<forall>(p, k) \<in> set (bs_inflight s). \<exists>c. m ! fst p ! snd p = Some c \<and> k = cell_count cmp dirs c"
      "bs_matrix s = augment_at (cell_count cmp dirs) (set issued - set (pending s)) m"
      "bs_processed s + length (bs_inflight s) = length issued"
      "length (bs_promises s) < batch_size" "pending s = bs_promises s"
    using inv ph unfolding batch_inv_def by blast
  have pos: "(i, j) \<in> set (cell_positions m)" and fresh: "(i, j) \<notin> set issued"
    using walk todo distinct_cell_positions[of m] by (auto simp flip: walk)
  have "bs_matrix s ! i ! j = m ! i ! j"
    using I(5) pos fresh augment_at_cell[of i j m] by simp
  with cell have mc: "m ! i ! j = Some column" by simp
  have "set (issued @ [(i, j)]) - set (pending s @ [(i, j)]) = set issued - set (pending s)"
    using fresh by auto
  then show ?thesis
    unfolding batch_inv_def using walk todo I fresh mc
    apply (intro exI[of _ "issued @ [(i, j)]"] conjI)
    apply (simp_all add: batch_size_def)
    using I(2) fresh by blast+
qed

lemma in_set_remove1D: "x \<in> set (remove1 y xs) \<Longrightarrow> x \<in> set xs"
  using set_remove1_subset by fast

lemma ball_remove1: "\<forall>x \<in> set xs. P x \<Longrightarrow> \<forall>x \<in> set (remove1 y xs). P x"
  by (blast dest: in_set_remove1D)

lemma batch_inv_complete:
  assumes ph: "bs_phase s \<in> {Barrier, Final}"
    and fl: "(p, count) \<in> set (bs_inflight s)"
    and inv: "batch_inv cmp dirs m s"
  shows "batch_inv cmp dirs m
           (s\<lparr>bs_matrix := set_matches p count (bs_matrix s),
              bs_inflight := remove1 (p, count) (bs_inflight s),
              bs_processed := Suc (bs_processed s)\<rparr>)"
proof -
  obtain issued where walk: "issued @ bs_todo s = cell_positions m"
    and I: "set (pending s) \<subseteq> set (bs_promises s)" "set (bs_promises s) \<subseteq> set issued"
      "distinct (pending s)"
      "\<forall>(p, k) \<in> set (bs_inflight s). \<exists>c. m ! fst p ! snd p = Some c \<and> k = cell_count cmp dirs c"
      "bs_matrix s = augment_at (cell_count cmp dirs) (set issued - set (pending s)) m"
      "bs_processed s + length (bs_inflight s) = length issued"
      "length (bs_promises s) \<le> batch_size"
      "bs_phase s = Barrier \<longrightarrow> bs_promises s \<noteq> []"
      "bs_phase s \<in> {Final, Finished} \<longrightarrow> bs_todo s = []"
    using inv unfolding batch_inv_def by (elim exE conjE) (rule that; assumption)
  obtain i j where p: "p = (i, j)" by (cases p)
  obtain c where mc: "m ! i ! j = Some c" and k: "count = cell_count cmp dirs c"
    using I(4) fl p by fastforce
  have pp: "p \<in> set (pending s)" using fl by force
  then have pi: "p \<in> set issued" using I(1,2) by blast
  then have pos: "(i, j) \<in> set (cell_positions m)" using walk p by (auto simp flip: walk)
  have rm: "pending (s\<lparr>bs_inflight := remove1 (p, count) (bs_inflight s)\<rparr>) = remove1 p (pending s)"
    using map_fst_remove1[OF I(3) fl] by simp
  have set_rm: "set (remove1 p (pending s)) = set (pending s) - {p}"
    using I(3) by (simp add: set_remove1_eq)
  have "set_matches p count (bs_matrix s)
          = augment_at (cell_count cmp dirs) (insert (i, j) (set issued - set (pending s))) m"
    using set_matches_augment_at[OF pos _ mc, of "set issued - set (pending s)" cmp dirs] pp p I(5) k
    by simp
  also have "insert (i, j) (set issued - set (pending s)) = set issued - set (remove1 p (pending s))"
    using set_rm pi p by auto
  finally have mat: "set_matches p count (bs_matrix s)
                       = augment_at (cell_count cmp dirs) (set issued - set (remove1 p (pending s))) m" .
  have len: "length (remove1 (p, count) (bs_inflight s)) = length (bs_inflight s) - 1"
    using fl by (simp add: length_remove1)
  have nz: "length (bs_inflight s) \<noteq> 0" using fl by auto
  have cnt: "Suc (bs_processed s) + length (remove1 (p, count) (bs_inflight s)) = length issued"
    using I(6) len nz by arith
  show ?thesis
    unfolding batch_inv_def
    apply (intro exI[of _ issued] conjI)
    subgoal using walk by simp
    subgoal using rm set_rm I(1) by (auto simp del: set_map)
    subgoal using I(2) by simp
    subgoal using rm distinct_remove1[OF I(3)] by (simp del: set_map)
    subgoal using ball_remove1[OF I(4)] by simp
    subgoal using mat rm by (simp del: set_map)
    subgoal using cnt by simp
    subgoal using I(7) by simp
    subgoal using ph by auto
    subgoal using I(8) ph by simp
    subgoal using I(9) by simp
    subgoal using ph by auto
    done
qed

lemma batch_step_inv:
  "batch_step cmp dirs s t \<Longrightarrow> batch_inv cmp dirs m s \<Longrightarrow> batch_inv cmp dirs m t"
proof (induction rule: batch_step.induct)
  case (issue s i j ps column)
  then show ?case by (rule batch_inv_issue)
next
  case (barrier_done s)
  then show ?case by (auto simp: batch_inv_def batch_size_def simp del: set_map)
next
  case (loop_end s)
  then show ?case by (auto simp: batch_inv_def simp del: set_map)
next
  case (final_done s)
  then show ?case by (auto simp: batch_inv_def simp del: set_map)
next
  case (complete s p count)
  then show ?case by (rule batch_inv_complete)
qed

lemma batch_reach_inv: "batch_reach cmp dirs m s \<Longrightarrow> batch_inv cmp dirs m s"
  by (induction rule: batch_reach.induct) (auto intro: batch_inv_init batch_step_inv)

subsection \<open>Progress, termination and the final state\<close>

lemma batch_inv_next:
  assumes "batch_inv cmp dirs m s" "bs_todo s = (i, j) # ps"
  shows "(i, j) \<in> set (cell_positions m) \<and> bs_matrix s ! i ! j = m ! i ! j"
proof -
  obtain issued where walk: "issued @ bs_todo s = cell_positions m"
    and mat: "bs_matrix s = augment_at (cell_count cmp dirs) (set issued - set (pending s)) m"
    using assms(1) unfolding batch_inv_def by blast
  have pos: "(i, j) \<in> set (cell_positions m)" and fresh: "(i, j) \<notin> set issued"
    using walk assms(2) distinct_cell_positions[of m] by (auto simp flip: walk)
  then show ?thesis using mat augment_at_cell[of i j m] by simp
qed

lemma batch_progress:
  assumes inv: "batch_inv cmp dirs m s" and nf: "bs_phase s \<noteq> Finished"
  shows "\<exists>t. batch_step cmp dirs s t"
proof (cases "bs_phase s")
  case Issuing
  show ?thesis
  proof (cases "bs_todo s")
    case Nil
    then show ?thesis using Issuing by (blast intro: loop_end)
  next
    case (Cons q ps)
    obtain i j where q: "q = (i, j)" by (cases q)
    have "(i, j) \<in> set (cell_positions m)" "bs_matrix s ! i ! j = m ! i ! j"
      using batch_inv_next[OF inv] Cons q by simp_all
    then obtain column where "bs_matrix s ! i ! j = Some column"
      by (auto simp: in_cell_positions)
    then show ?thesis using Issuing Cons q by (blast intro: batch_step.issue)
  qed
next
  case Barrier
  show ?thesis
  proof (cases "bs_inflight s")
    case Nil
    then show ?thesis using Barrier by (blast intro: barrier_done)
  next
    case (Cons x xs)
    then have "(fst x, snd x) \<in> set (bs_inflight s)" by simp
    then show ?thesis using Barrier complete[of s "fst x" "snd x" cmp dirs] by auto
  qed
next
  case Final
  show ?thesis
  proof (cases "bs_inflight s")
    case Nil
    then show ?thesis using Final by (blast intro: final_done)
  next
    case (Cons x xs)
    then have "(fst x, snd x) \<in> set (bs_inflight s)" by simp
    then show ?thesis using Final complete[of s "fst x" "snd x" cmp dirs] by auto
  qed
next
  case Finished
  then show ?thesis using nf by simp
qed

lemma batch_finished_stuck: "bs_phase s = Finished \<Longrightarrow> \<not> batch_step cmp dirs s t"
  by (auto elim: batch_step.cases)

lemma batch_step_measure:
  assumes "batch_step cmp dirs s t" "batch_inv cmp dirs m s"
  shows "batch_measure t < batch_measure s"
  using assms
proof (induction rule: batch_step.induct)
  case (issue s i j ps column)
  then show ?case by (simp add: batch_measure_def)
next
  case (barrier_done s)
  then have "bs_promises s \<noteq> []" unfolding batch_inv_def by blast
  then show ?case using barrier_done by (simp add: batch_measure_def)
next
  case (loop_end s)
  then show ?case by (simp add: batch_measure_def)
next
  case (final_done s)
  then show ?case by (simp add: batch_measure_def)
next
  case (complete s p count)
  then have "length (bs_inflight s) \<noteq> 0" by auto
  then show ?case using complete by (simp add: batch_measure_def length_remove1)
qed

lemma batch_inv_finished:
  assumes "batch_inv cmp dirs m s" "bs_phase s = Finished"
  shows "bs_matrix s = augmentComparisonMatrix_spec cmp dirs m \<and> bs_processed s = length (cells m)"
proof -
  obtain issued where walk: "issued @ bs_todo s = cell_positions m"
    and mat: "bs_matrix s = augment_at (cell_count cmp dirs) (set issued - set (pending s)) m"
    and cnt: "bs_processed s + length (bs_inflight s) = length issued"
    and todo: "bs_todo s = []" and fl: "bs_inflight s = []"
    using assms unfolding batch_inv_def by auto
  have "issued = cell_positions m" using walk todo by simp
  then show ?thesis using mat cnt fl augment_at_all[of cmp dirs m] length_cell_positions[of m] by simp
qed

lemma batch_reach_finishes:
  "batch_reach cmp dirs m s \<Longrightarrow> \<exists>t. batch_reach cmp dirs m t \<and> bs_phase t = Finished"
proof (induction "batch_measure s" arbitrary: s rule: less_induct)
  case less
  show ?case
  proof (cases "bs_phase s = Finished")
    case True
    then show ?thesis using less.prems by blast
  next
    case False
    have inv: "batch_inv cmp dirs m s" using less.prems by (rule batch_reach_inv)
    obtain t where st: "batch_step cmp dirs s t" using batch_progress[OF inv False] by blast
    have "batch_measure t < batch_measure s" using batch_step_measure[OF st inv] .
    moreover have "batch_reach cmp dirs m t" using less.prems st by (rule batch_reach.step)
    ultimately show ?thesis using less.hyps by blast
  qed
qed

lemma inflight_bounded:
  assumes "batch_inv cmp dirs m s"
  shows "length (bs_inflight s) \<le> length (bs_promises s) \<and> length (bs_promises s) \<le> batch_size"
proof -
  have d: "distinct (pending s)" and sub: "set (pending s) \<subseteq> set (bs_promises s)"
    and b: "length (bs_promises s) \<le> batch_size"
    using assms unfolding batch_inv_def by blast+
  have "length (bs_inflight s) = card (set (pending s))" using distinct_card[OF d] by simp
  also have "\<dots> \<le> card (set (bs_promises s))" using sub by (simp add: card_mono)
  also have "\<dots> \<le> length (bs_promises s)" by (rule card_length)
  finally show ?thesis using b by simp
qed

subsection \<open>A concrete run\<close>

text \<open>
  Two versions \<open>1.0\<close> and \<open>2.0\<close>, one cell, a comparison that always finds seven
  lines: the control thread issues it, leaves the loop, the comparison completes during
  the final await, and the function returns.
\<close>

lemma demo_matrix:
  "createRichMatrix [''1.0'', ''2.0''] Map.empty = [[None, None], [Some (new_cell ''2.0'' ''1.0'' None None), None]]"
  by (simp add: createRichMatrix_def)

lemma demo_positions:
  "cell_positions [[None, None], [Some (new_cell ''2.0'' ''1.0'' None None), None]] = [(1, 0)]"
  by (simp add: cell_positions_def upt_conv_Cons)

lemma demo_issued:
  "batch_reach (\<lambda>a b. Fin 7) id (createRichMatrix [''1.0'', ''2.0''] Map.empty)
     \<lparr>bs_matrix = [[None, None], [Some (new_cell ''2.0'' ''1.0'' None None), None]],
      bs_todo = [], bs_promises = [(1, 0)], bs_inflight = [((1, 0), Fin 7)],
      bs_phase = Issuing, bs_processed = 0\<rparr>"
  (is "batch_reach ?c ?d ?m ?S1")
proof -
  let ?C = "new_cell ''2.0'' ''1.0'' None None"
  let ?S0 = "\<lparr>bs_matrix = [[None, None], [Some ?C, None]], bs_todo = [(1, 0)], bs_promises = [],
              bs_inflight = [], bs_phase = Issuing, bs_processed = 0\<rparr>"
  have r0: "batch_reach ?c ?d ?m ?S0"
    using batch_reach.start[of ?c ?d ?m] by (simp add: demo_matrix demo_positions init_bstate_def)
  show ?thesis
    using batch_reach.step[OF r0 batch_step.issue[of ?S0 1 0 "[]" ?C ?c ?d]]
    by (simp add: batch_size_def cell_count_def new_cell_def)
qed

lemma demo_run:
  "batch_reach (\<lambda>a b. Fin 7) id (createRichMatrix [''1.0'', ''2.0''] Map.empty)
     \<lparr>bs_matrix = [[None, None], [Some ((new_cell ''2.0'' ''1.0'' None None)\<lparr>matches := Some (Fin 7)\<rparr>), None]],
      bs_todo = [], bs_promises = [(1, 0)], bs_inflight = [], bs_phase = Finished, bs_processed = 1\<rparr>"
  (is "batch_reach ?c ?d ?m _")
proof -
  let ?C = "new_cell ''2.0'' ''1.0'' None None"
  let ?S1 = "\<lparr>bs_matrix = [[None, None], [Some ?C, None]], bs_todo = [], bs_promises = [(1, 0)],
              bs_inflight = [((1, 0), Fin 7)], bs_phase = Issuing, bs_processed = 0\<rparr>"
  let ?S2 = "?S1\<lparr>bs_phase := Final\<rparr>"
  let ?S3 = "\<lparr>bs_matrix = [[None, None], [Some (?C\<lparr>matches := Some (Fin 7)\<rparr>), None]],
              bs_todo = [], bs_promises = [(1, 0)], bs_inflight = [], bs_phase = Final, bs_processed = 1\<rparr>"
  have r2: "batch_reach ?c ?d ?m ?S2"
    using batch_reach.step[OF demo_issued batch_step.loop_end[of ?S1 ?c ?d]] by simp
  have r3: "batch_reach ?c ?d ?m ?S3"
    using batch_reach.step[OF r2 batch_step.complete[of ?S2 "(1, 0)" "Fin 7" ?c ?d]]
    by (simp add: set_matches_def)
  show ?thesis
    using batch_reach.step[OF r3 batch_step.final_done[of ?S3 ?c ?d]] by simp
qed

subsection \<open>Properties of the batch comparator\<close>

text \<open>
  C11. At most ten comparisons run at once: in every reachable state the comparisons in
  flight number at most \<open>batch_size\<close>.
\<close>

theorem batch_inflight_bounded:
  assumes "batch_reach cmp dirs m s"
  shows "length (bs_inflight s) \<le> batch_size"
  using inflight_bounded[OF batch_reach_inv[OF assms]] by simp

theorem batch_inflight_bounded_witness:
  "batch_reach (\<lambda>a b. Fin 7) id (createRichMatrix [''1.0'', ''2.0''] Map.empty)
     \<lparr>bs_matrix = [[None, None], [Some (new_cell ''2.0'' ''1.0'' None None), None]],
      bs_todo = [], bs_promises = [(1, 0)], bs_inflight = [((1, 0), Fin 7)],
      bs_phase = Issuing, bs_processed = 0\<rparr>
   \<and> length [((1::nat, 0::nat), Fin 7)] \<le> batch_size"
  using demo_issued batch_inflight_bounded[OF demo_issued] by simp

text \<open>
  C12. The barrier: every comparison in flight belongs to the current \<open>promises\<close>
  batch, so none of an earlier batch is still running; and while the control thread
  issues, nothing of the current batch has completed yet (callbacks run only while it
  awaits), so the comparisons in flight are exactly the batch.
\<close>

theorem batch_barrier:
  assumes "batch_reach cmp dirs m s"
  shows "set (map fst (bs_inflight s)) \<subseteq> set (bs_promises s)
           \<and> (bs_phase s = Issuing \<longrightarrow> map fst (bs_inflight s) = bs_promises s)"
  using batch_reach_inv[OF assms] unfolding batch_inv_def by blast

theorem batch_barrier_witness:
  "batch_reach (\<lambda>a b. Fin 7) id (createRichMatrix [''1.0'', ''2.0''] Map.empty)
     \<lparr>bs_matrix = [[None, None], [Some (new_cell ''2.0'' ''1.0'' None None), None]],
      bs_todo = [], bs_promises = [(1, 0)], bs_inflight = [((1, 0), Fin 7)],
      bs_phase = Issuing, bs_processed = 0\<rparr>
   \<and> map fst [((1::nat, 0::nat), Fin 7)] = [(1, 0)]"
  using demo_issued batch_barrier[OF demo_issued] by simp

text \<open>
  C13. Refinement: when \<open>augmentComparisonMatrix\<close> returns, whatever order the
  comparisons completed in, the matrix is the sequential specification (every present
  cell has \<open>matches\<close> set to the count of its two versions) and \<open>processed\<close> counts
  every cell. Against the comment of the function (lines 321 to 323), which
  says each cell is also given its \<open>ratio\<close>, nothing but \<open>matches\<close> changes.
\<close>

theorem batch_refines_spec:
  assumes "batch_reach cmp dirs m s" "bs_phase s = Finished"
  shows "bs_matrix s = augmentComparisonMatrix_spec cmp dirs m \<and> bs_processed s = length (cells m)"
  using batch_inv_finished[OF batch_reach_inv[OF assms(1)] assms(2)] .

theorem batch_refines_spec_witness:
  "augmentComparisonMatrix_spec (\<lambda>a b. Fin 7) id (createRichMatrix [''1.0'', ''2.0''] Map.empty)
     = [[None, None], [Some ((new_cell ''2.0'' ''1.0'' None None)\<lparr>matches := Some (Fin 7)\<rparr>), None]]
   \<and> length (cells (createRichMatrix [''1.0'', ''2.0''] Map.empty)) = 1"
  using batch_refines_spec[OF demo_run] by simp

text \<open>
  C14. No deadlock: a reachable state with no successor is the return of the function,
  so the barrier and the final await are always released.
\<close>

theorem batch_deadlock_free:
  assumes "batch_reach cmp dirs m s" "\<forall>t. \<not> batch_step cmp dirs s t"
  shows "bs_phase s = Finished"
  using batch_progress[OF batch_reach_inv[OF assms(1)]] assms(2) by blast

theorem batch_deadlock_free_witness:
  "batch_reach (\<lambda>a b. Fin 7) id (createRichMatrix [''1.0'', ''2.0''] Map.empty)
     \<lparr>bs_matrix = [[None, None], [Some ((new_cell ''2.0'' ''1.0'' None None)\<lparr>matches := Some (Fin 7)\<rparr>), None]],
      bs_todo = [], bs_promises = [(1::nat, 0::nat)], bs_inflight = [], bs_phase = Finished, bs_processed = 1\<rparr>
   \<and> (\<forall>t. \<not> batch_step (\<lambda>a b. Fin 7) id
     \<lparr>bs_matrix = [[None, None], [Some ((new_cell ''2.0'' ''1.0'' None None)\<lparr>matches := Some (Fin 7)\<rparr>), None]],
      bs_todo = [], bs_promises = [(1::nat, 0::nat)], bs_inflight = [], bs_phase = Finished, bs_processed = 1\<rparr> t)
   \<and> bs_phase \<lparr>bs_matrix = [[None, None], [Some ((new_cell ''2.0'' ''1.0'' None None)\<lparr>matches := Some (Fin 7)\<rparr>), None]],
      bs_todo = [], bs_promises = [(1::nat, 0::nat)], bs_inflight = [], bs_phase = Finished, bs_processed = 1\<rparr> = Finished"
proof -
  have stuck: "\<forall>t. \<not> batch_step (\<lambda>a b. Fin 7) id
     \<lparr>bs_matrix = [[None, None], [Some ((new_cell ''2.0'' ''1.0'' None None)\<lparr>matches := Some (Fin 7)\<rparr>), None]],
      bs_todo = [], bs_promises = [(1::nat, 0::nat)], bs_inflight = [], bs_phase = Finished, bs_processed = 1\<rparr> t"
    by (intro allI batch_finished_stuck) simp
  show ?thesis
    using demo_run stuck batch_deadlock_free[OF demo_run stuck] by simp
qed

text \<open>
  Termination: no schedule of the control thread and the callbacks runs forever;
  the steps between reachable states form a well-founded relation (each step decreases
  \<open>batch_measure\<close>).
\<close>

theorem batch_terminates: "wf {(t, s). batch_reach cmp dirs m s \<and> batch_step cmp dirs s t}"
proof (rule wf_subset[OF wf_measure[of batch_measure]])
  show "{(t, s). batch_reach cmp dirs m s \<and> batch_step cmp dirs s t} \<subseteq> measure batch_measure"
    using batch_step_measure batch_reach_inv by fastforce
qed

text \<open>
  C15. Liveness: from the start some schedule returns, with the specified matrix and
  every cell processed.
\<close>

theorem batch_completes:
  "\<exists>s. batch_reach cmp dirs m s \<and> bs_phase s = Finished
        \<and> bs_matrix s = augmentComparisonMatrix_spec cmp dirs m \<and> bs_processed s = length (cells m)"
proof -
  obtain s where "batch_reach cmp dirs m s" "bs_phase s = Finished"
    using batch_reach_finishes[OF batch_reach.start] by blast
  then show ?thesis using batch_inv_finished[OF batch_reach_inv] by blast
qed

text \<open>
  C16. No wrong count is ever stored: in every reachable state the matrix is the input
  with the counts of the cells of some set of present positions, each its own cell's
  count, and every other cell untouched.
\<close>

theorem batch_partial_results:
  assumes "batch_reach cmp dirs m s"
  shows "\<exists>P \<subseteq> set (cell_positions m). bs_matrix s = augment_at (cell_count cmp dirs) P m"
proof -
  obtain issued where "issued @ bs_todo s = cell_positions m"
    and "bs_matrix s = augment_at (cell_count cmp dirs) (set issued - set (pending s)) m"
    using batch_reach_inv[OF assms] unfolding batch_inv_def by blast
  then show ?thesis by (intro exI[of _ "set issued - set (pending s)"]) (auto simp flip: \<open>issued @ bs_todo s = cell_positions m\<close>)
qed



theorem batch_partial_results_witness:
  "\<exists>P \<subseteq> set (cell_positions (createRichMatrix [''1.0'', ''2.0''] Map.empty)).
     [[None, None], [Some ((new_cell ''2.0'' ''1.0'' None None)\<lparr>matches := Some (Fin 7)\<rparr>), None]]
       = augment_at (cell_count (\<lambda>a b. Fin 7) id) P (createRichMatrix [''1.0'', ''2.0''] Map.empty)"
  using batch_partial_results[OF demo_run] by simp

end
