(* ===== verification/JsString.thy ===== *)
theory JsString
  imports JsNumber
begin

text \<open>
  The string operations of the JavaScript runtime that the parsers of \<open>src/\<close> call:
  \<open>String.prototype.split\<close> with a one-character separator, \<open>trim\<close>,
  \<open>Array.prototype.join\<close>, the global \<open>parseInt\<close> (no radix argument) and the
  conversion \<open>Number(s)\<close> of a string (the \<open>StringToNumber\<close> of the language
  specification), with decimal, exponent, \<open>Infinity\<close> and the \<open>0x\<close>, \<open>0o\<close>,
  \<open>0b\<close> forms. Characters are the 8-bit characters of HOL: the white space the runtime
  trims is the ASCII one (tab, line feed, vertical tab, form feed, carriage return,
  space); the Unicode spaces, which are several bytes in the UTF-8 text the code reads,
  are not white space here. Values are exact reals, as in \<open>JsNumber\<close>.
\<close>

text \<open>The exceptions the modelled code can throw.\<close>

datatype js_error = TypeError | SyntaxError | Error string

definition js_whitespace :: "char \<Rightarrow> bool" where
  "js_whitespace c \<longleftrightarrow> of_char c \<in> {9, 10, 11, 12, 13, 32 :: nat}"

text \<open>The value of a digit in radix \<open>r\<close> (\<open>0-9\<close>, then \<open>a-z\<close> or \<open>A-Z\<close> from 10).\<close>

definition radix_digit :: "nat \<Rightarrow> char \<Rightarrow> nat option" where
  "radix_digit r c =
     (let n = (of_char c :: nat);
          d = (if 48 \<le> n \<and> n \<le> 57 then n - 48
               else if 97 \<le> n \<and> n \<le> 122 then n - 87
               else if 65 \<le> n \<and> n \<le> 90 then n - 55 else r)
      in if d < r then Some d else None)"

definition is_digit :: "char \<Rightarrow> bool" where
  "is_digit c \<longleftrightarrow> radix_digit 10 c \<noteq> None"

definition radix_value :: "nat \<Rightarrow> string \<Rightarrow> nat" where
  "radix_value r s = foldl (\<lambda>n c. case radix_digit r c of Some d \<Rightarrow> r * n + d | None \<Rightarrow> n) 0 s"

definition js_trim :: "string \<Rightarrow> string" where
  "js_trim s = rev (dropWhile js_whitespace (rev (dropWhile js_whitespace s)))"

text \<open>\<open>s.split(sep)\<close> for a one-character separator: the pieces between separators,
  empty ones included; \<open>''.split(',')\<close> is \<open>['']\<close>.\<close>

definition js_split :: "char \<Rightarrow> string \<Rightarrow> string list" where
  "js_split sep s = foldr (\<lambda>c acc. if c = sep then [] # acc else (c # hd acc) # tl acc) s [[]]"

fun js_join :: "char \<Rightarrow> string list \<Rightarrow> string" where
  "js_join sep [] = []"
| "js_join sep [x] = x"
| "js_join sep (x # xs) = x @ sep # js_join sep xs"

text \<open>
  \<open>parseInt(s)\<close>: skip leading white space, read a sign, a \<open>0x\<close> prefix selects radix
  16, then the longest prefix of digits; no digit gives \<open>NaN\<close>, anything after the
  digits is ignored.
\<close>

definition js_parseInt :: "string \<Rightarrow> jsnum" where
  "js_parseInt string =
     (let S = dropWhile js_whitespace string;
          sign = (if S \<noteq> [] \<and> hd S = CHR ''-'' then -1 else 1 :: real);
          S1 = (if S \<noteq> [] \<and> (hd S = CHR ''+'' \<or> hd S = CHR ''-'') then tl S else S);
          hex = (take 2 S1 = ''0x'' \<or> take 2 S1 = ''0X'');
          R = (if hex then 16 else 10);
          S2 = (if hex then drop 2 S1 else S1);
          Z = takeWhile (\<lambda>c. radix_digit R c \<noteq> None) S2
      in if Z = [] then NaN else Fin (sign * of_nat (radix_value R Z)))"

text \<open>\<open>StrUnsignedDecimalLiteral\<close> without \<open>Infinity\<close>: digits, an optional fraction,
  an optional exponent; at least one digit before the exponent.\<close>

definition js_unsigned_decimal :: "string \<Rightarrow> real option" where
  "js_unsigned_decimal u =
     (let ip = takeWhile is_digit u;
          r1 = dropWhile is_digit u;
          fp = (if r1 \<noteq> [] \<and> hd r1 = CHR ''.'' then takeWhile is_digit (tl r1) else []);
          r2 = (if r1 \<noteq> [] \<and> hd r1 = CHR ''.'' then dropWhile is_digit (tl r1) else r1);
          m = of_nat (radix_value 10 (ip @ fp)) / 10 ^ length fp
      in if ip = [] \<and> fp = [] then None
         else if r2 = [] then Some m
         else if hd r2 = CHR ''e'' \<or> hd r2 = CHR ''E'' then
           (let r3 = tl r2;
                neg = (r3 \<noteq> [] \<and> hd r3 = CHR ''-'');
                r4 = (if r3 \<noteq> [] \<and> (hd r3 = CHR ''+'' \<or> hd r3 = CHR ''-'') then tl r3 else r3);
                e = radix_value 10 r4
            in if r4 \<noteq> [] \<and> list_all is_digit r4
               then Some (if neg then m / 10 ^ e else m * 10 ^ e) else None)
         else None)"

text \<open>\<open>NonDecimalIntegerLiteral\<close>: \<open>0x\<close>, \<open>0o\<close>, \<open>0b\<close> and at least one digit.\<close>

definition js_non_decimal :: "string \<Rightarrow> real option" where
  "js_non_decimal t =
     (let p = take 2 t;
          R = (if p = ''0x'' \<or> p = ''0X'' then 16 else if p = ''0o'' \<or> p = ''0O'' then 8
               else if p = ''0b'' \<or> p = ''0B'' then 2 else 0);
          ds = drop 2 t
      in if R \<noteq> 0 \<and> ds \<noteq> [] \<and> list_all (\<lambda>c. radix_digit R c \<noteq> None) ds
         then Some (of_nat (radix_value R ds)) else None)"

text \<open>\<open>Number(s)\<close>, also the implicit conversion of \<open>s / 100\<close> and \<open>x * s\<close>.\<close>

definition js_to_number :: "string \<Rightarrow> jsnum" where
  "js_to_number s =
     (let t = js_trim s
      in if t = [] then Fin 0
         else case js_non_decimal t of
           Some v \<Rightarrow> Fin v
         | None \<Rightarrow>
             (let neg = (hd t = CHR ''-'');
                  u = (if hd t = CHR ''+'' \<or> hd t = CHR ''-'' then tl t else t)
              in if u = ''Infinity'' then (if neg then NInf else PInf)
                 else case js_unsigned_decimal u of
                   Some v \<Rightarrow> Fin (if neg then - v else v)
                 | None \<Rightarrow> NaN))"

subsection \<open>Digits\<close>

lemma radix_digit_decimal:
  "k < 10 \<Longrightarrow> radix_digit 10 (''0123456789'' ! k) = Some k"
  by (simp add: numeral_eq_Suc less_Suc_eq radix_digit_def; elim disjE; simp)

lemma radix_value_snoc [simp]:
  "radix_value r (xs @ [c]) = (case radix_digit r c of Some d \<Rightarrow> r * radix_value r xs + d | None \<Rightarrow> radix_value r xs)"
  unfolding radix_value_def by simp

lemma nat_digits_digits: "list_all is_digit (nat_digits n) \<and> radix_value 10 (nat_digits n) = n"
proof (induction n rule: nat_digits.induct)
  case (1 n)
  show ?case
  proof (cases "n < 10")
    case True
    then show ?thesis by (simp add: is_digit_def radix_digit_decimal radix_value_def)
  next
    case False
    then show ?thesis using 1[OF False]
      by (simp add: is_digit_def radix_digit_decimal)
  qed
qed

lemma nat_digits_not_Nil [simp]: "nat_digits n \<noteq> []"
  by (induction n rule: nat_digits.induct) (subst nat_digits.simps, simp)

lemma digit_not_whitespace: "is_digit c \<Longrightarrow> \<not> js_whitespace c"
  by (auto simp: is_digit_def radix_digit_def js_whitespace_def Let_def split: if_splits)

lemma digit_char_facts [simp]:
  "\<not> is_digit CHR ''.''" "\<not> is_digit CHR ''x''" "\<not> is_digit CHR ''X''" "\<not> is_digit CHR ''o''"
  "\<not> is_digit CHR ''O''" "\<not> is_digit CHR ''b''" "\<not> is_digit CHR ''B''" "\<not> is_digit CHR ''-''"
  "\<not> is_digit CHR ''+''" "\<not> is_digit CHR ''I''" "\<not> is_digit CHR ''e''" "\<not> is_digit CHR ''E''"
  by (simp_all add: is_digit_def radix_digit_def)

lemma radix_digit_is_digit: "is_digit c \<longleftrightarrow> radix_digit 10 c \<noteq> None"
  by (simp add: is_digit_def)

lemma dropWhile_whitespace_id:
  "xs = [] \<or> \<not> js_whitespace (hd xs) \<Longrightarrow> dropWhile js_whitespace xs = xs"
  by (cases xs) auto

lemma js_trim_id:
  assumes "xs \<noteq> []" "\<not> js_whitespace (hd xs)" "\<not> js_whitespace (last xs)"
  shows "js_trim xs = xs"
proof -
  have "dropWhile js_whitespace (rev xs) = rev xs"
    using assms by (intro dropWhile_whitespace_id) (simp add: hd_rev)
  then show ?thesis
    using assms by (simp add: js_trim_def dropWhile_whitespace_id)
qed

lemma dot_not_whitespace [simp]: "\<not> js_whitespace CHR ''.''"
  by (simp add: js_whitespace_def)

lemma list_all_digits_second:
  "list_all is_digit xs \<Longrightarrow> tl xs = [] \<or> is_digit (hd (tl xs))"
  by (cases xs; cases "tl xs") auto

lemma takeWhile_digits: "list_all is_digit xs \<Longrightarrow> takeWhile is_digit xs = xs"
  by (simp add: takeWhile_eq_all_conv list_all_iff)

lemma takeWhile_all_id [simp]: "\<forall>x \<in> set xs. P x \<Longrightarrow> takeWhile P xs = xs"
  by (simp add: takeWhile_eq_all_conv)

lemma take2_digit_prefix:
  assumes "xs \<noteq> []" "is_digit (hd xs)" "tl xs = [] \<or> is_digit (hd (tl xs)) \<or> hd (tl xs) = CHR ''.''"
  shows "take 2 xs \<notin> {''0x'', ''0X'', ''0o'', ''0O'', ''0b'', ''0B''}"
  using assms by (cases xs; cases "tl xs") auto

subsection \<open>Reading back printed numbers\<close>

lemma js_parseInt_digits:
  assumes "ds \<noteq> []" "list_all is_digit ds"
  shows "js_parseInt ds = Fin (of_nat (radix_value 10 ds))"
proof -
  have h: "is_digit (hd ds)" using assms by (cases ds) auto
  have d: "dropWhile js_whitespace ds = ds"
    using h by (intro dropWhile_whitespace_id) (simp add: digit_not_whitespace)
  have s: "hd ds \<noteq> CHR ''-''" "hd ds \<noteq> CHR ''+''" using h by auto
  have t: "take 2 ds \<noteq> ''0x''" "take 2 ds \<noteq> ''0X''"
    using take2_digit_prefix[of ds] assms h list_all_digits_second[OF assms(2)] by auto
  show ?thesis using assms d s t by (simp add: js_parseInt_def Let_def list_all_iff is_digit_def)
qed

lemma js_to_number_unsigned:
  assumes "t \<noteq> []" "is_digit (hd t)" "\<not> js_whitespace (last t)"
    and "take 2 t \<notin> {''0x'', ''0X'', ''0o'', ''0O'', ''0b'', ''0B''}"
  shows "js_to_number t = (case js_unsigned_decimal t of Some v \<Rightarrow> Fin v | None \<Rightarrow> NaN)"
proof -
  have tr: "js_trim t = t" using assms digit_not_whitespace by (intro js_trim_id) auto
  have nd: "js_non_decimal t = None" using assms(4) by (auto simp: js_non_decimal_def Let_def)
  have "hd t \<noteq> CHR ''-''" "hd t \<noteq> CHR ''+''" "t \<noteq> ''Infinity''" using assms(2) by auto
  then show ?thesis using assms(1) tr nd by (simp add: js_to_number_def Let_def split: option.split)
qed

lemma js_to_number_digits:
  assumes "ds \<noteq> []" "list_all is_digit ds"
  shows "js_to_number ds = Fin (of_nat (radix_value 10 ds))"
proof -
  have h: "is_digit (hd ds)" "is_digit (last ds)" using assms by (simp_all add: list_all_iff)
  have "js_unsigned_decimal ds = Some (of_nat (radix_value 10 ds))"
    using assms by (simp add: js_unsigned_decimal_def Let_def list_all_iff)
  moreover have "take 2 ds \<notin> {''0x'', ''0X'', ''0o'', ''0O'', ''0b'', ''0B''}"
    using take2_digit_prefix[of ds] assms(1) h(1) list_all_digits_second[OF assms(2)] by blast
  ultimately show ?thesis
    using js_to_number_unsigned[OF assms(1) h(1)] h(2) by (simp add: digit_not_whitespace)
qed

lemma js_to_number_decimal:
  assumes "ip \<noteq> []" "list_all is_digit ip" "list_all is_digit fp"
  shows "js_to_number (ip @ CHR ''.'' # fp) = Fin (of_nat (radix_value 10 (ip @ fp)) / 10 ^ length fp)"
proof -
  let ?t = "ip @ CHR ''.'' # fp"
  obtain d ip' where ip: "ip = d # ip'" using assms(1) by (cases ip) auto
  have h: "is_digit (hd ?t)" using assms(2) ip by simp
  have l: "\<not> js_whitespace (last ?t)"
    using assms(3) by (cases fp rule: rev_cases) (auto simp: list_all_iff digit_not_whitespace)
  have p: "take 2 ?t \<notin> {''0x'', ''0X'', ''0o'', ''0O'', ''0b'', ''0B''}"
    using assms(2) ip by (intro take2_digit_prefix) (cases ip'; simp)+
  have tw: "takeWhile is_digit ?t = ip" "dropWhile is_digit ?t = CHR ''.'' # fp"
    using assms(2) by (simp_all add: takeWhile_append2 dropWhile_append2 list_all_iff)
  have "js_unsigned_decimal ?t = Some (of_nat (radix_value 10 (ip @ fp)) / 10 ^ length fp)"
    using assms tw by (simp add: js_unsigned_decimal_def Let_def list_all_iff)
  then show ?thesis using js_to_number_unsigned[OF _ h l p] by simp
qed

lemma js_split_Cons:
  "js_split sep (c # s) = (if c = sep then [] # js_split sep s else (c # hd (js_split sep s)) # tl (js_split sep s))"
  by (simp add: js_split_def)

lemma js_split_Nil: "js_split sep [] = [[]]"
  by (simp add: js_split_def)

lemma hd_js_split: "hd (js_split sep cs) = takeWhile (\<lambda>x. x \<noteq> sep) cs"
  by (induction cs) (simp_all add: js_split_Cons js_split_Nil)

lemma js_split_not_Nil [simp]: "js_split sep s \<noteq> []"
  by (cases s) (simp_all add: js_split_def)

lemma tl_js_split_Nil: "tl (js_split sep cs) = [] \<longleftrightarrow> sep \<notin> set cs"
proof (induction cs)
  case (Cons c cs)
  then show ?case by (cases "js_split sep cs") (auto simp: js_split_Cons)
qed (simp add: js_split_Nil)

lemma js_split_append:
  "sep \<notin> set x \<Longrightarrow> js_split sep (x @ ys) = (x @ hd (js_split sep ys)) # tl (js_split sep ys)"
  by (induction x) (auto simp: js_split_Cons)

lemma js_split_join:
  "xs \<noteq> [] \<Longrightarrow> \<forall>x \<in> set xs. sep \<notin> set x \<Longrightarrow> js_split sep (js_join sep xs) = xs"
proof (induction sep xs rule: js_join.induct)
  case (2 sep x)
  then show ?case using js_split_append[of sep x "[]"] by (simp add: js_split_def)
next
  case (3 sep x y zs)
  then show ?case using js_split_append[of sep x "sep # js_join sep (y # zs)"] by (simp add: js_split_Cons)
qed simp

end
