(* ===== verification/Compare.thy ===== *)
theory Compare
  imports JsString "HOL-Library.Sublist"
begin

text \<open>
  The two comparison functions of \<open>src/src/App.js\<close>. \<open>compareVersionsJavaScript\<close>
  (lines 225 to 256) runs \<open>jsinspect -r json\<close> and sums, over every instance of every
  match of the parsed report, \<open>instance.lines[1] - instance.lines[0] + 1\<close>.
  \<open>compareVersionsPHP\<close> (lines 258 to 287) runs \<open>phpcpd\<close> and applies the regular
  expression \<open>/(.*?)% duplicated lines.*?(\d+)/\<close> to its text output; the count is
  \<open>Math.round(match[2] / 100 * match[1])\<close>, or 0 when nothing matches. The external
  tools, the temporary file and \<open>JSON.parse\<close> are not modelled: the JSON report is
  given as the list of matches it parses to, the text output as a string.
  \<open>compare_fn\<close> is the choice of line 329 between the two.
\<close>

record js_instance =
  lines :: "jsnum list"

record js_match =
  instances :: "js_instance list"

text \<open>\<open>xs[i]\<close> of a JSON array of numbers: \<open>undefined\<close>, read as \<open>NaN\<close>, past its end.\<close>

definition js_index :: "jsnum list \<Rightarrow> nat \<Rightarrow> jsnum" where
  "js_index xs i = (if i < length xs then xs ! i else NaN)"

definition instance_lines :: "js_instance \<Rightarrow> jsnum" where
  "instance_lines instance =
     js_add (js_sub (js_index (lines instance) 1) (js_index (lines instance) 0)) (Fin 1)"

definition jsinspect_count :: "js_match list \<Rightarrow> jsnum" where
  "jsinspect_count parsed =
     fold (\<lambda>match count. fold (\<lambda>instance count. js_add count (instance_lines instance)) (instances match) count)
       parsed (Fin 0)"

subsection \<open>The regular expression of \<open>compareVersionsPHP\<close>\<close>

text \<open>The characters \<open>.\<close> does not match (LF and CR; the two Unicode separators are not
  single 8-bit characters).\<close>

definition line_terminator :: "char \<Rightarrow> bool" where
  "line_terminator c \<longleftrightarrow> of_char c \<in> {10, 13 :: nat}"

definition dup_marker :: string where
  "dup_marker = ''% duplicated lines''"

text \<open>\<open>.*?(\d+)\<close>: skip the fewest characters of the line before a digit, then take
  all digits (nothing follows the group, so the greedy run is the match).\<close>

fun lazy_digits :: "string \<Rightarrow> string option" where
  "lazy_digits [] = None"
| "lazy_digits (c # cs) =
     (if is_digit c then Some (takeWhile is_digit (c # cs))
      else if line_terminator c then None else lazy_digits cs)"

text \<open>\<open>(.*?)% duplicated lines.*?(\d+)\<close> from a fixed start: group 1 grows one
  character at a time (never across a line terminator) until the rest of the pattern
  matches.\<close>

fun lazy_group :: "string \<Rightarrow> string \<Rightarrow> (string \<times> string) option" where
  "lazy_group g [] = None"
| "lazy_group g (c # cs) =
     (case (if take (length dup_marker) (c # cs) = dup_marker
            then lazy_digits (drop (length dup_marker) (c # cs)) else None) of
        Some d \<Rightarrow> Some (g, d)
      | None \<Rightarrow> if line_terminator c then None else lazy_group (g @ [c]) cs)"

text \<open>\<open>content.match(re)\<close> without the \<open>g\<close> flag: the leftmost start at which the
  pattern matches; the two groups.\<close>

fun php_regex :: "string \<Rightarrow> (string \<times> string) option" where
  "php_regex [] = None"
| "php_regex (c # cs) = (case lazy_group [] (c # cs) of Some r \<Rightarrow> Some r | None \<Rightarrow> php_regex cs)"

text \<open>The callback of lines 272 to 286; \<open>match.length >= 3\<close> holds of every match.\<close>

definition php_count :: "string \<Rightarrow> jsnum" where
  "php_count content =
     (case php_regex content of
        Some (g1, g2) \<Rightarrow> js_round (js_mul (js_div (js_to_number g2) (Fin 100)) (js_to_number g1))
      | None \<Rightarrow> Fin 0)"

text \<open>\<open>fn\<close> of line 329: the PHP tool when \<open>options.language === 'php'\<close>, else jsinspect.
  The tools are parameters from the two directories to their parsed output.\<close>

definition compare_fn ::
  "string \<Rightarrow> ('p \<Rightarrow> 'p \<Rightarrow> js_match list) \<Rightarrow> ('p \<Rightarrow> 'p \<Rightarrow> string) \<Rightarrow> 'p \<Rightarrow> 'p \<Rightarrow> jsnum" where
  "compare_fn language jsinspect phpcpd left right =
     (if language = ''php'' then php_count (phpcpd left right) else jsinspect_count (jsinspect left right))"

subsection \<open>Statement vocabulary\<close>

text \<open>The lines an instance \<open>{lines: [a, b]}\<close> covers, \<open>b - a + 1\<close>.\<close>

definition line_span :: "js_instance \<Rightarrow> real" where
  "line_span instance = (case lines instance of Fin a # Fin b # _ \<Rightarrow> b - a + 1 | _ \<Rightarrow> 0)"

subsection \<open>The jsinspect count\<close>

lemma jsinspect_count_concat:
  "jsinspect_count parsed =
     fold (\<lambda>instance count. js_add count (instance_lines instance)) (concat (map instances parsed)) (Fin 0)"
proof -
  have "fold (\<lambda>match count. fold (\<lambda>instance count. js_add count (instance_lines instance)) (instances match) count) ms c
          = fold (\<lambda>instance count. js_add count (instance_lines instance)) (concat (map instances ms)) c" for ms c
    by (induction ms arbitrary: c) simp_all
  then show ?thesis by (simp add: jsinspect_count_def)
qed

lemma fold_js_add_Fin:
  assumes "\<forall>x \<in> set xs. f x = Fin (g x)"
  shows "fold (\<lambda>x c. js_add c (f x)) xs (Fin a) = Fin (a + sum_list (map g xs))"
  using assms by (induction xs arbitrary: a) (simp_all add: add.assoc)

lemma fold_js_add_NaN: "fold (\<lambda>x c. js_add c (f x)) xs NaN = NaN"
  by (induction xs) simp_all

lemma fold_js_add_absorb:
  assumes "\<exists>x \<in> set xs. f x = NaN"
  shows "fold (\<lambda>x c. js_add c (f x)) xs c = NaN"
  using assms by (induction xs arbitrary: c) (auto simp: fold_js_add_NaN)

lemma instance_lines_span:
  "lines i = Fin a # Fin b # rest \<Longrightarrow> instance_lines i = Fin (line_span i)"
  by (simp add: instance_lines_def line_span_def js_index_def)

lemma instance_lines_short: "length (lines i) < 2 \<Longrightarrow> instance_lines i = NaN"
  by (cases "lines i"; cases "tl (lines i)") (auto simp: instance_lines_def js_index_def js_sub_def)

subsection \<open>The regular expression\<close>

lemma digit_not_special: "is_digit c \<Longrightarrow> c \<noteq> CHR ''%'' \<and> \<not> line_terminator c"
  by (auto simp: is_digit_def radix_digit_def line_terminator_def Let_def split: if_splits)

lemma dot_not_special [simp]: "\<not> line_terminator CHR ''.''"
  by (simp add: line_terminator_def)

lemma lazy_digits_skip:
  assumes "\<forall>c \<in> set mid. \<not> is_digit c \<and> \<not> line_terminator c"
    and "ds \<noteq> []" "list_all is_digit ds" "rest = [] \<or> \<not> is_digit (hd rest)"
  shows "lazy_digits (mid @ ds @ rest) = Some ds"
  using assms(1)
proof (induction mid)
  case Nil
  obtain d ds' where ds: "ds = d # ds'" using assms(2) by (cases ds) auto
  have "takeWhile is_digit (ds @ rest) = ds"
    using assms(3,4) by (cases rest) (simp_all add: takeWhile_append2 list_all_iff)
  then show ?case using assms(3) ds by simp
qed simp

lemma lazy_group_marker:
  assumes "\<forall>c \<in> set pre. c \<noteq> CHR ''%'' \<and> \<not> line_terminator c" "lazy_digits rest = Some d"
  shows "lazy_group g (pre @ dup_marker @ rest) = Some (g @ pre, d)"
  using assms(1)
proof (induction pre arbitrary: g)
  case Nil
  then show ?case using assms(2) by (simp add: dup_marker_def)
next
  case (Cons c pre)
  then have "take (length dup_marker) (c # pre @ dup_marker @ rest) \<noteq> dup_marker"
    by (simp add: dup_marker_def)
  then show ?case using Cons by simp
qed

lemma php_regex_marker:
  assumes "\<forall>c \<in> set pre. c \<noteq> CHR ''%'' \<and> \<not> line_terminator c" "lazy_digits rest = Some d"
  shows "php_regex (pre @ dup_marker @ rest) = Some (pre, d)"
proof -
  obtain c cs where "pre @ dup_marker @ rest = c # cs" by (cases "pre @ dup_marker @ rest") (simp_all add: dup_marker_def)
  moreover have "lazy_group [] (c # cs) = Some (pre, d)"
    using lazy_group_marker[OF assms] calculation by simp
  ultimately show ?thesis by simp
qed

lemma take_eq_sublist: "take n s = xs \<Longrightarrow> sublist xs s"
  by (metis append_take_drop_id sublist_append_rightI)

lemma lazy_group_sublist: "lazy_group g s = Some r \<Longrightarrow> sublist dup_marker s"
proof (induction g s rule: lazy_group.induct)
  case (2 g c cs)
  show ?case
  proof (cases "take (length dup_marker) (c # cs) = dup_marker")
    case True
    then show ?thesis by (rule take_eq_sublist)
  next
    case False
    then have "\<not> line_terminator c" "lazy_group (g @ [c]) cs = Some r"
      using 2(2) by (simp_all split: if_splits)
    then show ?thesis using 2(1) False by (simp add: sublist_Cons_right)
  qed
qed simp

lemma php_regex_sublist: "php_regex s = Some r \<Longrightarrow> sublist dup_marker s"
proof (induction s rule: php_regex.induct)
  case (2 c cs)
  show ?case
  proof (cases "lazy_group [] (c # cs)")
    case None
    then show ?thesis using 2 by (simp add: sublist_Cons_right)
  next
    case (Some r')
    then show ?thesis by (rule lazy_group_sublist)
  qed
qed simp

subsection \<open>Properties of the comparison functions\<close>

text \<open>
  C18. When every instance of the report carries a pair of finite line numbers, the count
  of \<open>compareVersionsJavaScript\<close> is the sum of \<open>b - a + 1\<close> over all instances of
  all matches. On the example of the specification,
  \<open>[{"instances":[{"lines":[5,10]},{"lines":[20,20]}]}]\<close>, that is 7.
\<close>

theorem jsinspect_count_sum:
  assumes "\<forall>i \<in> set (concat (map instances parsed)). \<exists>a b rest. lines i = Fin a # Fin b # rest"
  shows "jsinspect_count parsed = Fin (sum_list (map line_span (concat (map instances parsed))))"
proof -
  have "\<forall>i \<in> set (concat (map instances parsed)). instance_lines i = Fin (line_span i)"
    using assms instance_lines_span by blast
  then show ?thesis unfolding jsinspect_count_concat by (subst fold_js_add_Fin) simp_all
qed

theorem jsinspect_count_sum_witness:
  "jsinspect_count [\<lparr>instances = [\<lparr>lines = [Fin 5, Fin 10]\<rparr>, \<lparr>lines = [Fin 20, Fin 20]\<rparr>]\<rparr>] = Fin 7"
  using jsinspect_count_sum[of "[\<lparr>instances = [\<lparr>lines = [Fin 5, Fin 10]\<rparr>, \<lparr>lines = [Fin 20, Fin 20]\<rparr>]\<rparr>]"]
  by (simp add: line_span_def)

text \<open>
  C19. An instance without two line numbers makes the whole count \<open>NaN\<close>: the
  \<open>undefined\<close> of \<open>lines[1]\<close> propagates through every later \<open>+=\<close>, so one
  malformed instance loses the count of the pair.
\<close>

theorem jsinspect_count_malformed:
  assumes "\<exists>i \<in> set (concat (map instances parsed)). length (lines i) < 2"
  shows "jsinspect_count parsed = NaN"
  unfolding jsinspect_count_concat using assms instance_lines_short
  by (intro fold_js_add_absorb) blast

theorem jsinspect_count_malformed_witness:
  "jsinspect_count [\<lparr>instances = [\<lparr>lines = [Fin 5, Fin 10]\<rparr>, \<lparr>lines = [Fin 3]\<rparr>]\<rparr>] = NaN"
  using jsinspect_count_malformed[of "[\<lparr>instances = [\<lparr>lines = [Fin 5, Fin 10]\<rparr>, \<lparr>lines = [Fin 3]\<rparr>]\<rparr>]"]
  by simp

text \<open>
  The fallback: an output without \<open>% duplicated lines\<close> gives the count 0.
\<close>

theorem php_count_no_match:
  assumes "\<not> sublist dup_marker content"
  shows "php_count content = Fin 0"
  using assms php_regex_sublist by (cases "php_regex content") (auto simp: php_count_def)

theorem php_count_no_match_witness:
  "php_count ''No clones found.'' = Fin 0"
  using php_count_no_match[of "''No clones found.''"] by code_simp

text \<open>
  In exact arithmetic, a summary line of \<open>phpcpd\<close>, \<open>p% duplicated lines out of n ...\<close> with a
  decimal percentage \<open>p\<close> and a total \<open>n\<close>, is read as
  \<open>round(n * p / 100)\<close>, whatever text (without digits or line breaks) lies between; the
  example of the specification, \<open>42.5% duplicated lines out of 100 ...\<close>, gives 43.
  JavaScript computes the product in doubles, which at a tie can fall just below it:
  \<open>50.00%\<close> of 29 lines is read as 14 there, 15 here.
\<close>

theorem php_summary_line:
  assumes "ip \<noteq> []" "list_all is_digit ip" "list_all is_digit fp"
    and "ds \<noteq> []" "list_all is_digit ds" "rest = [] \<or> \<not> is_digit (hd rest)"
    and "\<forall>c \<in> set mid. \<not> is_digit c \<and> \<not> line_terminator c"
  shows "php_count (ip @ CHR ''.'' # fp @ dup_marker @ mid @ ds @ rest)
           = Fin (of_int \<lfloor>real (radix_value 10 ds) / 100 * (real (radix_value 10 (ip @ fp)) / 10 ^ length fp) + 1 / 2\<rfloor>)"
proof -
  have pre: "\<forall>c \<in> set (ip @ CHR ''.'' # fp). c \<noteq> CHR ''%'' \<and> \<not> line_terminator c"
    using assms(2,3) digit_not_special by (auto simp: list_all_iff)
  have "php_regex ((ip @ CHR ''.'' # fp) @ dup_marker @ mid @ ds @ rest) = Some (ip @ CHR ''.'' # fp, ds)"
    using php_regex_marker[OF pre lazy_digits_skip[OF assms(7,4,5,6)]] .
  then show ?thesis
    using js_to_number_digits[OF assms(4,5)] js_to_number_decimal[OF assms(1-3)]
    by (simp add: php_count_def)
qed

theorem php_summary_line_witness:
  "php_count ''42.5% duplicated lines out of 100 total lines of code.'' = Fin 43"
proof -
  have "php_count (''42'' @ CHR ''.'' # ''5'' @ dup_marker @ '' out of '' @ ''100'' @ '' total lines of code.'')
          = Fin (of_int \<lfloor>real (radix_value 10 ''100'') / 100 * (real (radix_value 10 (''42'' @ ''5'')) / 10 ^ length ''5'') + 1 / 2\<rfloor>)"
    by (rule php_summary_line) (simp_all add: is_digit_def radix_digit_def line_terminator_def)
  then show ?thesis by (simp add: dup_marker_def radix_value_def radix_digit_def)
qed

end
