(* ===== verification/Cloc.thy ===== *)
theory Cloc
  imports JsString
begin

text \<open>
  \<open>parseClocCsv\<close> of \<open>src/src/App.js\<close> (lines 177 to 202): the rows of the
  \<open>cloc --by-file --csv\<close> report, as \<open>csv-parse\<close> returns them with
  \<open>columns: true\<close>, are folded into the map from a version to its lines of code. The
  version is the first group of \<open>/\/([^\/]+)\//\<close> (backslashes on Windows) on the file
  name; the lines of a row are \<open>parseInt(code) + parseInt(comment) + parseInt(blank)\<close>,
  added to \<open>map[key] || 0\<close> (the map is \<open>cmap\<close> here). The CSV parser is not modelled: a row is the record of
  the four columns the code reads, each absent when the row is short
  (\<open>relax_column_count\<close>). Reading \<open>row.filename.match\<close> of an absent file name
  throws a \<open>TypeError\<close>, which is the \<open>Inl\<close> of the result.
\<close>

record cloc_row =
  filename :: "string option"
  code :: "string option"
  comment :: "string option"
  blank :: "string option"

text \<open>\<open>/^win/.test(process.platform)\<close> selects the separator.\<close>

definition path_sep :: "string \<Rightarrow> char" where
  "path_sep platform = (if take 3 platform = ''win'' then CHR 0x5C else CHR ''/'')"

text \<open>
  \<open>filename.match(/\/([^\/]+)\//)\<close>: at the leftmost separator followed by a non-empty
  run of other characters and another separator, the run (the greedy class stops only
  at a separator, and backtracking from the end of the string cannot find one).
\<close>

fun version_segment :: "char \<Rightarrow> string \<Rightarrow> string option" where
  "version_segment sep [] = None"
| "version_segment sep (c # cs) =
     (let seg = takeWhile (\<lambda>x. x \<noteq> sep) cs
      in if c = sep \<and> seg \<noteq> [] \<and> drop (length seg) cs \<noteq> [] then Some seg
         else version_segment sep cs)"

text \<open>\<open>parseInt(row.code)\<close> of a present or absent (\<open>undefined\<close>) column.\<close>

definition parse_field :: "string option \<Rightarrow> jsnum" where
  "parse_field f = js_parseInt (case f of None \<Rightarrow> ''undefined'' | Some s \<Rightarrow> s)"

definition cloc_step ::
  "string \<Rightarrow> cloc_row \<Rightarrow> js_error + (string \<rightharpoonup> jsnum) \<Rightarrow> js_error + (string \<rightharpoonup> jsnum)" where
  "cloc_step platform row acc =
     (case acc of
        Inl e \<Rightarrow> Inl e
      | Inr cmap \<Rightarrow>
          (case filename row of
             None \<Rightarrow> Inl TypeError
           | Some f \<Rightarrow>
               (case version_segment (path_sep platform) f of
                  None \<Rightarrow> Inr cmap
                | Some key \<Rightarrow>
                    Inr (cmap(key \<mapsto> js_add (js_add (js_add (js_or (js_val (cmap key)) (Fin 0))
                                                      (parse_field (code row)))
                                              (parse_field (comment row)))
                                      (parse_field (blank row)))))))"

definition parseClocCsv :: "string \<Rightarrow> cloc_row list \<Rightarrow> js_error + (string \<rightharpoonup> jsnum)" where
  "parseClocCsv platform parsed = fold (cloc_step platform) parsed (Inr Map.empty)"

subsection \<open>Statement vocabulary\<close>

text \<open>A column that \<open>parseInt\<close> reads completely, and its value.\<close>

definition digit_field :: "string option \<Rightarrow> bool" where
  "digit_field f = (case f of Some s \<Rightarrow> s \<noteq> [] \<and> list_all is_digit s | None \<Rightarrow> False)"

definition field_value :: "string option \<Rightarrow> real" where
  "field_value f = (case f of Some s \<Rightarrow> real (radix_value 10 s) | None \<Rightarrow> 0)"

definition row_lines :: "cloc_row \<Rightarrow> real" where
  "row_lines row = field_value (code row) + field_value (comment row) + field_value (blank row)"

definition row_key :: "string \<Rightarrow> cloc_row \<Rightarrow> string option" where
  "row_key platform row = (case filename row of Some f \<Rightarrow> version_segment (path_sep platform) f | None \<Rightarrow> None)"

definition wellformed_row :: "cloc_row \<Rightarrow> bool" where
  "wellformed_row row \<longleftrightarrow>
     filename row \<noteq> None \<and> digit_field (code row) \<and> digit_field (comment row) \<and> digit_field (blank row)"

subsection \<open>Lemmas\<close>

lemma parse_field_digits: "digit_field f \<Longrightarrow> parse_field f = Fin (field_value f)"
  by (cases f) (simp_all add: digit_field_def parse_field_def field_value_def js_parseInt_digits)

lemma js_or_zero_Fin [simp]: "js_or (Fin s) (Fin 0) = Fin s"
  by simp

lemma cloc_step_named: "filename row \<noteq> None \<Longrightarrow> \<exists>m'. cloc_step platform row (Inr m) = Inr m'"
  by (auto simp: cloc_step_def split: option.split)

lemma parseClocCsv_snoc:
  "parseClocCsv platform (rows @ [row]) = cloc_step platform row (parseClocCsv platform rows)"
  by (simp add: parseClocCsv_def)

lemma cloc_step_wellformed:
  assumes "wellformed_row row"
  shows "cloc_step platform row (Inr cmap) =
           Inr (case row_key platform row of
                  None \<Rightarrow> cmap
                | Some key \<Rightarrow> cmap(key \<mapsto> js_add (js_or (js_val (cmap key)) (Fin 0)) (Fin (row_lines row))))"
  using assms
  by (auto simp: cloc_step_def wellformed_row_def row_key_def row_lines_def parse_field_digits add.assoc
           split: option.split)

lemma fold_cloc_step_Inl: "fold (cloc_step platform) rows (Inl e) = Inl e"
  by (induction rows) (simp_all add: cloc_step_def)

lemma fold_cloc_step_TypeError:
  assumes "\<exists>r \<in> set rows. filename r = None" "acc = Inl TypeError \<or> (\<exists>m. acc = Inr m)"
  shows "fold (cloc_step platform) rows acc = Inl TypeError"
  using assms
proof (induction rows arbitrary: acc)
  case (Cons r rows)
  show ?case
  proof (cases "filename r = None")
    case True
    then have "cloc_step platform r acc = Inl TypeError"
      using Cons.prems(2) by (auto simp: cloc_step_def)
    then show ?thesis by (simp add: fold_cloc_step_Inl)
  next
    case False
    then have "cloc_step platform r acc = Inl TypeError \<or> (\<exists>m. cloc_step platform r acc = Inr m)"
      using Cons.prems(2) cloc_step_named[of r platform] by (auto simp: cloc_step_def)
    then show ?thesis using Cons False by simp
  qed
qed simp

lemma version_segment_skip:
  "sep \<notin> set d \<Longrightarrow> version_segment sep (d @ rest) = version_segment sep rest"
  by (induction d) (auto simp: Let_def)

subsection \<open>Properties of \<open>parseClocCsv\<close>\<close>

text \<open>
  C22. On a report whose rows all have a file name and three numeric columns, the map
  of \<open>parseClocCsv\<close> gives each version that occurs as a key the total of
  \<open>code + comment + blank\<close> over its rows, and nothing to any other string.
\<close>

theorem parseClocCsv_line_counts:
  assumes "\<forall>r \<in> set rows. wellformed_row r"
  shows "parseClocCsv platform rows =
           Inr (\<lambda>k. if \<exists>r \<in> set rows. row_key platform r = Some k
                    then Some (Fin (sum_list (map row_lines (filter (\<lambda>r. row_key platform r = Some k) rows))))
                    else None)"
  using assms
proof (induction rows rule: rev_induct)
  case Nil
  then show ?case by (simp add: parseClocCsv_def)
next
  case (snoc r rows)
  then have wf: "wellformed_row r" and IH: "parseClocCsv platform rows =
           Inr (\<lambda>k. if \<exists>r \<in> set rows. row_key platform r = Some k
                    then Some (Fin (sum_list (map row_lines (filter (\<lambda>r. row_key platform r = Some k) rows))))
                    else None)"
    by simp_all
  show ?case
    unfolding parseClocCsv_snoc IH cloc_step_wellformed[OF wf]
    by (cases "row_key platform r") (auto simp: fun_eq_iff add.commute)
qed

theorem parseClocCsv_line_counts_witness:
  "parseClocCsv ''linux''
     [\<lparr>filename = Some ''input/1.0/a.js'', code = Some ''10'', comment = Some ''2'', blank = Some ''1''\<rparr>,
      \<lparr>filename = Some ''input/1.0/b.js'', code = Some ''5'', comment = Some ''0'', blank = Some ''0''\<rparr>]
   = Inr [''1.0'' \<mapsto> Fin 18]"
  using parseClocCsv_line_counts[of "[\<lparr>filename = Some ''input/1.0/a.js'', code = Some ''10'', comment = Some ''2'', blank = Some ''1''\<rparr>,
      \<lparr>filename = Some ''input/1.0/b.js'', code = Some ''5'', comment = Some ''0'', blank = Some ''0''\<rparr>]" "''linux''"]
  by (simp add: wellformed_row_def digit_field_def is_digit_def radix_digit_def row_key_def path_sep_def
      row_lines_def field_value_def radix_value_def fun_eq_iff)

text \<open>
  C23. The key of a row: for a file name \<open>d/v/rest\<close> whose first component \<open>d\<close>
  has no separator (the default \<open>--input-dir input\<close>), the key is the version
  directory \<open>v\<close>; the separator is \<open>\\\<close> on Windows and \<open>/\<close> elsewhere.
\<close>

theorem version_segment_layout:
  assumes "sep \<notin> set d" "v \<noteq> []" "sep \<notin> set v"
  shows "version_segment sep (d @ sep # v @ sep # rest) = Some v"
proof -
  have "takeWhile (\<lambda>x. x \<noteq> sep) (v @ sep # rest) = v" "drop (length v) (v @ sep # rest) = sep # rest"
    using assms(3) by (induction v) auto
  then show ?thesis using assms version_segment_skip[OF assms(1)] by (simp add: Let_def)
qed

theorem version_segment_layout_witness:
  "version_segment (path_sep ''linux'') ''input/1.0/src/core.js'' = Some ''1.0''"
  using version_segment_layout[of "CHR ''/''" "''input''" "''1.0''" "''src/core.js''"]
  by (simp add: path_sep_def)

text \<open>
  C28. Equivalence with a reference reading: the key the regular expression extracts is
  the first non-empty piece strictly between two separators of
  \<open>filename.split(sep)\<close>; for \<open>./input/1.0/a.js\<close> that is \<open>input\<close>, not the
  version.
\<close>

theorem version_segment_split:
  "version_segment sep s = find (\<lambda>p. p \<noteq> []) (butlast (tl (js_split sep s)))"
proof (induction sep s rule: version_segment.induct)
  case (2 sep c cs)
  let ?S = "js_split sep cs"
  have seg: "takeWhile (\<lambda>x. x \<noteq> sep) cs = hd ?S" by (simp add: hd_js_split)
  have rest: "drop (length (hd ?S)) cs \<noteq> [] \<longleftrightarrow> tl ?S \<noteq> []"
    by (simp add: hd_js_split tl_js_split_Nil dropWhile_eq_drop[symmetric])
  show ?case
  proof (cases "c = sep")
    case True
    then show ?thesis using 2 seg rest
      by (cases "tl ?S = []") (auto simp: Let_def js_split_Cons butlast_Cons_tl butlast_tl_Nil)
  next
    case False
    then show ?thesis using 2 by (simp add: Let_def js_split_Cons)
  qed
qed (simp add: js_split_Nil)

text \<open>
  C24. A row with a column \<open>parseInt\<close> cannot read (a short row of \<open>csv-parse\<close>,
  whose absent column is \<open>undefined\<close>) makes its version's entry \<open>NaN\<close>, and the next
  row of that version restarts the sum from 0 through \<open>map[key] || 0\<close>: after any
  rows \<open>pre\<close>, the entry of the version is the total of that last row alone, every
  earlier row of the version is lost, and the other entries are those after \<open>pre\<close>.
\<close>

theorem parseClocCsv_nan_reset:
  assumes "parseClocCsv platform pre = Inr cmap"
    and "row_key platform bad = Some key" "code bad = None \<or> comment bad = None \<or> blank bad = None"
    and "wellformed_row good" "row_key platform good = Some key"
  shows "parseClocCsv platform (pre @ [bad, good]) = Inr (cmap(key \<mapsto> Fin (row_lines good)))"
proof -
  have nan: "parse_field None = NaN"
    by (simp add: parse_field_def js_parseInt_def Let_def js_whitespace_def radix_digit_def)
  obtain f where f: "filename bad = Some f" "version_segment (path_sep platform) f = Some key"
    using assms(2) by (auto simp: row_key_def split: option.splits)
  have "cloc_step platform bad (Inr cmap) = Inr (cmap(key \<mapsto> NaN))"
    using f assms(3) by (auto simp: cloc_step_def nan)
  moreover have "cloc_step platform good (Inr (cmap(key \<mapsto> NaN))) = Inr (cmap(key \<mapsto> Fin (row_lines good)))"
    using cloc_step_wellformed[OF assms(4)] assms(5) by simp
  ultimately show ?thesis
    using assms(1) parseClocCsv_snoc[of platform "pre @ [bad]" good] parseClocCsv_snoc[of platform pre bad] by simp
qed

theorem parseClocCsv_nan_reset_witness:
  "parseClocCsv ''linux''
     [\<lparr>filename = Some ''input/1.0/a.js'', code = Some ''10'', comment = Some ''2'', blank = Some ''1''\<rparr>,
      \<lparr>filename = Some ''input/1.0/b.js'', code = None, comment = None, blank = None\<rparr>,
      \<lparr>filename = Some ''input/1.0/c.js'', code = Some ''5'', comment = Some ''0'', blank = Some ''0''\<rparr>]
   = Inr [''1.0'' \<mapsto> Fin 5]"
proof -
  have "parseClocCsv ''linux'' [\<lparr>filename = Some ''input/1.0/a.js'', code = Some ''10'', comment = Some ''2'', blank = Some ''1''\<rparr>]
      = Inr [''1.0'' \<mapsto> Fin 13]"
    by (simp add: parseClocCsv_def cloc_step_def path_sep_def parse_field_def js_parseInt_def Let_def
        js_whitespace_def radix_digit_def radix_value_def)
  moreover have "row_key ''linux'' \<lparr>filename = Some ''input/1.0/b.js'', code = None, comment = None, blank = None\<rparr> = Some ''1.0''"
    by code_simp
  moreover have "wellformed_row \<lparr>filename = Some ''input/1.0/c.js'', code = Some ''5'', comment = Some ''0'', blank = Some ''0''\<rparr>"
    by code_simp
  moreover have "row_key ''linux'' \<lparr>filename = Some ''input/1.0/c.js'', code = Some ''5'', comment = Some ''0'', blank = Some ''0''\<rparr> = Some ''1.0''"
    by code_simp
  moreover have "row_lines \<lparr>filename = Some ''input/1.0/c.js'', code = Some ''5'', comment = Some ''0'', blank = Some ''0''\<rparr> = 5"
    by (simp add: row_lines_def field_value_def radix_value_def radix_digit_def)
  ultimately show ?thesis
    using parseClocCsv_nan_reset[of "''linux''" "[\<lparr>filename = Some ''input/1.0/a.js'', code = Some ''10'', comment = Some ''2'', blank = Some ''1''\<rparr>]"
      "[''1.0'' \<mapsto> Fin 13]" "\<lparr>filename = Some ''input/1.0/b.js'', code = None, comment = None, blank = None\<rparr>" "''1.0''"
      "\<lparr>filename = Some ''input/1.0/c.js'', code = Some ''5'', comment = Some ''0'', blank = Some ''0''\<rparr>"]
    by simp
qed

text \<open>
  C25. A row without a file name makes \<open>parseClocCsv\<close> throw a \<open>TypeError\<close>
  (\<open>undefined.match\<close>), whatever the other rows are.
\<close>

theorem parseClocCsv_missing_filename:
  assumes "\<exists>r \<in> set rows. filename r = None"
  shows "parseClocCsv platform rows = Inl TypeError"
  unfolding parseClocCsv_def using assms by (rule fold_cloc_step_TypeError) simp

theorem parseClocCsv_missing_filename_witness:
  "parseClocCsv ''linux''
     [\<lparr>filename = Some ''input/1.0/a.js'', code = Some ''10'', comment = Some ''2'', blank = Some ''1''\<rparr>,
      \<lparr>filename = None, code = Some ''1'', comment = Some ''1'', blank = Some ''1''\<rparr>] = Inl TypeError"
  using parseClocCsv_missing_filename[of "[\<lparr>filename = Some ''input/1.0/a.js'', code = Some ''10'', comment = Some ''2'', blank = Some ''1''\<rparr>,
      \<lparr>filename = None, code = Some ''1'', comment = Some ''1'', blank = Some ''1''\<rparr>]" "''linux''"]
  by simp

end
