(* ===== verification/Versions.thy ===== *)
theory Versions
  imports JsString "HOL-Library.Sorting_Algorithms" "HOL-Library.List_Lexorder" "HOL-Library.Product_Lexorder"
begin

text \<open>
  The version lists: \<open>App.getVersions\<close> (\<open>src/src/App.js\<close>, lines 104 to 114) reads
  the input directory, drops a leading \<open>.gitkeep\<close> and sorts with
  \<open>Intl.Collator(undefined, {numeric: true, sensitivity: 'base'}).compare\<close>;
  \<open>Importer.parseTags\<close> (\<open>src/src/Importer.js\<close>, lines 35 to 49) reads the tags from
  a newline-separated file or a comma-separated option, or throws; \<open>Importer.import\<close>
  (lines 51 to 61) builds one \<open>git clone\<close> argument vector per tag.
  \<open>Array.prototype.sort\<close> is stable, so with a comparator that is a total preorder its
  result is the one stable sorted permutation, which the library's insertion sort
  \<open>Sorting_Algorithms.sort\<close> computes; the collator is a parameter of type
  \<open>string comparator\<close>. The directory listing and the file contents are parameters.
\<close>

definition getVersions :: "string comparator \<Rightarrow> string list \<Rightarrow> string list" where
  "getVersions collator versions =
     Sorting_Algorithms.sort collator
       (if versions \<noteq> [] \<and> hd versions = ''.gitkeep'' then tl versions else versions)"

record importer_options =
  tags :: "string option"
  tagsFromFile :: "string option"

text \<open>The truthiness of an option value: present and not the empty string.\<close>

definition js_truthy_str :: "string option \<Rightarrow> bool" where
  "js_truthy_str v = (case v of Some s \<Rightarrow> s \<noteq> [] | None \<Rightarrow> False)"

definition missing_tags_error :: js_error where
  "missing_tags_error = Error ''You need to define the --tags or the --tags-from-file option.''"

definition parseTags :: "string comparator \<Rightarrow> importer_options \<Rightarrow> string \<Rightarrow> js_error + string list" where
  "parseTags collator options data =
     (if js_truthy_str (tagsFromFile options)
      then Inr (Sorting_Algorithms.sort collator (filter (\<lambda>i. i \<noteq> []) (map js_trim (js_split (CHR 0x0A) data))))
      else if js_truthy_str (tags options)
      then Inr (Sorting_Algorithms.sort collator
                  (filter (\<lambda>i. i \<noteq> []) (js_split (CHR '','') (case tags options of Some t \<Rightarrow> t | None \<Rightarrow> []))))
      else Inl missing_tags_error)"

text \<open>\<open>`clone --depth 1 --branch ${tag} --single-branch ${url} ${tag}`.split(' ')\<close>.\<close>

definition clone_args :: "string \<Rightarrow> string \<Rightarrow> string list" where
  "clone_args url tag =
     js_split (CHR '' '') (''clone --depth 1 --branch '' @ tag @ '' --single-branch '' @ url @ '' '' @ tag)"

definition import_commands :: "string \<Rightarrow> string list \<Rightarrow> string list list" where
  "import_commands url tag_list = map (clone_args url) tag_list"

subsection \<open>A numeric-aware collator\<close>

text \<open>
  An approximation of the ICU collation with \<open>numeric: true, sensitivity: 'base'\<close> on
  ASCII version strings: a run of digits is one element ordered by its value, letters
  compare without case after digits, other characters before digits by their code.
\<close>

function collate_key :: "string \<Rightarrow> (nat \<times> nat) list" where
  "collate_key [] = []"
| "collate_key (c # cs) =
     (if is_digit c then (1, radix_value 10 (takeWhile is_digit (c # cs))) # collate_key (dropWhile is_digit cs)
      else (let n = (of_char c :: nat)
            in (if 65 \<le> n \<and> n \<le> 90 then (2, n + 32) else if 97 \<le> n \<and> n \<le> 122 then (2, n) else (0, n))
               # collate_key cs))"
  by pat_completeness auto

termination
  by (relation "measure length") (auto simp: le_imp_less_Suc length_dropWhile_le)

definition version_collator :: "string comparator" where
  "version_collator = key collate_key default"

subsection \<open>Lemmas\<close>

lemma last_dropWhile: "dropWhile P xs \<noteq> [] \<Longrightarrow> last (dropWhile P xs) = last xs"
  by (metis last_append takeWhile_dropWhile_id)

lemma js_trim_ends:
  assumes "js_trim s \<noteq> []"
  shows "\<not> js_whitespace (hd (js_trim s)) \<and> \<not> js_whitespace (last (js_trim s))"
proof -
  let ?Y = "dropWhile js_whitespace s"
  let ?Z = "dropWhile js_whitespace (rev ?Y)"
  have Z1: "?Z \<noteq> []" using assms by (simp add: js_trim_def)
  then have Z2: "?Y \<noteq> []" by (cases ?Y) auto
  note Z = Z1 Z2
  have "last ?Z = hd ?Y" using Z by (simp add: last_dropWhile last_rev)
  then have "\<not> js_whitespace (last ?Z)" using Z(2) hd_dropWhile[of js_whitespace s] by simp
  moreover have "\<not> js_whitespace (hd ?Z)" using Z(1) by (rule hd_dropWhile)
  ultimately show ?thesis using Z by (simp add: js_trim_def hd_rev last_rev)
qed

lemma js_trim_idem [simp]: "js_trim (js_trim s) = js_trim s"
proof (cases "js_trim s = []")
  case True
  then show ?thesis by (simp only: True) (simp add: js_trim_def)
next
  case False
  then show ?thesis using js_trim_id[OF False] js_trim_ends[OF False] by blast
qed

lemma set_js_trim: "set (js_trim s) \<subseteq> set s"
  unfolding js_trim_def by (auto dest!: set_dropWhileD)

lemma js_split_pieces: "p \<in> set (js_split sep s) \<Longrightarrow> sep \<notin> set p"
proof (induction s arbitrary: p)
  case Nil
  then show ?case by (simp add: js_split_def)
next
  case (Cons c s)
  then show ?case
    by (cases "js_split sep s") (auto simp: js_split_Cons split: if_splits)
qed

subsection \<open>Properties of the version lists\<close>

text \<open>
  \<open>getVersions\<close> returns the directory entries without a leading
  \<open>.gitkeep\<close>, each as often as listed, in collator order; entries the collator
  finds equal keep the order of the listing.
\<close>

lemma getVersions_sorted_perm:
  "Sorting_Algorithms.sorted collator (getVersions collator versions)
   \<and> mset (getVersions collator versions)
       = mset (if versions \<noteq> [] \<and> hd versions = ''.gitkeep'' then tl versions else versions)
   \<and> (\<forall>v. filter (\<lambda>w. compare collator v w = Equiv) (getVersions collator versions)
          = filter (\<lambda>w. compare collator v w = Equiv)
              (if versions \<noteq> [] \<and> hd versions = ''.gitkeep'' then tl versions else versions))"
  by (simp add: getVersions_def stable_sort)

text \<open>
  C26. Only a \<open>.gitkeep\<close> that \<open>readdir\<close> lists first is dropped; anywhere else
  in the listing it is returned as a version (and compared with every other one).
\<close>

theorem getVersions_gitkeep_kept:
  assumes "''.gitkeep'' \<in> set versions" "hd versions \<noteq> ''.gitkeep''"
  shows "''.gitkeep'' \<in> set (getVersions collator versions)"
  using assms by (simp add: getVersions_def)

theorem getVersions_gitkeep_kept_witness:
  "''.gitkeep'' \<in> set (getVersions version_collator [''1.0'', ''.gitkeep'', ''2.0''])"
  using getVersions_gitkeep_kept[of "[''1.0'', ''.gitkeep'', ''2.0'']" version_collator] by simp

text \<open>
  The example of the specification: the numeric collator orders
  \<open>1.0, 1.10, 1.2\<close> as \<open>1.0, 1.2, 1.10\<close>.
\<close>

lemma version_collator_spec_example:
  "getVersions version_collator [''1.0'', ''1.10'', ''1.2''] = [''1.0'', ''1.2'', ''1.10'']"
  by code_simp

text \<open>
  Without \<open>--tags\<close> and \<open>--tags-from-file\<close> (or with empty values),
  \<open>parseTags\<close> throws its configuration error.
\<close>

lemma parseTags_missing:
  assumes "\<not> js_truthy_str (tagsFromFile options)" "\<not> js_truthy_str (tags options)"
  shows "parseTags collator options data = Inl missing_tags_error"
  using assms by (simp add: parseTags_def)

text \<open>
  C29. \<open>--tags t1,...,tn\<close> with non-empty tags without commas gives back exactly the
  tags, sorted.
\<close>

theorem parseTags_comma_roundtrip:
  assumes "ts \<noteq> []" "\<forall>t \<in> set ts. t \<noteq> [] \<and> CHR '','' \<notin> set t"
    and "\<not> js_truthy_str (tagsFromFile options)" "tags options = Some (js_join (CHR '','') ts)"
  shows "parseTags collator options data = Inr (Sorting_Algorithms.sort collator ts)"
proof -
  have split: "js_split (CHR '','') (js_join (CHR '','') ts) = ts"
    using assms(1,2) by (intro js_split_join) auto
  have "js_join (CHR '','') ts \<noteq> []"
    using assms(1,2) by (cases "(CHR '','', ts)" rule: js_join.cases) auto
  then show ?thesis
    using assms split by (simp add: parseTags_def js_truthy_str_def filter_id_conv)
qed

theorem parseTags_comma_roundtrip_witness:
  "parseTags version_collator \<lparr>tags = Some ''2.0,1.10,1.2'', tagsFromFile = None\<rparr> []
     = Inr [''1.2'', ''1.10'', ''2.0'']"
proof -
  have "parseTags version_collator \<lparr>tags = Some (js_join (CHR '','') [''2.0'', ''1.10'', ''1.2'']), tagsFromFile = None\<rparr> []
          = Inr (Sorting_Algorithms.sort version_collator [''2.0'', ''1.10'', ''1.2''])"
    by (rule parseTags_comma_roundtrip) (simp_all add: js_truthy_str_def)
  then show ?thesis by code_simp
qed

text \<open>
  C30. From a file, \<open>parseTags\<close> returns the non-blank lines, trimmed, sorted: every
  tag is non-empty, has no surrounding white space and no line break.
\<close>

theorem parseTags_file_clean:
  assumes "js_truthy_str (tagsFromFile options)"
  shows "\<exists>ts. parseTags collator options data = Inr ts \<and> Sorting_Algorithms.sorted collator ts
           \<and> (\<forall>t \<in> set ts. t \<noteq> [] \<and> js_trim t = t \<and> CHR 0x0A \<notin> set t)
           \<and> set ts = js_trim ` set (js_split (CHR 0x0A) data) - {[]}"
proof -
  have "CHR 0x0A \<notin> set (js_trim l)" if "l \<in> set (js_split (CHR 0x0A) data)" for l
    using js_split_pieces[OF that] set_js_trim[of l] by blast
  then show ?thesis using assms by (auto simp: parseTags_def)
qed

theorem parseTags_file_clean_witness:
  "js_truthy_str (tagsFromFile \<lparr>tags = None, tagsFromFile = Some ''tags.txt''\<rparr>)
   \<and> parseTags version_collator \<lparr>tags = None, tagsFromFile = Some ''tags.txt''\<rparr> '' 1.2 \<newline>\<newline>1.0\<newline>''
       = Inr [''1.0'', ''1.2'']"
proof -
  have h: "js_truthy_str (tagsFromFile \<lparr>tags = None, tagsFromFile = Some ''tags.txt''\<rparr>)"
    by (simp add: js_truthy_str_def)
  from parseTags_file_clean[OF h, of version_collator "'' 1.2 \<newline>\<newline>1.0\<newline>''"]
  have "\<exists>ts. parseTags version_collator \<lparr>tags = None, tagsFromFile = Some ''tags.txt''\<rparr> '' 1.2 \<newline>\<newline>1.0\<newline>'' = Inr ts"
    by blast
  moreover have "parseTags version_collator \<lparr>tags = None, tagsFromFile = Some ''tags.txt''\<rparr> '' 1.2 \<newline>\<newline>1.0\<newline>''
     = Inr [''1.0'', ''1.2'']" by code_simp
  ultimately show ?thesis using h by blast
qed

text \<open>
  For a tag and a URL without spaces, \<open>import\<close> runs exactly
  \<open>git clone --depth 1 --branch tag --single-branch url tag\<close>.
\<close>

theorem clone_args_exact:
  assumes "tag \<noteq> []" "CHR '' '' \<notin> set tag" "url \<noteq> []" "CHR '' '' \<notin> set url"
  shows "clone_args url tag = [''clone'', ''--depth'', ''1'', ''--branch'', tag, ''--single-branch'', url, tag]"
proof -
  have eq: "''clone --depth 1 --branch '' @ tag @ '' --single-branch '' @ url @ '' '' @ tag
          = js_join (CHR '' '') [''clone'', ''--depth'', ''1'', ''--branch'', tag, ''--single-branch'', url, tag]"
    by simp
  show ?thesis unfolding clone_args_def eq using assms by (intro js_split_join) auto
qed

theorem clone_args_exact_witness:
  "clone_args ''https://github.com/jquery/jquery.git'' ''3.6.0''
     = [''clone'', ''--depth'', ''1'', ''--branch'', ''3.6.0'', ''--single-branch'',
        ''https://github.com/jquery/jquery.git'', ''3.6.0'']"
  using clone_args_exact[of "''3.6.0''" "''https://github.com/jquery/jquery.git''"] by simp

end
