(* ===== verification/Commands.thy ===== *)
theory Commands
  imports Versions
begin

text \<open>
  The pure parts of the glue code: the option objects \<open>src/main.js\<close> and
  \<open>src/import.js\<close> hand to \<open>App\<close> and \<open>Importer\<close>, the argument vectors of the
  processes the code spawns (\<open>cloc\<close>, \<open>npx jsinspect\<close>, \<open>php phpcpd\<close>,
  \<open>git ls-remote\<close>), the paths it builds, the rows of the bar chart, and the dispatch of
  \<open>Importer.run\<close>. \<open>commander\<close> is not modelled: what it received is the record
  \<open>main_flags\<close> (an option given on the command line or not); its defaults and the
  \<open>choices\<close> check of \<open>--language\<close> are those the source declares. \<open>path.join\<close> is a
  parameter \<open>join\<close> on the list of segments. Spawning, \<open>pug\<close> and the file system are
  not modelled.
\<close>

subsection \<open>Command lines\<close>

text \<open>\<open>process.argv[i]\<close>: \<open>undefined\<close> past the end.\<close>

definition argv_at :: "string list \<Rightarrow> nat \<Rightarrow> string option" where
  "argv_at argv i = (if i < length argv then Some (argv ! i) else None)"

text \<open>\<open>v || d\<close> for a string or \<open>undefined\<close>.\<close>

definition js_or_str :: "string option \<Rightarrow> string \<Rightarrow> string" where
  "js_or_str v d = (case v of Some s \<Rightarrow> if s \<noteq> [] then s else d | None \<Rightarrow> d)"

text \<open>What \<open>commander\<close> received for the options of \<open>main.js\<close> (lines 7 to 16).\<close>

record main_flags =
  given_language :: "string option"
  given_inputDir :: "string option"
  given_inputSubDir :: "string option"
  given_outputDir :: "string option"
  given_useClocCache :: bool
  given_clocCacheFile :: "string option"
  given_useHeatmapCache :: bool
  given_heatmapCacheFile :: "string option"

text \<open>The options object of \<open>App\<close>.\<close>

record app_options =
  method_arg :: string
  language :: string
  inputDir :: string
  inputSubDir :: string
  outputDir :: string
  useClocCache :: bool
  clocCacheFile :: string
  useHeatmapCache :: bool
  heatmapCacheFile :: string

definition with_default :: "string option \<Rightarrow> string \<Rightarrow> string" where
  "with_default v d = (case v of Some s \<Rightarrow> s | None \<Rightarrow> d)"

text \<open>
  Lines 4 to 23: the declared defaults, the \<open>choices\<close> of \<open>--language\<close> (commander
  exits with an error on another value), and \<open>{method: process.argv[2] || '0',
  ...program.opts()}\<close>.
\<close>

definition main_options :: "string list \<Rightarrow> main_flags \<Rightarrow> js_error + app_options" where
  "main_options argv given =
     (let lang = with_default (given_language given) ''php''
      in if lang \<noteq> ''php'' \<and> lang \<noteq> ''javascript''
         then Inl (Error (''error: option '' @ [CHR 0x27] @ ''--language <type>'' @ [CHR 0x27] @ '' argument ''
                          @ [CHR 0x27] @ lang @ [CHR 0x27] @ '' is invalid. Allowed choices are php, javascript.''))
         else Inr \<lparr>method_arg = js_or_str (argv_at argv 2) ''0'',
                   language = lang,
                   inputDir = with_default (given_inputDir given) ''input'',
                   inputSubDir = with_default (given_inputSubDir given) ''input'',
                   outputDir = with_default (given_outputDir given) ''output'',
                   useClocCache = given_useClocCache given,
                   clocCacheFile = with_default (given_clocCacheFile given) ''output/cloc.csv'',
                   useHeatmapCache = given_useHeatmapCache given,
                   heatmapCacheFile = with_default (given_heatmapCacheFile given) ''output/heatmap.json''\<rparr>)"

text \<open>\<open>import.js\<close>, lines 14 to 17: the URL is \<open>process.argv[2] || '0'\<close>.\<close>

definition import_url :: "string list \<Rightarrow> string" where
  "import_url argv = js_or_str (argv_at argv 2) ''0''"

subsection \<open>Importer.run\<close>

text \<open>\<open>`ls-remote --tags ${this.options.url}`.split(' ')\<close>.\<close>

definition ls_remote_args :: "string \<Rightarrow> string list" where
  "ls_remote_args url = js_split (CHR '' '') (''ls-remote --tags '' @ url)"

text \<open>\<open>run()\<close>: list the tags, or parse them (which may throw) and clone each one; the
  result is the list of \<open>git\<close> argument vectors spawned.\<close>

definition importer_run ::
  "string comparator \<Rightarrow> string \<Rightarrow> bool \<Rightarrow> importer_options \<Rightarrow> string \<Rightarrow> js_error + string list list" where
  "importer_run collator url listTags options data =
     (if listTags then Inr [ls_remote_args url]
      else case parseTags collator options data of
             Inl e \<Rightarrow> Inl e
           | Inr tag_list \<Rightarrow> Inr (import_commands url tag_list))"

subsection \<open>Paths and argument vectors of App\<close>

text \<open>Line 63: \<open>path.join(this.options.inputDir, version, this.options.inputSubDir)\<close>.\<close>

definition version_dir_map :: "(string list \<Rightarrow> string) \<Rightarrow> app_options \<Rightarrow> version \<Rightarrow> string" where
  "version_dir_map join options version = join [inputDir options, version, inputSubDir options]"

text \<open>Line 73: the glob handed to \<open>cloc\<close>.\<close>

definition src_path :: "app_options \<Rightarrow> string" where
  "src_path options =
     inputDir options @ (if inputSubDir options \<noteq> [] then ''/**/'' @ inputSubDir options @ ''/**'' else [])"

text \<open>Lines 158 to 164.\<close>

definition clocArgs :: "(string list \<Rightarrow> string) \<Rightarrow> app_options \<Rightarrow> string \<Rightarrow> string list" where
  "clocArgs join options directory =
     [if language options = ''php'' then ''--force-lang=PHP,php'' else ''--force-lang=Javascript,js'',
      directory, ''--skip-uniqueness'', ''--csv'', ''--out'', join [outputDir options, ''cloc.csv''], ''--by-file'']"

text \<open>Lines 68 to 75: the report \<open>parseClocCsv\<close> reads, the cache or the one \<open>cloc\<close>
  writes.\<close>

definition cloc_file :: "(string list \<Rightarrow> string) \<Rightarrow> app_options \<Rightarrow> string" where
  "cloc_file join options =
     (if useClocCache options then clocCacheFile options else join [outputDir options, ''cloc.csv''])"

text \<open>Lines 226 to 244: the \<open>npx\<close> command and its arguments.\<close>

definition npx_command :: "string \<Rightarrow> string" where
  "npx_command platform = (if take 3 platform = ''win'' then ''npx.cmd'' else ''npx'')"

definition jsinspect_args :: "string \<Rightarrow> string \<Rightarrow> string list" where
  "jsinspect_args left right =
     [''jsinspect'', ''-r'', ''json'', ''-m'', ''2'', ''-t'', ''30'', ''--ignore'', ''\"test|dist\"'',
      ''--no-identifiers'', ''--no-literals'', ''--truncate'', ''0'', left, right]"

text \<open>Lines 259 to 268.\<close>

definition phpcpd_args :: "string \<Rightarrow> string \<Rightarrow> string list" where
  "phpcpd_args left right =
     [''-d'', ''memory_limit=512M'', ''vendor/bin/phpcpd'', ''--min-lines'', ''5'', ''--min-tokens'', ''70'', left, right]"

text \<open>Lines 122 to 125: the rows of the bar chart; a version without a line count shows
  \<open>undefined\<close>.\<close>

datatype chart_entry = Label string | Lines "jsnum option"

definition chartData :: "version list \<Rightarrow> (version \<rightharpoonup> jsnum) \<Rightarrow> chart_entry list list" where
  "chartData versions version_loc_map =
     [Label ''jQuery version'', Label ''Lines of Code''] # map (\<lambda>version. [Label version, Lines (version_loc_map version)]) versions"

subsection \<open>Properties\<close>

text \<open>
  C17. \<open>import.js\<close> takes the URL from \<open>process.argv[2]\<close>, the first command-line
  word, not from the declared \<open><url>\<close> argument: when an option comes first
  (\<open>node import.js --tags v1.0 https://...\<close>), every \<open>git clone\<close> gets that option
  as its repository URL.
\<close>

theorem importer_run_url_first_argument:
  assumes "a \<noteq> []" "parseTags collator options data = Inr tag_list"
  shows "importer_run collator (import_url (n # s # a # rest)) False options data = Inr (map (clone_args a) tag_list)"
  using assms by (simp add: importer_run_def import_url_def js_or_str_def argv_at_def import_commands_def)

theorem importer_run_url_first_argument_witness:
  "importer_run version_collator
     (import_url [''node'', ''import.js'', ''--tags'', ''v1.0'', ''https://github.com/github/catalyst.git''])
     False \<lparr>tags = Some ''v1.0'', tagsFromFile = None\<rparr> []
   = Inr [[''clone'', ''--depth'', ''1'', ''--branch'', ''v1.0'', ''--single-branch'', ''--tags'', ''v1.0'']]"
proof -
  have "parseTags version_collator \<lparr>tags = Some ''v1.0'', tagsFromFile = None\<rparr> [] = Inr [''v1.0'']"
    by code_simp
  moreover have "map (clone_args ''--tags'') [''v1.0'']
      = [[''clone'', ''--depth'', ''1'', ''--branch'', ''v1.0'', ''--single-branch'', ''--tags'', ''v1.0'']]"
    by code_simp
  ultimately show ?thesis
    using importer_run_url_first_argument[of "''--tags''" version_collator _ "[]" _ "''node''" "''import.js''"
      "[''v1.0'', ''https://github.com/github/catalyst.git'']"] by simp
qed

end
