(* ===== verification/Json.thy ===== *)
theory Json
  imports Matrix
begin

text \<open>
  The heatmap cache of \<open>App.run\<close> (\<open>src/src/App.js\<close>, line 86): a fresh run writes
  \<open>JSON.stringify(matrix)\<close> of the compared matrix to \<open>heatmap.json\<close>. JSON values
  are the datatype \<open>json\<close>; \<open>JSON_stringify\<close> is the serialisation of the matrix at
  the level of values: a non-finite number is written as \<open>null\<close>, a property whose
  value is \<open>undefined\<close> is left out, the others keep their creation order. The
  printing of the text is not modelled, nor the reading of the cache, where JavaScript
  uses the parsed object as it is.
\<close>

datatype json = OBJECT "(string \<times> json) list" | ARRAY "json list" | NUMBER real | STRING string
  | BOOL bool | NULL

subsection \<open>JSON.stringify\<close>

text \<open>A number: finite values are written, \<open>NaN\<close> and the infinities as \<open>null\<close>.\<close>

fun json_num :: "jsnum \<Rightarrow> json" where
  "json_num (Fin r) = NUMBER r"
| "json_num PInf = NULL"
| "json_num NInf = NULL"
| "json_num NaN = NULL"

text \<open>A property whose value is \<open>undefined\<close> is left out of the object.\<close>

definition json_prop :: "string \<Rightarrow> ('a \<Rightarrow> json) \<Rightarrow> 'a option \<Rightarrow> (string \<times> json) list" where
  "json_prop k f v = (case v of None \<Rightarrow> [] | Some x \<Rightarrow> [(k, f x)])"

text \<open>A cell object, its properties in the order they were created: the four of the
  literal of \<open>createRichMatrix\<close>, then \<open>matches\<close> and the display properties.\<close>

definition json_of_cell :: "cell \<Rightarrow> json" where
  "json_of_cell c = OBJECT ([(''left'', STRING (left c)), (''right'', STRING (right c))]
     @ json_prop ''loc_left'' json_num (loc_left c) @ json_prop ''loc_right'' json_num (loc_right c)
     @ json_prop ''matches'' json_num (matches c) @ json_prop ''ratio'' json_num (ratio c)
     @ json_prop ''color'' STRING (color c) @ json_prop ''width'' json_num (width c)
     @ json_prop ''height'' json_num (height c))"

text \<open>An entry of a row: a cell object or the \<open>null\<close> of \<open>createRichMatrix\<close>.\<close>

definition json_entry :: "cell option \<Rightarrow> json" where
  "json_entry x = (case x of None \<Rightarrow> NULL | Some c \<Rightarrow> json_of_cell c)"

definition JSON_stringify :: "matrix \<Rightarrow> json" where
  "JSON_stringify m = ARRAY (map (\<lambda>row. ARRAY (map json_entry row)) m)"

end
