(* ===== verification/World.thy ===== *)
theory World
  imports Commands Compare Cloc Json
begin

text \<open>
  The effects of the code of \<open>src/\<close> on its surroundings, as explicit state passing on
  the record \<open>world\<close>: the working directory, the directories and files of the file
  system, the temporary files of \<open>tmp.fileSync\<close>, the processes spawned (in order, with
  the directory they run in) and the lines written to the console. Files and directories
  are named by the path the code passes, relative to the project root: both constructors
  change to the project root before any file is touched, and only \<open>Importer.import\<close> leaves it,
  after its last file access. The external tools are parameters: their output, how much of
  it has reached the temporary file when the \<open>exit\<close> event fires, and the parse of a
  report. An operation that throws returns \<open>Inl\<close> with the world as it was when the
  exception was raised.
\<close>

record world =
  cwd :: string
  directories :: "string set"
  files :: "string \<rightharpoonup> string"
  tmp_files :: "nat \<rightharpoonup> string"
  tmp_next :: nat
  spawned :: "(string \<times> string \<times> string list) list"
  console :: "string list"

subsection \<open>Primitive effects\<close>

text \<open>\<open>fs.existsSync(path)\<close>: a directory or a file.\<close>

definition existsSync :: "string \<Rightarrow> world \<Rightarrow> bool" where
  "existsSync path w \<longleftrightarrow> path \<in> directories w \<or> files w path \<noteq> None"

text \<open>\<open>if (!fs.existsSync(dir)) fs.mkdirSync(dir, {recursive: true})\<close>; the parent
  directories \<open>recursive\<close> also creates are not tracked.\<close>

definition mkdir_if_missing :: "string \<Rightarrow> world \<Rightarrow> world" where
  "mkdir_if_missing dir w = (if existsSync dir w then w else w\<lparr>directories := insert dir (directories w)\<rparr>)"

definition chdir :: "string \<Rightarrow> world \<Rightarrow> world" where
  "chdir dir w = w\<lparr>cwd := dir\<rparr>"

text \<open>\<open>cp.spawn(command, args, ...)\<close>, run in the current directory.\<close>

definition spawn :: "string \<Rightarrow> string list \<Rightarrow> world \<Rightarrow> world" where
  "spawn command args w = w\<lparr>spawned := spawned w @ [(cwd w, command, args)]\<rparr>"

definition console_log :: "string \<Rightarrow> world \<Rightarrow> world" where
  "console_log line w = w\<lparr>console := console w @ [line]\<rparr>"

definition writeFileSync :: "string \<Rightarrow> string \<Rightarrow> world \<Rightarrow> world" where
  "writeFileSync path content w = w\<lparr>files := (files w)(path \<mapsto> content)\<rparr>"

text \<open>\<open>fs.readFileSync(path)\<close>: throws \<open>ENOENT\<close> on a missing file.\<close>

definition readFileSync :: "string \<Rightarrow> world \<Rightarrow> js_error + string" where
  "readFileSync path w =
     (case files w path of
        Some content \<Rightarrow> Inr content
      | None \<Rightarrow> Inl (Error (''ENOENT: no such file or directory, open '' @ [CHR 0x27] @ path @ [CHR 0x27])))"

text \<open>\<open>tmp.fileSync()\<close>: a new empty file with a name not used before.\<close>

definition tmp_fileSync :: "world \<Rightarrow> nat \<times> world" where
  "tmp_fileSync w = (tmp_next w, w\<lparr>tmp_files := (tmp_files w)(tmp_next w \<mapsto> []), tmp_next := Suc (tmp_next w)\<rparr>)"

definition tmp_removeCallback :: "nat \<Rightarrow> world \<Rightarrow> world" where
  "tmp_removeCallback n w = w\<lparr>tmp_files := (tmp_files w)(n := None)\<rparr>"

subsection \<open>App.debug\<close>

text \<open>\<open>String.prototype.padEnd\<close> with a one-character filler; a longer string is kept.\<close>

definition padEnd :: "string \<Rightarrow> nat \<Rightarrow> char \<Rightarrow> string" where
  "padEnd s n c = s @ replicate (n - length s) c"

text \<open>Lines 438 to 441.\<close>

definition debug_line :: "string \<Rightarrow> string \<Rightarrow> string" where
  "debug_line type message = padEnd (''['' @ type @ '']'') 16 (CHR '' '') @ '' '' @ message"

definition debug :: "string \<Rightarrow> string \<Rightarrow> world \<Rightarrow> world" where
  "debug type message w = console_log (debug_line type message) w"

subsection \<open>Comparisons and their temporary files\<close>

text \<open>
  Lines 211 to 223: a temporary file receives the standard output of the spawned tool
  through a write stream, and the callback runs on the \<open>exit\<close> event. Node emits
  \<open>exit\<close> possibly before the stream has been flushed: \<open>flushed\<close> characters of the
  output \<open>out\<close> are in the file then.
\<close>

definition compareVersions ::
  "string \<Rightarrow> nat \<Rightarrow> (nat \<Rightarrow> world \<Rightarrow> (js_error + jsnum) \<times> world) \<Rightarrow> world \<Rightarrow> (js_error + jsnum) \<times> world" where
  "compareVersions out flushed callback w =
     (case tmp_fileSync w of
        (tmpFile, w1) \<Rightarrow> callback tmpFile (w1\<lparr>tmp_files := (tmp_files w1)(tmpFile \<mapsto> take flushed out)\<rparr>))"

definition read_tmp :: "nat \<Rightarrow> world \<Rightarrow> js_error + string" where
  "read_tmp n w =
     (case tmp_files w n of Some content \<Rightarrow> Inr content | None \<Rightarrow> Inl (Error ''ENOENT: no such file or directory''))"

text \<open>Lines 245 to 255: \<open>JSON.parse\<close> (the parameter \<open>JSON_parse\<close>, \<open>None\<close> where it
  throws a \<open>SyntaxError\<close>), the sum over the instances, then the removal.\<close>

definition jsinspect_callback ::
  "(string \<Rightarrow> js_match list option) \<Rightarrow> nat \<Rightarrow> world \<Rightarrow> (js_error + jsnum) \<times> world" where
  "jsinspect_callback JSON_parse tmpFile w =
     (case read_tmp tmpFile w of
        Inl e \<Rightarrow> (Inl e, w)
      | Inr content \<Rightarrow>
          (case JSON_parse content of
             None \<Rightarrow> (Inl SyntaxError, w)
           | Some parsed \<Rightarrow> (Inr (jsinspect_count parsed), tmp_removeCallback tmpFile w)))"

text \<open>Lines 272 to 286: the regular expression, \<open>console.error(content)\<close> and the count
  \<open>0\<close> when it does not match, then the removal.\<close>

definition phpcpd_callback :: "nat \<Rightarrow> world \<Rightarrow> (js_error + jsnum) \<times> world" where
  "phpcpd_callback tmpFile w =
     (case read_tmp tmpFile w of
        Inl e \<Rightarrow> (Inl e, w)
      | Inr content \<Rightarrow>
          (Inr (php_count content),
           tmp_removeCallback tmpFile (if php_regex content = None then console_log content w else w)))"

text \<open>Lines 225 to 256.\<close>

definition compareVersionsJavaScript ::
  "string \<Rightarrow> (string \<Rightarrow> js_match list option) \<Rightarrow> string \<Rightarrow> string \<Rightarrow> string \<Rightarrow> nat \<Rightarrow> world
     \<Rightarrow> (js_error + jsnum) \<times> world" where
  "compareVersionsJavaScript platform JSON_parse left_path right_path out flushed w =
     compareVersions out flushed (jsinspect_callback JSON_parse)
       (spawn (npx_command platform) (jsinspect_args left_path right_path)
         (debug ''jsinspect'' (''npx '' @ js_join (CHR '' '') (jsinspect_args left_path right_path)) w))"

text \<open>Lines 258 to 287.\<close>

definition compareVersionsPHP ::
  "string \<Rightarrow> string \<Rightarrow> string \<Rightarrow> nat \<Rightarrow> world \<Rightarrow> (js_error + jsnum) \<times> world" where
  "compareVersionsPHP left_path right_path out flushed w =
     compareVersions out flushed phpcpd_callback
       (spawn ''php'' (phpcpd_args left_path right_path)
         (debug ''phpcpd'' (''php '' @ js_join (CHR '' '') (phpcpd_args left_path right_path)) w))"

subsection \<open>Line counts and views of App\<close>

text \<open>Lines 44 to 50: the constructor logs and changes to the project root.\<close>

definition new_App :: "string \<Rightarrow> world \<Rightarrow> world" where
  "new_App project_root w = chdir project_root (debug ''app'' ''Firing up'' w)"

text \<open>\<open>parseClocCsv(file)\<close>, lines 177 to 181: \<open>csv-parse\<close> (the parameter \<open>csv_parse\<close>)
  of the file read, then the fold of \<open>parseClocCsv\<close>.\<close>

definition parseClocCsv_file ::
  "(string \<Rightarrow> cloc_row list) \<Rightarrow> string \<Rightarrow> string \<Rightarrow> world \<Rightarrow> js_error + (string \<rightharpoonup> jsnum)" where
  "parseClocCsv_file csv_parse platform file w =
     (case readFileSync file w of Inl e \<Rightarrow> Inl e | Inr text \<Rightarrow> parseClocCsv platform (csv_parse text))"

text \<open>Lines 156 to 171: log, spawn \<open>cloc\<close>, which writes its report (the parameter
  \<open>cloc\<close> gives it for the arguments), and on \<open>exit\<close> parse the report.\<close>

definition calculateLinesOfCode ::
  "(string list \<Rightarrow> string) \<Rightarrow> (string list \<Rightarrow> string) \<Rightarrow> (string \<Rightarrow> cloc_row list) \<Rightarrow> string \<Rightarrow> app_options
     \<Rightarrow> string \<Rightarrow> world \<Rightarrow> (js_error + (string \<rightharpoonup> jsnum)) \<times> world" where
  "calculateLinesOfCode join cloc csv_parse platform options directory w =
     (let args = clocArgs join options directory;
          w' = writeFileSync (join [outputDir options, ''cloc.csv'']) (cloc args)
                 (spawn ''cloc'' args (debug ''cloc'' (js_join (CHR '' '') args) w))
      in (parseClocCsv_file csv_parse platform (join [outputDir options, ''cloc.csv'']) w', w'))"

text \<open>The locals the two \<open>pug\<close> templates are rendered with.\<close>

datatype pug_locals = Barchart "chart_entry list list" nat | HeatmapView matrix "version list"

text \<open>Lines 121 to 135 and 143 to 150; \<open>pug\<close> renders a template file with locals.\<close>

definition viewBarchart ::
  "(string \<Rightarrow> pug_locals \<Rightarrow> string) \<Rightarrow> (version \<rightharpoonup> jsnum) \<Rightarrow> version list \<Rightarrow> string \<Rightarrow> string \<Rightarrow> world \<Rightarrow> world" where
  "viewBarchart pug version_loc_map versions pugFile outputFile w =
     writeFileSync outputFile (pug pugFile (Barchart (chartData versions version_loc_map) 400)) w"

definition viewHeatmap ::
  "(string \<Rightarrow> pug_locals \<Rightarrow> string) \<Rightarrow> matrix \<Rightarrow> version list \<Rightarrow> string \<Rightarrow> string \<Rightarrow> world \<Rightarrow> world" where
  "viewHeatmap pug matrix versions pugFile outputFile w =
     writeFileSync outputFile (pug pugFile (HeatmapView matrix versions)) w"

subsection \<open>Statement vocabulary\<close>

text \<open>Every live temporary file has a name below the next one \<open>tmp.fileSync\<close> gives.\<close>

definition tmp_fresh :: "world \<Rightarrow> bool" where
  "tmp_fresh w \<longleftrightarrow> (\<forall>n \<in> dom (tmp_files w). n < tmp_next w)"

subsection \<open>Lemmas\<close>

lemma tmp_fresh_next [simp]: "tmp_fresh w \<Longrightarrow> tmp_files w (tmp_next w) = None"
  by (auto simp: tmp_fresh_def)

lemma tmp_fields_spawn [simp]:
  "tmp_files (spawn c a w) = tmp_files w" "tmp_next (spawn c a w) = tmp_next w"
  "tmp_files (debug t m w) = tmp_files w" "tmp_next (debug t m w) = tmp_next w"
  "tmp_files (console_log l w) = tmp_files w" "tmp_next (console_log l w) = tmp_next w"
  by (simp_all add: spawn_def debug_def console_log_def)

lemma tmp_fresh_spawn [simp]:
  "tmp_fresh (spawn c a w) = tmp_fresh w" "tmp_fresh (debug t m w) = tmp_fresh w"
  by (simp_all add: tmp_fresh_def)

lemma compareVersions_tmp:
  "compareVersions out flushed callback w
     = callback (tmp_next w) (w\<lparr>tmp_next := Suc (tmp_next w),
                               tmp_files := (tmp_files w)(tmp_next w \<mapsto> take flushed out)\<rparr>)"
  by (simp add: compareVersions_def tmp_fileSync_def)

lemma remove_fresh [simp]: "tmp_fresh w \<Longrightarrow> (tmp_files w)(tmp_next w := None) = tmp_files w"
  by (rule fun_upd_idem) (rule tmp_fresh_next)

lemma tmp_fresh_Suc:
  "tmp_fresh w \<Longrightarrow> tmp_files w' = tmp_files w \<Longrightarrow> tmp_next w' = Suc (tmp_next w) \<Longrightarrow> tmp_fresh w'"
  by (auto simp: tmp_fresh_def dom_def)

lemmas world_simps = compareVersions_tmp read_tmp_def tmp_removeCallback_def console_log_def spawn_def debug_def

lemma compareVersionsPHP_result:
  "compareVersionsPHP left_path right_path out flushed w =
     (Inr (php_count (take flushed out)),
      (let w1 = spawn ''php'' (phpcpd_args left_path right_path)
                  (debug ''phpcpd'' (''php '' @ js_join (CHR '' '') (phpcpd_args left_path right_path)) w);
           w2 = (if php_regex (take flushed out) = None then console_log (take flushed out) w1 else w1)
       in w2\<lparr>tmp_next := Suc (tmp_next w),
             tmp_files := ((tmp_files w)(tmp_next w \<mapsto> take flushed out))(tmp_next w := None)\<rparr>))"
  by (simp add: compareVersionsPHP_def phpcpd_callback_def world_simps Let_def)

subsection \<open>Properties\<close>

text \<open>
  C3. A PHP comparison always releases its temporary file, whether or not the
  summary line matches: the count is that of the part of the output in the file, the
  temporary files are those before the call, the freshness of the names is kept, one
  \<open>php\<close> process was spawned, and the console has the debug line and, when the
  regular expression does not match, the raw output.
\<close>

theorem compareVersionsPHP_cleanup:
  assumes "tmp_fresh w"
  shows "fst (compareVersionsPHP left_path right_path out flushed w) = Inr (php_count (take flushed out))
    \<and> tmp_files (snd (compareVersionsPHP left_path right_path out flushed w)) = tmp_files w
    \<and> tmp_fresh (snd (compareVersionsPHP left_path right_path out flushed w))
    \<and> spawned (snd (compareVersionsPHP left_path right_path out flushed w))
          = spawned w @ [(cwd w, ''php'', phpcpd_args left_path right_path)]
    \<and> console (snd (compareVersionsPHP left_path right_path out flushed w))
          = console w @ [debug_line ''phpcpd'' (''php '' @ js_join (CHR '' '') (phpcpd_args left_path right_path))]
              @ (if php_regex (take flushed out) = None then [take flushed out] else [])"
  using assms by (simp add: compareVersionsPHP_result world_simps Let_def tmp_fresh_Suc)

theorem compareVersionsPHP_cleanup_witness:
  "tmp_fresh \<lparr>cwd = ''/repo'', directories = {}, files = Map.empty, tmp_files = Map.empty, tmp_next = 0, spawned = [], console = []\<rparr>
   \<and> tmp_files (snd (compareVersionsPHP ''a'' ''b'' ''no summary'' 10
        \<lparr>cwd = ''/repo'', directories = {}, files = Map.empty, tmp_files = Map.empty, tmp_next = 0, spawned = [], console = []\<rparr>))
       = Map.empty"
  using compareVersionsPHP_cleanup[of "\<lparr>cwd = ''/repo'', directories = {}, files = Map.empty, tmp_files = Map.empty,
    tmp_next = 0, spawned = [], console = []\<rparr>" "''a''" "''b''" "''no summary''" 10]
  by (simp add: tmp_fresh_def)

text \<open>
  C21. A jsinspect comparison releases its temporary file only when \<open>JSON.parse\<close> of the
  file succeeds. When it throws, the \<open>SyntaxError\<close> escapes the \<open>exit\<close> handler and the
  temporary file stays behind with the partial output in it, against the spec's
  acquire-then-release discipline.
\<close>

theorem compareVersionsJavaScript_tmp:
  assumes "tmp_fresh w"
  shows "compareVersionsJavaScript platform JSON_parse left_path right_path out flushed w =
    (let w1 = spawn (npx_command platform) (jsinspect_args left_path right_path)
                (debug ''jsinspect'' (''npx '' @ js_join (CHR '' '') (jsinspect_args left_path right_path)) w)
     in case JSON_parse (take flushed out) of
          None \<Rightarrow> (Inl SyntaxError, w1\<lparr>tmp_next := Suc (tmp_next w),
                                      tmp_files := (tmp_files w)(tmp_next w \<mapsto> take flushed out)\<rparr>)
        | Some parsed \<Rightarrow> (Inr (jsinspect_count parsed), w1\<lparr>tmp_next := Suc (tmp_next w), tmp_files := tmp_files w\<rparr>))"
  using assms
  by (simp add: compareVersionsJavaScript_def jsinspect_callback_def world_simps Let_def split: option.split)

theorem compareVersionsJavaScript_tmp_witness:
  "fst (compareVersionsJavaScript ''linux'' (\<lambda>s. if s = ''[]'' then Some [] else None) ''a'' ''b'' ''[]'' 1
          \<lparr>cwd = ''/repo'', directories = {}, files = Map.empty, tmp_files = Map.empty, tmp_next = 0, spawned = [], console = []\<rparr>)
     = Inl SyntaxError
   \<and> tmp_files (snd (compareVersionsJavaScript ''linux'' (\<lambda>s. if s = ''[]'' then Some [] else None) ''a'' ''b'' ''[]'' 1
          \<lparr>cwd = ''/repo'', directories = {}, files = Map.empty, tmp_files = Map.empty, tmp_next = 0, spawned = [], console = []\<rparr>))
     = [0 \<mapsto> ''['']"
  using compareVersionsJavaScript_tmp[of "\<lparr>cwd = ''/repo'', directories = {}, files = Map.empty, tmp_files = Map.empty,
    tmp_next = 0, spawned = [], console = []\<rparr>" "''linux''" "\<lambda>s. if s = ''[]'' then Some [] else None" "''a''" "''b''" "''[]''" 1]
  by (simp add: tmp_fresh_def Let_def)

end
