(* ===== verification/Import.thy ===== *)
theory Import
  imports World
begin

text \<open>
  \<open>src/import.js\<close> and \<open>src/src/Importer.js\<close> on the world of \<open>World\<close>: the
  options object, the constructor (change to the project root, create the output
  directory), \<open>parseTags\<close> reading the tags file, \<open>import\<close> (change to the output
  directory, one \<open>git clone\<close> per tag), \<open>listTags\<close> and \<open>run\<close>. The pure parts
  (\<open>parseTags\<close> on the file contents, the argument vectors) are those of \<open>Versions\<close>
  and \<open>Commands\<close>. \<open>path.join\<close> is the parameter \<open>join\<close>.
\<close>

subsection \<open>Definitions\<close>

text \<open>What \<open>commander\<close> received for the options of \<open>import.js\<close> (lines 8 to 11).\<close>

record import_flags =
  given_listTags :: bool
  given_importOutputDir :: "string option"
  given_tags :: "string option"
  given_tagsFromFile :: "string option"

text \<open>The options object of \<open>Importer\<close>: those \<open>parseTags\<close> reads, and the others.\<close>

record import_opts = importer_options +
  url :: string
  listTags :: bool
  importOutputDir :: string

text \<open>Lines 9 and 14 to 17 of \<open>import.js\<close>: \<open>{url: process.argv[2] || '0',
  ...program.opts()}\<close> with the default output directory \<open>imported\<close>.\<close>

definition import_options :: "string list \<Rightarrow> import_flags \<Rightarrow> import_opts" where
  "import_options argv given =
     \<lparr>tags = given_tags given, tagsFromFile = given_tagsFromFile given, url = import_url argv,
      listTags = given_listTags given,
      importOutputDir = with_default (given_importOutputDir given) ''imported''\<rparr>"

text \<open>Lines 13 to 23.\<close>

definition new_Importer :: "string \<Rightarrow> import_opts \<Rightarrow> world \<Rightarrow> world" where
  "new_Importer project_root options w = mkdir_if_missing (importOutputDir options) (chdir project_root w)"

text \<open>Lines 35 to 49, reading the tags file (\<open>process.chdir(cwd)\<close> changes nothing).\<close>

definition Importer_parseTags :: "string comparator \<Rightarrow> import_opts \<Rightarrow> world \<Rightarrow> js_error + string list" where
  "Importer_parseTags collator options w =
     (case tagsFromFile options of
        Some file \<Rightarrow>
          if file \<noteq> [] then
            (case readFileSync file w of
               Inl e \<Rightarrow> Inl e
             | Inr data \<Rightarrow> parseTags collator (importer_options.truncate options) data)
          else parseTags collator (importer_options.truncate options) []
      | None \<Rightarrow> parseTags collator (importer_options.truncate options) [])"

text \<open>Lines 51 to 61: change to the output directory, then one \<open>git clone\<close> per tag.\<close>

definition Importer_import ::
  "string comparator \<Rightarrow> (string list \<Rightarrow> string) \<Rightarrow> import_opts \<Rightarrow> world \<Rightarrow> (js_error + unit) \<times> world" where
  "Importer_import collator join options w =
     (case Importer_parseTags collator options w of
        Inl e \<Rightarrow> (Inl e, w)
      | Inr tag_list \<Rightarrow>
          (Inr (), fold (\<lambda>tag. spawn ''git'' (clone_args (url options) tag)) tag_list
                     (chdir (join [cwd w, importOutputDir options]) w)))"

text \<open>Lines 66 to 69.\<close>

definition Importer_listTags :: "import_opts \<Rightarrow> world \<Rightarrow> world" where
  "Importer_listTags options w = spawn ''git'' (ls_remote_args (url options)) w"

text \<open>Lines 25 to 30.\<close>

definition Importer_run ::
  "string comparator \<Rightarrow> (string list \<Rightarrow> string) \<Rightarrow> import_opts \<Rightarrow> world \<Rightarrow> (js_error + unit) \<times> world" where
  "Importer_run collator join options w =
     (if listTags options then (Inr (), Importer_listTags options w) else Importer_import collator join options w)"

text \<open>\<open>import.js\<close>, lines 12 to 19: build the options, construct, run.\<close>

definition import_main ::
  "string comparator \<Rightarrow> (string list \<Rightarrow> string) \<Rightarrow> string \<Rightarrow> string list \<Rightarrow> import_flags \<Rightarrow> world
     \<Rightarrow> (js_error + unit) \<times> world" where
  "import_main collator join project_root argv given w =
     Importer_run collator join (import_options argv given) (new_Importer project_root (import_options argv given) w)"

subsection \<open>Lemmas\<close>

lemma Importer_parseTags_files:
  "files w' = files w \<Longrightarrow> Importer_parseTags collator options w' = Importer_parseTags collator options w"
  unfolding Importer_parseTags_def readFileSync_def by (simp split: option.split)

lemma fold_spawn:
  "fold (\<lambda>x. spawn c (f x)) xs w
     = w\<lparr>spawned := spawned w @ map (\<lambda>x. (cwd w, c, f x)) xs\<rparr>"
  by (induction xs arbitrary: w) (simp_all add: spawn_def)

lemma new_Importer_fields [simp]:
  "files (new_Importer r options w) = files w" "cwd (new_Importer r options w) = r"
  "spawned (new_Importer r options w) = spawned w" "console (new_Importer r options w) = console w"
  "existsSync (importOutputDir options) (new_Importer r options w)"
  by (simp_all add: new_Importer_def mkdir_if_missing_def chdir_def existsSync_def)

lemma import_options_fields [simp]:
  "importOutputDir (import_options argv given) = with_default (given_importOutputDir given) ''imported''"
  "listTags (import_options argv given) = given_listTags given"
  "url (import_options argv given) = import_url argv"
  by (simp_all add: import_options_def)

lemma existsSync_fields:
  "directories w' = directories w \<Longrightarrow> files w' = files w \<Longrightarrow> existsSync p w' = existsSync p w"
  by (simp add: existsSync_def)

subsection \<open>Properties\<close>

text \<open>
  C7. \<open>node import.js\<close> without \<open>--list-tags\<close>, when the tags parse: the output
  directory exists afterwards, the process has moved into it, and one \<open>git clone\<close> of
  the URL per tag was spawned there, in the sorted order of the tags; no file was
  touched and nothing was logged.
\<close>

theorem import_main_clones:
  assumes "\<not> given_listTags given" "Importer_parseTags collator (import_options argv given) w = Inr tag_list"
  defines "d \<equiv> with_default (given_importOutputDir given) ''imported''"
  shows "\<exists>w'. import_main collator join project_root argv given w = (Inr (), w')
    \<and> existsSync d w' \<and> cwd w' = join [project_root, d]
    \<and> spawned w' = spawned w @ map (\<lambda>tag. (join [project_root, d], ''git'', clone_args (import_url argv) tag)) tag_list
    \<and> files w' = files w \<and> console w' = console w"
proof -
  let ?o = "import_options argv given"
  let ?w1 = "new_Importer project_root ?o w"
  let ?cmds = "map (\<lambda>tag. (join [project_root, d], ''git'', clone_args (import_url argv) tag)) tag_list"
  have parse: "Importer_parseTags collator ?o ?w1 = Inr tag_list"
    using assms(2) Importer_parseTags_files[of ?w1 w collator ?o] by simp
  have "import_main collator join project_root argv given w = Importer_import collator join ?o ?w1"
    using assms(1) by (simp add: import_main_def Importer_run_def)
  also have "\<dots> = (Inr (), fold (\<lambda>tag. spawn ''git'' (clone_args (url ?o) tag)) tag_list
                           (chdir (join [cwd ?w1, importOutputDir ?o]) ?w1))"
    by (simp only: Importer_import_def parse sum.case)
  also have "\<dots> = (Inr (), (chdir (join [project_root, d]) ?w1)\<lparr>spawned := spawned w @ ?cmds\<rparr>)"
    by (simp add: fold_spawn d_def chdir_def)
  finally have run: "import_main collator join project_root argv given w
      = (Inr (), (chdir (join [project_root, d]) ?w1)\<lparr>spawned := spawned w @ ?cmds\<rparr>)" .
  have "existsSync d ((chdir (join [project_root, d]) ?w1)\<lparr>spawned := spawned w @ ?cmds\<rparr>)"
    using new_Importer_fields(5)[where r=project_root and options="?o" and w=w]
    by (simp add: d_def existsSync_def chdir_def)
  then show ?thesis
    using run by (simp add: chdir_def)
qed


theorem import_main_clones_witness:
  "\<exists>w'. import_main version_collator (js_join (CHR ''/'')) ''/repo'' [''node'', ''import.js'', ''https://x/r.git'', ''--tags'', ''v2.0,v1.0''] \<lparr>given_listTags = False, given_importOutputDir = None, given_tags = Some ''v2.0,v1.0'', given_tagsFromFile = None\<rparr> \<lparr>cwd = ''/home/u'', directories = {}, files = Map.empty, tmp_files = Map.empty, tmp_next = 0, spawned = [], console = []\<rparr> = (Inr (), w')
     \<and> existsSync ''imported'' w' \<and> cwd w' = ''/repo/imported''
     \<and> spawned w' = [(''/repo/imported'', ''git'', clone_args ''https://x/r.git'' ''v1.0''),
                      (''/repo/imported'', ''git'', clone_args ''https://x/r.git'' ''v2.0'')]
     \<and> files w' = Map.empty \<and> console w' = []"
proof -
  have "Importer_parseTags version_collator (import_options [''node'', ''import.js'', ''https://x/r.git'', ''--tags'', ''v2.0,v1.0''] \<lparr>given_listTags = False, given_importOutputDir = None, given_tags = Some ''v2.0,v1.0'', given_tagsFromFile = None\<rparr>) \<lparr>cwd = ''/home/u'', directories = {}, files = Map.empty, tmp_files = Map.empty, tmp_next = 0, spawned = [], console = []\<rparr> = Inr [''v1.0'', ''v2.0'']"
    by code_simp
  moreover have "import_url [''node'', ''import.js'', ''https://x/r.git'', ''--tags'', ''v2.0,v1.0''] = ''https://x/r.git''"
    by (simp add: import_url_def js_or_str_def argv_at_def)
  ultimately show ?thesis
    using import_main_clones[of "\<lparr>given_listTags = False, given_importOutputDir = None, given_tags = Some ''v2.0,v1.0'', given_tagsFromFile = None\<rparr>" version_collator "[''node'', ''import.js'', ''https://x/r.git'', ''--tags'', ''v2.0,v1.0'']" "\<lparr>cwd = ''/home/u'', directories = {}, files = Map.empty, tmp_files = Map.empty, tmp_next = 0, spawned = [], console = []\<rparr>" "[''v1.0'', ''v2.0'']" "js_join (CHR ''/'')" "''/repo''"]
    by (simp add: with_default_def)
qed

text \<open>
  C10. A tags file that does not exist makes \<open>node import.js --tags-from-file f\<close>
  throw \<open>ENOENT\<close> from \<open>parseTags\<close>, after the constructor has created the output
  directory: the process stays in the project root and no \<open>git\<close> process is spawned.
\<close>

theorem import_main_missing_file:
  assumes "\<not> given_listTags given" "given_tagsFromFile given = Some file" "file \<noteq> []" "files w file = None"
  defines "d \<equiv> with_default (given_importOutputDir given) ''imported''"
  shows "\<exists>w'. import_main collator join project_root argv given w
      = (Inl (Error (''ENOENT: no such file or directory, open '' @ [CHR 0x27] @ file @ [CHR 0x27])), w')
    \<and> existsSync d w' \<and> cwd w' = project_root \<and> spawned w' = spawned w"
proof -
  let ?o = "import_options argv given"
  let ?w1 = "new_Importer project_root ?o w"
  have "Importer_parseTags collator ?o ?w1
      = Inl (Error (''ENOENT: no such file or directory, open '' @ [CHR 0x27] @ file @ [CHR 0x27]))"
    using assms(2-4) by (simp add: Importer_parseTags_def readFileSync_def import_options_def)
  then have "import_main collator join project_root argv given w
      = (Inl (Error (''ENOENT: no such file or directory, open '' @ [CHR 0x27] @ file @ [CHR 0x27])), ?w1)"
    using assms(1) by (simp add: import_main_def Importer_run_def Importer_import_def)
  moreover have "existsSync d ?w1"
    unfolding d_def using new_Importer_fields(5)[where r=project_root and options="?o" and w=w] by simp
  ultimately show ?thesis
    by simp
qed

theorem import_main_missing_file_witness:
  "\<exists>w'. import_main version_collator (js_join (CHR ''/'')) ''/repo'' [''node'', ''import.js'', ''u'']
      \<lparr>given_listTags = False, given_importOutputDir = Some ''out'', given_tags = None, given_tagsFromFile = Some ''tags.txt''\<rparr>
      \<lparr>cwd = ''/home/u'', directories = {}, files = Map.empty, tmp_files = Map.empty, tmp_next = 0, spawned = [], console = []\<rparr> = (Inl (Error (''ENOENT: no such file or directory, open '' @ [CHR 0x27] @ ''tags.txt'' @ [CHR 0x27])), w')
    \<and> existsSync ''out'' w' \<and> cwd w' = ''/repo'' \<and> spawned w' = []"
  using import_main_missing_file[of "\<lparr>given_listTags = False, given_importOutputDir = Some ''out'', given_tags = None,
    given_tagsFromFile = Some ''tags.txt''\<rparr>" "''tags.txt''" "\<lparr>cwd = ''/home/u'', directories = {}, files = Map.empty, tmp_files = Map.empty, tmp_next = 0, spawned = [], console = []\<rparr>" version_collator "js_join (CHR ''/'')" "''/repo''"
    "[''node'', ''import.js'', ''u'']"]
  by (simp add: with_default_def)

end
