(* ===== verification/Spec2Isabelle.thy ===== *)
theory Spec2Isabelle
  imports Batch Compare Cloc Commands Import
begin

text \<open>
  \<^bold>\<open>A verification development for version-comparison-heatmap.\<close>

  The program (\<open>src/main.js\<close>, \<open>src/src/App.js\<close>, \<open>src/src/helpers.js\<close>) compares
  successive versions of a code base: it counts lines per version with \<open>cloc\<close>, runs a
  duplicate detector (\<open>jsinspect\<close> or \<open>phpcpd\<close>) on every pair of versions, and renders
  a bar chart and a heatmap. \<open>src/import.js\<close> and \<open>src/src/Importer.js\<close> fetch the
  versions as git tags. The parts and how they interact:
  \<^item> the matrix builder \<open>App.createRichMatrix\<close> makes the lower-triangular skeleton of
    cells from the sorted version list and the line-count map;
  \<^item> the batch comparator \<open>App.augmentComparisonMatrix\<close> fills \<open>matches\<close> of every
    cell by external processes, at most ten at a time with a barrier between batches;
  \<^item> the normaliser \<open>App.findMinMaxMatrix\<close>, \<open>App.findMeanMatrix\<close> and
    \<open>helpers.minmax\<close>, \<open>helpers.round\<close> scale the raw values;
  \<^item> the colour mapper \<open>helpers.percentageToColor\<close> turns a ratio into \<open>rgb(...)\<close>;
  \<^item> the report assembler \<open>App.augmentHeatmapMatrix\<close> combines them into the cells the
    heatmap template displays;
  \<^item> the comparison functions \<open>compareVersionsJavaScript\<close> and \<open>compareVersionsPHP\<close>
    turn a tool report into the count the batch comparator stores, \<open>parseClocCsv\<close>
    turns the \<open>cloc\<close> report into the line-count map, \<open>getVersions\<close> lists the
    versions, and \<open>App.run\<close> composes all of them;
  \<^item> \<open>Importer.parseTags\<close> and \<open>Importer.import\<close> read the tag list and clone
    each tag.

  \<^bold>\<open>Theories.\<close>
  \<^item> \<open>Prelude\<close>: the named collections \<open>js_simps\<close> and \<open>matrix_simps\<close>, rows with
    absent entries (\<open>present\<close>, \<open>fold_present\<close>: the nested \<open>forEach\<close> that skips
    \<open>null\<close>), counting the lower triangle, convex combinations under \<open>floor\<close>.
  \<^item> \<open>JsNumber\<close>: JavaScript numbers as \<open>Fin real | PInf | NInf | NaN\<close> with the
    operations the code uses (\<open>+ - * /\<close>, \<open><\<close>, truthiness, \<open>||\<close>, \<open>Math.floor\<close>,
    \<open>Math.round\<close>, printing of integral values). Finite arithmetic is exact real
    arithmetic: the rounding of IEEE doubles and the sign of zero are not modelled;
    infinities and \<open>NaN\<close>, on which the code's \<open>|| 0\<close> and \<open>!min\<close> tests depend, are.
    Results that depend on rounding at an integer or a tie (the floored colour channels,
    \<open>Math.round\<close> of the phpcpd count) are therefore lemmas of exact arithmetic, not
    claims about the program.
    \<open>undefined\<close> is read as \<open>NaN\<close> (\<open>js_val None\<close>), which is what it behaves as in
    every context the code puts it in.
  \<^item> \<open>Helpers\<close> (\<open>helpers.js\<close>): \<open>percentColors\<close>, the search loop \<open>pc_index\<close> (a
    \<^theory_text>\<open>function\<close> with a measure: the loop variable survives the loop),
    \<open>interpolate\<close> and \<open>mix_channel\<close> (lines 20 to 30), \<open>percentageToRgb\<close>,
    \<open>rgb_string\<close>, \<open>percentageToColor\<close>, \<open>helpers_round\<close>, \<open>minmax\<close>,
    \<open>helpers_normalize\<close>. Lemmas: the loop brackets its input (C2), each channel lies
    between its anchors and in \<open>[0, 255]\<close> (in exact arithmetic), the anchor colours, the range
    of \<open>minmax\<close> (C4) and its behaviour on a degenerate range (C5), the rounding error.
  \<^item> \<open>Matrix\<close> (\<open>App.js\<close>): the record \<open>cell\<close> (one field per property the code
    sets; \<open>None\<close> while unset or \<open>undefined\<close>), \<open>createRichMatrix\<close>,
    \<open>minmax_step\<close> and \<open>findMinMaxMatrix\<close>, \<open>findMeanMatrix\<close>, \<open>cell_ratio\<close> and
    \<open>cell_display\<close> (the two passes of \<open>augmentHeatmapMatrix\<close>), and
    \<open>augmentHeatmapMatrix\<close>. Lemmas: the skeleton is strictly lower-triangular (C6) with
    \<open>N(N-1)/2\<close> cells, the scans on positive data (C8), the scan forgets a 0 (C9),
    the mean, the display pass keeps the cell identities, on positive data
    every displayed cell has a ratio in \<open>[0, 1]\<close> and sizes in \<open>[10, 30]\<close> (C1), and
    without line counts the heatmap is blank (C20).
  \<^item> \<open>Batch\<close> (\<open>App.augmentComparisonMatrix\<close>, lines 327 to 358): the record
    \<open>bstate\<close> (matrix, cells still to visit, the \<open>promises\<close> array, comparisons in
    flight with the count each will deliver, the control point \<open>phase\<close>,
    \<open>this.processed\<close>) and the step relation \<^theory_text>\<open>inductive batch_step\<close>:
    the control thread issues one comparison (\<open>issue\<close>, lines 332 to 345), passes the
    barrier of \<open>Promise.all\<close> once every comparison of the batch completed
    (\<open>barrier_done\<close>, lines 345 to 349), leaves the loop (\<open>loop_end\<close>), returns
    after the final await (\<open>final_done\<close>, line 355); a comparison in flight completes
    (\<open>complete\<close>, the callback of lines 338 to 344) in any order, but only while the
    control thread awaits, since JavaScript runs callbacks only on an empty stack. The
    row-major walk is \<open>cell_positions\<close>; the tool is a parameter \<open>cmp\<close> on the
    directories \<open>dirs\<close> of the versions (\<open>version_dir_map\<close>). The invariant
    \<open>batch_inv\<close> holds in every reachable state (\<open>batch_reach\<close>, by rule induction)
    and gives: at most ten comparisons in flight (C11), the barrier (C12), the result of
    every completed schedule is the sequential \<open>augmentComparisonMatrix_spec\<close> with
    \<open>processed\<close> counting every cell (C13), no deadlock (C14), termination of every
    schedule: \<open>batch_measure\<close> (four per unvisited cell, one per comparison in flight,
    two per promise, the rank of the control point) decreases at every step, some
    schedule completes (C15), no wrong count is ever stored (C16), and the skeleton of the
    matrix (shape, cell positions, versions, line counts) never changes (C27). A concrete run on
    two versions exercises every rule but \<open>barrier_done\<close>.

  \<^item> \<open>JsString\<close>: the runtime's string operations the parsers call: \<open>split\<close> on one
    character, \<open>trim\<close>, \<open>join\<close>, \<open>parseInt\<close> and \<open>Number(s)\<close> (decimal,
    exponent, \<open>Infinity\<close>, \<open>0x/0o/0b\<close>), on 8-bit characters with ASCII white
    space; the exceptions \<open>js_error\<close>. Lemmas read printed numbers back and split a
    joined list back.
  \<^item> \<open>Compare\<close> (\<open>App.js\<close> lines 225 to 287, 329): the parsed jsinspect report as
    records, \<open>jsinspect_count\<close>; the regular expression
    \<open>/(.*?)% duplicated lines.*?(\d+)/\<close> as a backtracking matcher in the engine's
    order (\<open>lazy_digits\<close>, \<open>lazy_group\<close>, \<open>php_regex\<close>), \<open>php_count\<close>, and
    the choice \<open>compare_fn\<close>. Claims: the sum over well-formed reports, with the
    example of the specification as witness (C18), \<open>NaN\<close> from a malformed instance
    (C19), the zero fallback, the reading of a summary line, again with
    the example of the specification (in exact arithmetic: the doubles of JavaScript can
    round a tie down).
  \<^item> \<open>Cloc\<close> (\<open>parseClocCsv\<close>, lines 177 to 202): rows with optional columns, the
    key regular expression \<open>version_segment\<close>, \<open>cloc_step\<close> with the
    \<open>TypeError\<close> of a missing file name. Claims: the totals on well-formed rows (C22),
    the key of the default layout (C23), a short row losing its version's earlier rows
    (C24), the \<open>TypeError\<close> (C25), and the equivalence of the key with the first
    non-empty piece between separators of \<open>split\<close> (C28).
  \<^item> \<open>Versions\<close> (\<open>getVersions\<close>, \<open>Importer.parseTags\<close>, \<open>import\<close>): sorting by
    the library's stable sort with the collator a parameter (for a total preorder every
    stable sort, the engine's too, gives this result), and a numeric-aware collator
    approximating ICU on ASCII version strings. Claims: a \<open>.gitkeep\<close> not listed first
    is kept (C26), the comma list round trip (C29), the file branch (C30), the exact
    \<open>git clone\<close> arguments; lemmas give the example ordering of the
    specification and the configuration error.
  \<^item> \<open>Commands\<close> (\<open>main.js\<close>, \<open>import.js\<close>, \<open>Importer.run\<close> and the argument
    vectors of \<open>App.js\<close>): the option record \<open>app_options\<close> built by
    \<open>main_options\<close> from what \<open>commander\<close> received (\<open>main_flags\<close>) with the
    declared defaults and the \<open>--language\<close> choices, \<open>import_url\<close>,
    \<open>importer_run\<close>, \<open>version_dir_map\<close>, \<open>src_path\<close>, \<open>clocArgs\<close>,
    \<open>cloc_file\<close>, \<open>jsinspect_args\<close>, \<open>phpcpd_args\<close> and the bar chart rows
    \<open>chartData\<close>. Claim: the URL of \<open>import.js\<close> is the first command-line word,
    an option if one comes first (C17).
  \<^item> \<open>Json\<close> (\<open>App.js\<close> line 86): JSON values as a datatype and
    \<open>JSON_stringify\<close> of the compared matrix at the level of values (non-finite numbers
    become \<open>null\<close>, \<open>undefined\<close> properties are left out, in creation order).
  \<^item> \<open>World\<close>: the effects on the surroundings as explicit state passing on the record
    \<open>world\<close> (working directory, directories, files, temporary files and the next
    fresh name, spawned processes with their directory, console lines). Primitive effects
    (\<open>existsSync\<close>, \<open>mkdir_if_missing\<close>, \<open>chdir\<close>, \<open>spawn\<close>,
    \<open>readFileSync\<close> with \<open>ENOENT\<close>, \<open>writeFileSync\<close>, \<open>tmp_fileSync\<close>,
    \<open>tmp_removeCallback\<close>), \<open>App.debug\<close> (\<open>padEnd\<close>, \<open>debug_line\<close>),
    \<open>compareVersions\<close> with the two exit callbacks and \<open>compareVersionsJavaScript\<close>,
    \<open>compareVersionsPHP\<close> (lines 211 to 287), the constructor \<open>new_App\<close>,
    \<open>calculateLinesOfCode\<close> and \<open>parseClocCsv_file\<close> (lines 156 to 181),
    \<open>viewBarchart\<close> and \<open>viewHeatmap\<close>. The tool output, the part of it flushed
    to the temporary file when \<open>exit\<close> fires, \<open>JSON.parse\<close>, \<open>csv-parse\<close>, the
    report \<open>cloc\<close> writes and \<open>pug\<close> are parameters. The invariant \<open>tmp_fresh\<close>
    (every live temporary file has a name below the next fresh one) is kept. Claims: a
    PHP comparison always releases its temporary file and counts the part of the output
    flushed to it when \<open>exit\<close> fires (C3), a jsinspect comparison leaks its
    temporary file and throws when the report does not parse (C21).
  \<^item> \<open>Import\<close> (\<open>import.js\<close>, \<open>Importer.js\<close> on the world): the options object
    \<open>import_options\<close> with the default \<open>imported\<close>, the constructor
    \<open>new_Importer\<close>, \<open>Importer_parseTags\<close> reading the tags file,
    \<open>Importer_import\<close>, \<open>Importer_listTags\<close>, \<open>Importer_run\<close> and
    \<open>import_main\<close>. Claims: the clones run in the created output directory, one per
    tag in sorted order (C7), and a missing tags file throws \<open>ENOENT\<close> after the output
    directory was created, with no clone (C10).
  \<^item> This theory: \<open>total_comparisons\<close>; \<open>run_heatmap\<close>, \<open>App.run\<close> without caches
    (lines 60 to 88) as a relation over completed schedules of the batch comparator; and
    \<open>run_app\<close>, the whole of \<open>main.js\<close> and \<open>App.run\<close>, one rule per outcome: the
    option error, the exceptions of the directory listing, of reading and parsing the
    \<open>cloc\<close> report and of reading the cache, the \<open>SyntaxError\<close> of a jsinspect report
    that does not parse, the cached heatmap and the computed one. Claims: every run of the
    program stops with the exception of the first step that throws or renders the bar
    chart and the sequential specification (or the cache) and ends with
    \<open>processed = total_comparisons\<close> (C31), and on positive data every rendered cell is
    displayable (C32). A lemma evaluates the \<open>!min\<close> defect end to end: one zero count
    renders another pair as \<open>-0.667\<close> in \<open>rgb(935,255,255)\<close>.

  \<^bold>\<open>What the proofs show about the code.\<close> The normalisation is correct only where
  every scanned value is positive. \<open>findMinMaxMatrix\<close> uses \<open>!min\<close> for "not set yet";
  a value 0 (a pair of versions with no duplicated line, which is common) resets the
  minimum, so the minimum becomes that of the values after the last 0 (C9); cells with a
  smaller ratio then get a negative normalised ratio, and the gradient, which does not
  clamp, gives them channels above 255 (\<open>rgb(1275,255,255)\<close> at \<open>-1\<close>).
  \<open>minmax\<close> returns 0 on a degenerate range only when the value equals the bound; above
  it gives \<open>Infinity\<close> (C5). A lemma shows the same defect through the whole run. Around
  it: a short \<open>cloc\<close> row silently drops its version's earlier rows (C24), a
  \<open>.gitkeep\<close> may become a version (C26), and a malformed jsinspect instance turns a
  count into \<open>NaN\<close>, rendered as ratio 0 (C19); such a \<open>NaN\<close> is written to the
  heatmap cache as \<open>null\<close>, which a cached run reads as 0. On the process
  side, the comparison callbacks read the temporary file on \<open>exit\<close>, possibly before
  the output is flushed (C3 counts only what reached the file), and the jsinspect callback neither survives nor cleans up
  after a report that does not parse (C21).

  The comment of \<open>augmentComparisonMatrix\<close> (lines 319 to 323) says it adds
  \<open>matches\<close> and \<open>ratio\<close>; the code sets only \<open>matches\<close>, as C13 shows, and
  the ratio is added by \<open>augmentHeatmapMatrix\<close> afterwards.

  \<^bold>\<open>Not modelled.\<close> The external tools themselves (their output is a parameter),
  \<open>pug\<close> template rendering, the text of JSON and CSV (\<open>JSON.parse\<close>,
  \<open>csv-parse\<close> and the JSON printer are parameters or are taken at the level of
  values), the recognition of option words on the command line by \<open>commander\<close>
  (given as \<open>main_flags\<close> and \<open>import_flags\<close>), \<open>path.join\<close> (a parameter), the
  parent directories \<open>mkdirSync\<close> creates, the failure of \<open>process.chdir\<close>, the
  \<open>Intl\<close> collation beyond ASCII. The effects of \<open>App.run\<close> itself (its \<open>mkdir\<close>,
  debug lines and file writes) are definitions of \<open>World\<close> but are not composed into
  \<open>run_app\<close>, whose batch comparator runs on counts rather than on the world, so the
  progress lines and the temporary files of the comparisons inside a run are not
  interleaved with the batch schedule.
  A comparison that fails rejects \<open>Promise.all\<close> and aborts the run; the batch model
  assumes every comparison delivers a count.
\<close>

section \<open>The pipeline of \<open>App.run\<close>\<close>

text \<open>\<open>this.total_comparisons = (this.versions.length * (this.versions.length - 1)) / 2\<close>.\<close>

definition total_comparisons :: "version list \<Rightarrow> jsnum" where
  "total_comparisons versions =
     js_div (Fin (of_int (int (length versions) * (int (length versions) - 1)))) (Fin 2)"

text \<open>
  \<open>App.run\<close> without the caches (lines 52 to 98): the sorted versions of the directory
  listing, the skeleton over them and the line counts \<open>loc\<close>, the batch comparator
  run to its return under any schedule, the display pass; the heatmap and the final
  \<open>processed\<close> counter. \<open>cmp\<close> is the comparison function of line 329
  (\<open>compare_fn\<close>) and \<open>dirs\<close> the \<open>version_dir_map\<close> of line 63.
\<close>

inductive run_heatmap ::
  "string comparator \<Rightarrow> string list \<Rightarrow> (version \<rightharpoonup> jsnum) \<Rightarrow> ('p \<Rightarrow> 'p \<Rightarrow> jsnum) \<Rightarrow> (version \<Rightarrow> 'p)
     \<Rightarrow> matrix \<Rightarrow> nat \<Rightarrow> bool"
  for collator listing loc cmp dirs where
  run: "batch_reach cmp dirs (createRichMatrix (getVersions collator listing) loc) s \<Longrightarrow>
    bs_phase s = Finished \<Longrightarrow>
    run_heatmap collator listing loc cmp dirs (augmentHeatmapMatrix (bs_matrix s)) (bs_processed s)"

text \<open>
  The parsed jsinspect report of two directories, where \<open>JSON.parse\<close> succeeded
  (\<open>App.js\<close> line 246); the runs below use it only where it did.
\<close>

definition js_reports :: "(string \<Rightarrow> string \<Rightarrow> js_match list option) \<Rightarrow> string \<Rightarrow> string \<Rightarrow> js_match list" where
  "js_reports jsinspect a b = (case jsinspect a b of Some parsed \<Rightarrow> parsed | None \<Rightarrow> [])"

text \<open>
  The whole of \<open>main.js\<close> and \<open>App.run\<close> (lines 52 to 98), one rule per way it ends,
  in the order the code meets them: the options (which \<open>commander\<close> may reject), the
  directory listing of \<open>getVersions\<close> (\<open>readdir\<close> may throw, line 105), the
  \<open>cloc\<close> report the options select (\<open>readFileSync\<close> or \<open>csv-parse\<close> may throw,
  line 178, and \<open>parseClocCsv\<close> may throw its \<open>TypeError\<close>), then the heatmap: the
  cache (whose reading or \<open>JSON.parse\<close> may throw, line 82), or a completed run of the
  batch comparator with the tool of the chosen language on the directories of
  \<open>version_dir_map\<close>, where a jsinspect report of a compared pair that does not parse
  throws a \<open>SyntaxError\<close> from the exit handler (line 246) and ends the process.
  \<open>listing\<close> is the result of \<open>readdir\<close>, \<open>rows_of\<close> the parsed rows of a report
  file or the exception, \<open>cached\<close> the parsed \<open>heatmap.json\<close> or the exception,
  \<open>jsinspect\<close> the parse of the jsinspect output of two directories (\<open>None\<close> where
  \<open>JSON.parse\<close> throws) and \<open>phpcpd\<close> the phpcpd output.
\<close>

inductive run_app ::
  "string comparator \<Rightarrow> string \<Rightarrow> string list \<Rightarrow> main_flags \<Rightarrow> (string list \<Rightarrow> string)
     \<Rightarrow> (string \<Rightarrow> js_error + cloc_row list) \<Rightarrow> js_error + string list \<Rightarrow> js_error + matrix
     \<Rightarrow> (string \<Rightarrow> string \<Rightarrow> js_match list option) \<Rightarrow> (string \<Rightarrow> string \<Rightarrow> string)
     \<Rightarrow> js_error + chart_entry list list \<times> matrix \<times> nat \<Rightarrow> bool"
  for collator platform argv flags join rows_of listing cached jsinspect phpcpd where
  bad_options: "main_options argv flags = Inl e \<Longrightarrow>
    run_app collator platform argv flags join rows_of listing cached jsinspect phpcpd (Inl e)"
| listing_error: "main_options argv flags = Inr options \<Longrightarrow> listing = Inl e \<Longrightarrow>
    run_app collator platform argv flags join rows_of listing cached jsinspect phpcpd (Inl e)"
| cloc_read_error: "main_options argv flags = Inr options \<Longrightarrow> listing = Inr ls \<Longrightarrow>
    rows_of (cloc_file join options) = Inl e \<Longrightarrow>
    run_app collator platform argv flags join rows_of listing cached jsinspect phpcpd (Inl e)"
| cloc_error: "main_options argv flags = Inr options \<Longrightarrow> listing = Inr ls \<Longrightarrow>
    rows_of (cloc_file join options) = Inr rows \<Longrightarrow> parseClocCsv platform rows = Inl e \<Longrightarrow>
    run_app collator platform argv flags join rows_of listing cached jsinspect phpcpd (Inl e)"
| cache_error: "main_options argv flags = Inr options \<Longrightarrow> listing = Inr ls \<Longrightarrow>
    rows_of (cloc_file join options) = Inr rows \<Longrightarrow> parseClocCsv platform rows = Inr loc \<Longrightarrow>
    useHeatmapCache options \<Longrightarrow> cached = Inl e \<Longrightarrow>
    run_app collator platform argv flags join rows_of listing cached jsinspect phpcpd (Inl e)"
| cached: "main_options argv flags = Inr options \<Longrightarrow> listing = Inr ls \<Longrightarrow>
    rows_of (cloc_file join options) = Inr rows \<Longrightarrow> parseClocCsv platform rows = Inr loc \<Longrightarrow>
    useHeatmapCache options \<Longrightarrow> cached = Inr m \<Longrightarrow>
    run_app collator platform argv flags join rows_of listing cached jsinspect phpcpd
      (Inr (chartData (getVersions collator ls) loc, augmentHeatmapMatrix m, 0))"
| compare_error: "main_options argv flags = Inr options \<Longrightarrow> listing = Inr ls \<Longrightarrow>
    rows_of (cloc_file join options) = Inr rows \<Longrightarrow> parseClocCsv platform rows = Inr loc \<Longrightarrow>
    \<not> useHeatmapCache options \<Longrightarrow> language options \<noteq> ''php'' \<Longrightarrow>
    c \<in> set (cells (createRichMatrix (getVersions collator ls) loc)) \<Longrightarrow>
    jsinspect (version_dir_map join options (left c)) (version_dir_map join options (right c)) = None \<Longrightarrow>
    run_app collator platform argv flags join rows_of listing cached jsinspect phpcpd (Inl SyntaxError)"
| fresh: "main_options argv flags = Inr options \<Longrightarrow> listing = Inr ls \<Longrightarrow>
    rows_of (cloc_file join options) = Inr rows \<Longrightarrow> parseClocCsv platform rows = Inr loc \<Longrightarrow>
    \<not> useHeatmapCache options \<Longrightarrow>
    language options = ''php'' \<or> list_all (\<lambda>c. jsinspect (version_dir_map join options (left c))
                                    (version_dir_map join options (right c)) \<noteq> None)
                                  (cells (createRichMatrix (getVersions collator ls) loc)) \<Longrightarrow>
    run_heatmap collator ls loc (compare_fn (language options) (js_reports jsinspect) phpcpd)
      (version_dir_map join options) M p \<Longrightarrow>
    run_app collator platform argv flags join rows_of listing cached jsinspect phpcpd
      (Inr (chartData (getVersions collator ls) loc, M, p))"

subsection \<open>Lemmas\<close>

lemma run_heatmap_iff:
  "run_heatmap collator listing loc cmp dirs M p \<longleftrightarrow>
     M = augmentHeatmapMatrix (augmentComparisonMatrix_spec cmp dirs (createRichMatrix (getVersions collator listing) loc))
     \<and> p = length (getVersions collator listing) * (length (getVersions collator listing) - 1) div 2"
  (is "_ \<longleftrightarrow> M = augmentHeatmapMatrix (augmentComparisonMatrix_spec cmp dirs ?m) \<and> p = ?n")
proof
  assume "run_heatmap collator listing loc cmp dirs M p"
  then show "M = augmentHeatmapMatrix (augmentComparisonMatrix_spec cmp dirs ?m) \<and> p = ?n"
  proof cases
    case (run s)
    then show ?thesis
      using batch_inv_finished[OF batch_reach_inv[OF run(3)] run(4)] length_cells_createRichMatrix by simp
  qed
next
  assume eq: "M = augmentHeatmapMatrix (augmentComparisonMatrix_spec cmp dirs ?m) \<and> p = ?n"
  obtain s where s: "batch_reach cmp dirs ?m s" "bs_phase s = Finished"
    using batch_reach_finishes[OF batch_reach.start] by blast
  then show "run_heatmap collator listing loc cmp dirs M p"
    using run_heatmap.run[OF s] batch_inv_finished[OF batch_reach_inv[OF s(1)] s(2)] eq
      length_cells_createRichMatrix by simp
qed

lemma real_pairs: "real (n * (n - 1) div 2) = real_of_int (int n * (int n - 1)) / 2"
proof -
  have "even (n * (n - 1))" by auto
  then have "real (n * (n - 1) div 2) = real (n * (n - 1)) / 2" by (simp add: real_of_nat_div)
  moreover have "real (n * (n - 1)) = real_of_int (int n * (int n - 1))" by (cases n) (simp_all add: algebra_simps)
  ultimately show ?thesis by simp
qed

lemma total_comparisons_pairs:
  "total_comparisons vs = Fin (of_nat (length vs * (length vs - 1) div 2))"
  unfolding total_comparisons_def real_pairs by simp

lemma set_getVersions: "set (getVersions collator listing) \<subseteq> set listing"
  by (auto simp: getVersions_def dest: list.set_sel(2))

lemma spec_cells_positive:
  assumes "\<forall>v \<in> set vs. \<exists>l. loc v = Some (Fin l) \<and> 0 < l" "\<forall>a b. \<exists>k. cmp a b = Fin k \<and> 0 < k"
  shows "\<forall>c \<in> set (cells (augmentComparisonMatrix_spec cmp dirs (createRichMatrix vs loc))).
           \<exists>ll lr k. loc_left c = Some (Fin ll) \<and> loc_right c = Some (Fin lr)
             \<and> matches c = Some (Fin k) \<and> 0 < ll \<and> 0 < lr \<and> 0 < k"
proof
  fix c assume "c \<in> set (cells (augmentComparisonMatrix_spec cmp dirs (createRichMatrix vs loc)))"
  then obtain c0 where c0: "c0 \<in> set (cells (createRichMatrix vs loc))"
    and c: "c = c0\<lparr>matches := Some (cell_count cmp dirs c0)\<rparr>"
    by (auto simp: augmentComparisonMatrix_spec_def)
  obtain l r where lr: "l \<in> set vs" "r \<in> set vs" and c0': "c0 = new_cell l r (loc l) (loc r)"
    using set_cells_createRichMatrix[OF c0] by blast
  obtain ll lr' k where "loc l = Some (Fin ll)" "0 < ll" "loc r = Some (Fin lr')" "0 < lr'"
    "cmp (dirs l) (dirs r) = Fin k" "0 < k"
    using assms lr by meson
  then show "\<exists>ll lr k. loc_left c = Some (Fin ll) \<and> loc_right c = Some (Fin lr)
             \<and> matches c = Some (Fin k) \<and> 0 < ll \<and> 0 < lr \<and> 0 < k"
    using c c0' by (simp add: new_cell_def cell_count_def)
qed

text \<open>
  Four versions of 100 lines each, listed with a leading \<open>.gitkeep\<close>, whose pair
  \<open>(3, 1)\<close> shares no line: the display pass of the specified heatmap.
\<close>

lemma zero_count_heatmap:
  "\<exists>c \<in> set (cells (augmentHeatmapMatrix (augmentComparisonMatrix_spec
       (\<lambda>a b. Fin (case map_of [((''2'', ''1''), 20), ((''3'', ''1''), 0), ((''3'', ''2''), 60),
                                ((''4'', ''1''), 100), ((''4'', ''2''), 40), ((''4'', ''3''), 80)] (a, b) of
                       Some k \<Rightarrow> k | None \<Rightarrow> 0)) id
       (createRichMatrix (getVersions version_collator [''.gitkeep'', ''3'', ''1'', ''4'', ''2'']) (\<lambda>v. Some (Fin 100)))))).
     left c = ''3'' \<and> right c = ''1'' \<and> ratio c = Some (Fin (- 0.667)) \<and> color c = Some ''rgb(935,255,255)''"
  by code_simp

subsection \<open>Properties of the pipeline\<close>

text \<open>
  C31. Refinement of the whole program: \<open>main.js\<close> stops with the exception of the
  first step that throws, in the order of the code: the option error, the directory
  listing, the reading of the \<open>cloc\<close> report, the \<open>TypeError\<close> of
  \<open>parseClocCsv\<close>, then the reading of the cache or, without the cache, the
  \<open>SyntaxError\<close> of a jsinspect report of a compared pair that does not parse.
  Otherwise, whatever the schedule of the comparisons, it renders the bar chart of the
  sorted versions and either the cached heatmap (\<open>processed = 0\<close>) or the display
  pass of the sequential specification with the tool of the chosen language, and
  \<open>processed\<close> ends equal to \<open>total_comparisons\<close>.
\<close>

theorem run_app_spec:
  "run_app collator platform argv flags join rows_of listing cached jsinspect phpcpd R \<longleftrightarrow>
     (case main_options argv flags of
        Inl e \<Rightarrow> R = Inl e
      | Inr options \<Rightarrow>
          (case listing of
             Inl e \<Rightarrow> R = Inl e
           | Inr ls \<Rightarrow>
          (case rows_of (cloc_file join options) of
             Inl e \<Rightarrow> R = Inl e
           | Inr rows \<Rightarrow>
          (case parseClocCsv platform rows of
             Inl e \<Rightarrow> R = Inl e
           | Inr loc \<Rightarrow>
               (if useHeatmapCache options
                then (case cached of
                        Inl e \<Rightarrow> R = Inl e
                      | Inr m \<Rightarrow> R = Inr (chartData (getVersions collator ls) loc, augmentHeatmapMatrix m, 0))
                else if language options \<noteq> ''php''
                        \<and> (\<exists>c\<in>set (cells (createRichMatrix (getVersions collator ls) loc)).
                             jsinspect (version_dir_map join options (left c))
                                       (version_dir_map join options (right c)) = None)
                then R = Inl SyntaxError
                else \<exists>p. R = Inr (chartData (getVersions collator ls) loc,
                                  augmentHeatmapMatrix (augmentComparisonMatrix_spec
                                    (compare_fn (language options) (js_reports jsinspect) phpcpd)
                                    (version_dir_map join options)
                                    (createRichMatrix (getVersions collator ls) loc)), p)
                          \<and> Fin (of_nat p) = total_comparisons (getVersions collator ls))))))"
  (is "?run \<longleftrightarrow> ?spec")
proof
  assume ?run
  then show ?spec
    by cases (auto simp: run_heatmap_iff total_comparisons_pairs list_all_iff)
next
  assume ?spec
  then show ?run
    by (auto intro: run_app.intros simp: run_heatmap_iff total_comparisons_pairs list_all_iff
             split: sum.splits if_splits)
qed

text \<open>
  C32. End to end on positive data: when every listed version has a positive line count
  and every comparison finds a positive number of lines, every cell of the rendered
  heatmap has a ratio in \<open>[0, 1]\<close>, the colour of that ratio and sizes in
  \<open>[10, 30]\<close>.
\<close>

theorem run_heatmap_displayable:
  assumes "\<forall>v \<in> set listing. \<exists>l. loc v = Some (Fin l) \<and> 0 < l"
    and "\<forall>a b. \<exists>k. cmp a b = Fin k \<and> 0 < k"
    and "run_heatmap collator listing loc cmp dirs M p"
  shows "\<forall>c \<in> set (cells M). displayable c"
proof -
  have "\<forall>v \<in> set (getVersions collator listing). \<exists>l. loc v = Some (Fin l) \<and> 0 < l"
    using assms(1) set_getVersions by blast
  from heatmap_cells_displayable[OF spec_cells_positive[OF this assms(2)]]
  show ?thesis using assms(3) by (simp add: run_heatmap_iff)
qed

theorem run_heatmap_displayable_witness:
  "list_all displayable (cells (augmentHeatmapMatrix (augmentComparisonMatrix_spec (\<lambda>a b. Fin 7) id
     (createRichMatrix (getVersions version_collator [''1.0'', ''2.0'']) [''1.0'' \<mapsto> Fin 100, ''2.0'' \<mapsto> Fin 120]))))"
proof -
  have "run_heatmap version_collator [''1.0'', ''2.0''] [''1.0'' \<mapsto> Fin 100, ''2.0'' \<mapsto> Fin 120] (\<lambda>a b. Fin 7) id
          (augmentHeatmapMatrix (augmentComparisonMatrix_spec (\<lambda>a b. Fin 7) id
             (createRichMatrix (getVersions version_collator [''1.0'', ''2.0'']) [''1.0'' \<mapsto> Fin 100, ''2.0'' \<mapsto> Fin 120]))) 1"
    by (simp add: run_heatmap_iff getVersions_def)
  from run_heatmap_displayable[OF _ _ this] show ?thesis by (simp add: list_all_iff)
qed

text \<open>
  End to end, the \<open>!min\<close> defect: four versions of 100 lines whose pair
  \<open>(3, 1)\<close> shares no line. The zero count resets the minimum of the ratio scan, and
  the rendered heatmap shows that pair with the ratio \<open>-0.667\<close> and the colour
  \<open>rgb(935,255,255)\<close>, outside both the unit interval and the colour space.
\<close>

theorem run_heatmap_zero_count:
  assumes "run_heatmap version_collator [''.gitkeep'', ''3'', ''1'', ''4'', ''2''] (\<lambda>v. Some (Fin 100))
     (\<lambda>a b. Fin (case map_of [((''2'', ''1''), 20), ((''3'', ''1''), 0), ((''3'', ''2''), 60),
                              ((''4'', ''1''), 100), ((''4'', ''2''), 40), ((''4'', ''3''), 80)] (a, b) of
                     Some k \<Rightarrow> k | None \<Rightarrow> 0)) id M p"
  shows "\<exists>c \<in> set (cells M). left c = ''3'' \<and> right c = ''1''
           \<and> ratio c = Some (Fin (- 0.667)) \<and> color c = Some ''rgb(935,255,255)''"
  using assms zero_count_heatmap by (simp add: run_heatmap_iff)

theorem run_heatmap_zero_count_witness:
  "\<exists>c \<in> set (cells (augmentHeatmapMatrix (augmentComparisonMatrix_spec
       (\<lambda>a b. Fin (case map_of [((''2'', ''1''), 20), ((''3'', ''1''), 0), ((''3'', ''2''), 60),
                                ((''4'', ''1''), 100), ((''4'', ''2''), 40), ((''4'', ''3''), 80)] (a, b) of
                       Some k \<Rightarrow> k | None \<Rightarrow> 0)) id
       (createRichMatrix (getVersions version_collator [''.gitkeep'', ''3'', ''1'', ''4'', ''2'']) (\<lambda>v. Some (Fin 100)))))).
     left c = ''3'' \<and> right c = ''1'' \<and> ratio c = Some (Fin (- 0.667)) \<and> color c = Some ''rgb(935,255,255)''"
  by (rule run_heatmap_zero_count[of _ 6]) (simp add: run_heatmap_iff getVersions_def)

end
